(* ===== verification/Prelude.thy ===== *)
theory Prelude
  imports Main "HOL-Library.Char_ord" "HOL-Library.List_Lexorder"
    "HOL-Library.Product_Lexorder" "HOL-Library.Sublist" "HOL-Library.Multiset"
begin

text \<open>
  Shared vocabulary of the SkillBridge model: the JavaScript values and string
  primitives that the data layer (\<open>src/src/context/DataContext.jsx\<close>,
  \<open>src/src/context/AuthContext.jsx\<close>) uses, written as executable HOL functions,
  with the lemmas the component theories share.  JavaScript strings are modelled as
  \<open>string\<close> (lists of 8-bit characters); \<open>toLowerCase\<close>/\<open>toUpperCase\<close> are
  modelled on the ASCII letters, which is what the keyword table and the seeded data
  contain.
\<close>

named_theorems js_simps "evaluation rules of the JavaScript primitives of the model"

subsection \<open>Identifiers compared with \<open>===\<close>\<close>

text \<open>
  Listing and company ids are numbers for local data (\<open>Date.now()\<close>, mock ids)
  and strings for external data (\<open>`adzuna-${job.id}`\<close>).  Strict equality of
  JavaScript never equates a number with a string, which is exactly HOL equality on
  this datatype.
\<close>

datatype jsid = NumId int | StrId string

type_synonym timestamp = int
type_synonym day = int

subsection \<open>Case conversion\<close>

definition js_lower_char :: "char \<Rightarrow> char" where
  "js_lower_char c =
     (if CHR ''A'' \<le> c \<and> c \<le> CHR ''Z'' then char_of (of_char c + (32::nat)) else c)"

definition js_upper_char :: "char \<Rightarrow> char" where
  "js_upper_char c =
     (if CHR ''a'' \<le> c \<and> c \<le> CHR ''z'' then char_of (of_char c - (32::nat)) else c)"

definition toLowerCase :: "string \<Rightarrow> string" where
  "toLowerCase s = map js_lower_char s"

text \<open>\<open>term.charAt(0).toUpperCase() + term.slice(1)\<close>\<close>

fun capitalize :: "string \<Rightarrow> string" where
  "capitalize [] = []"
| "capitalize (c # cs) = js_upper_char c # cs"

subsection \<open>\<open>String.prototype.includes\<close>\<close>

primrec starts_with :: "string \<Rightarrow> string \<Rightarrow> bool" where
  "starts_with h [] = True"
| "starts_with h (c # cs) = (case h of [] \<Rightarrow> False | d # ds \<Rightarrow> d = c \<and> starts_with ds cs)"

fun js_includes :: "string \<Rightarrow> string \<Rightarrow> bool" where
  "js_includes h n = (starts_with h n \<or> (case h of [] \<Rightarrow> False | _ # t \<Rightarrow> js_includes t n))"

declare js_includes.simps [simp del]

subsection \<open>\<open>String.prototype.split\<close> with a one-character separator, and \<open>join\<close>\<close>

fun js_split :: "char \<Rightarrow> string \<Rightarrow> string list" where
  "js_split c [] = [[]]"
| "js_split c (x # xs) =
     (if x = c then [] # js_split c xs
      else (case js_split c xs of w # ws \<Rightarrow> (x # w) # ws | [] \<Rightarrow> [[x]]))"

fun js_join :: "string \<Rightarrow> string list \<Rightarrow> string" where
  "js_join sep [] = []"
| "js_join sep [w] = w"
| "js_join sep (w # ws) = w @ sep @ js_join sep ws"

subsection \<open>White space and \<open>String.prototype.trim\<close>\<close>

text \<open>
  The characters of \<open>\\s\<close> and of \<open>trim\<close> within the 8-bit range of the model:
  tab, line feed, vertical tab, form feed, carriage return, space and no-break space.
\<close>

definition js_ws :: "char \<Rightarrow> bool" where
  "js_ws c \<longleftrightarrow> of_char c \<in> {9, 10, 11, 12, 13, 32, 160 :: nat}"

definition js_trim :: "string \<Rightarrow> string" where
  "js_trim s = rev (dropWhile js_ws (rev (dropWhile js_ws s)))"

text \<open>\<open>Math.round\<close> of the exact quotient \<open>100 * m / n\<close>: \<open>floor (x + 1/2)\<close>.\<close>

definition round_percent :: "nat \<Rightarrow> nat \<Rightarrow> nat" where
  "round_percent m n = (200 * m + n) div (2 * n)"

subsection \<open>Exceptions and the scope of a component\<close>

text \<open>
  The exceptions the pages can throw: a \<open>TypeError\<close> (a property read on
  \<open>undefined\<close>, a call of a non-function) and a \<open>ReferenceError\<close> naming an
  identifier that is not in scope.  A thrown exception is \<open>Inl\<close>.
\<close>

datatype js_error = TypeError | ReferenceError string

text \<open>
  Rendering JSX evaluates \<open>React.createElement(C, ...)\<close> for every element \<open>C\<close>, in
  the order of the markup; an identifier \<open>C\<close> that the module neither declares nor
  imports throws a \<open>ReferenceError\<close> at the first such element.
\<close>

definition jsx_elements :: "string list \<Rightarrow> string list \<Rightarrow> js_error + unit" where
  "jsx_elements scope cs =
     (case find (\<lambda>c. c \<notin> set scope) cs of None \<Rightarrow> Inr () | Some c \<Rightarrow> Inl (ReferenceError c))"

subsection \<open>Lemmas on the primitives\<close>

lemma toLowerCase_simps [simp, js_simps]:
  "toLowerCase [] = []" "toLowerCase (c # cs) = js_lower_char c # toLowerCase cs"
  by (simp_all add: toLowerCase_def)

lemma length_toLowerCase [simp]: "length (toLowerCase s) = length s"
  by (simp add: toLowerCase_def)

lemma toLowerCase_append [simp]: "toLowerCase (a @ b) = toLowerCase a @ toLowerCase b"
  by (simp add: toLowerCase_def)

lemma starts_with_prefix: "starts_with h n \<longleftrightarrow> prefix n h"
  by (induction n arbitrary: h) (auto split: list.split)

lemma js_includes_code [js_simps]:
  "js_includes [] n = starts_with [] n"
  "js_includes (x # t) n = (starts_with (x # t) n \<or> js_includes t n)"
  by (simp_all add: js_includes.simps [of "[]"] js_includes.simps [of "x # t"])

lemma js_includes_sublist: "js_includes h n \<longleftrightarrow> sublist n h"
proof (induction h)
  case Nil
  then show ?case by (simp add: js_includes_code starts_with_prefix)
next
  case (Cons x t)
  then show ?case by (auto simp: js_includes_code starts_with_prefix sublist_Cons_right)
qed

lemma js_includes_Nil [simp, js_simps]: "js_includes h []"
  by (simp add: js_includes_sublist)

lemma js_includes_append_left: "js_includes a n \<Longrightarrow> js_includes (a @ b) n"
  by (auto simp: js_includes_sublist intro: sublist_order.order.trans [OF _ sublist_append_rightI])

lemma js_includes_append_right: "js_includes b n \<Longrightarrow> js_includes (a @ b) n"
  by (auto simp: js_includes_sublist intro: sublist_order.order.trans [OF _ sublist_append_leftI])

lemma js_includes_self [simp]: "js_includes h h"
  by (simp add: js_includes_sublist)

lemma js_split_nonempty [simp]: "js_split c s \<noteq> []"
  by (induction s) (auto split: list.split)

lemma js_split_join: "js_join [c] (js_split c s) = s"
proof (induction s)
  case Nil
  then show ?case by simp
next
  case (Cons x xs)
  show ?case
  proof (cases "x = c")
    case True
    with Cons show ?thesis by (cases "js_split c xs") auto
  next
    case False
    with Cons show ?thesis
      by (cases "js_split c xs" rule: list.exhaust; cases "tl (js_split c xs)") auto
  qed
qed

lemma js_split_no_sep: "w \<in> set (js_split c s) \<Longrightarrow> c \<notin> set w"
proof (induction s arbitrary: w)
  case Nil
  then show ?case by simp
next
  case (Cons x xs)
  then show ?case
    by (cases "js_split c xs") (fastforce split: if_splits)+
qed

lemma js_split_no_sep_char: "c \<notin> set s \<Longrightarrow> js_split c s = [s]"
  by (induction s) auto

lemma js_split_at_sep: "c \<notin> set a \<Longrightarrow> js_split c (a @ c # d) = a # js_split c d"
proof (induction a)
  case Nil
  then show ?case by simp
next
  case (Cons x a)
  then have "x \<noteq> c" by auto
  with Cons show ?case by simp
qed

lemma round_percent_le: "m \<le> n \<Longrightarrow> round_percent m n \<le> 100"
  unfolding round_percent_def
proof -
  assume "m \<le> n"
  then have "200 * m + n \<le> 100 * (2 * n) + (2 * n - 1)" by linarith
  then have "(200 * m + n) div (2 * n) \<le> (100 * (2 * n) + (2 * n - 1)) div (2 * n)"
    by (rule div_le_mono)
  also have "\<dots> \<le> 100"
  proof (cases "n = 0")
    case False
    then have "100 * (2 * n) + (2 * n - 1) < 101 * (2 * n)" by simp
    then show ?thesis by (simp add: less_mult_imp_div_less less_Suc_eq_le [symmetric])
  qed simp
  finally show "(200 * m + n) div (2 * n) \<le> 100" .
qed

subsection \<open>Lemmas on \<open>trim\<close>\<close>

lemma js_ws_simps [simp, js_simps]:
  "js_ws CHR '' ''" "\<not> js_ws CHR ''a''" "\<not> js_ws CHR ''@''" "\<not> js_ws CHR ''.''"
  by (simp_all add: js_ws_def)

lemma js_trim_Nil [simp]: "js_trim [] = []"
  by (simp add: js_trim_def)

lemma all_dropWhile_iff: "(\<forall>c\<in>set (dropWhile P s). P c) \<longleftrightarrow> (\<forall>c\<in>set s. P c)"
  by (induction s) auto

lemma js_trim_empty_iff: "js_trim s = [] \<longleftrightarrow> (\<forall>c\<in>set s. js_ws c)"
  by (simp add: js_trim_def dropWhile_eq_Nil_conv all_dropWhile_iff)

lemma dropWhile_none: "\<forall>c\<in>set s. \<not> P c \<Longrightarrow> dropWhile P s = s"
  by (induction s) auto

lemma js_trim_no_ws: "\<forall>c\<in>set s. \<not> js_ws c \<Longrightarrow> js_trim s = s"
  by (simp add: js_trim_def dropWhile_none)

text \<open>A render goes through exactly when every element it creates is in scope.\<close>

lemma jsx_elements_Inr: "jsx_elements scope cs = Inr () \<longleftrightarrow> set cs \<subseteq> set scope"
proof -
  have "find (\<lambda>c. c \<notin> set scope) cs = None \<longleftrightarrow> set cs \<subseteq> set scope"
    by (auto simp: find_None_iff)
  then show ?thesis by (auto simp: jsx_elements_def split: option.split)
qed

lemma jsx_elements_first_missing:
  "set xs \<subseteq> set scope \<Longrightarrow> c \<notin> set scope \<Longrightarrow> jsx_elements scope (xs @ c # ys) = Inl (ReferenceError c)"
proof -
  assume "set xs \<subseteq> set scope" "c \<notin> set scope"
  then have "find (\<lambda>c. c \<notin> set scope) (xs @ c # ys) = Some c"
    by (induction xs) auto
  then show ?thesis by (simp add: jsx_elements_def)
qed

end
