(* ===== verification/Storage.thy ===== *)
theory Storage
  imports Prelude
begin

text \<open>
  The persistent store adapter: the browser's \<open>localStorage\<close> as a map from keys to
  stored strings, \<open>getStorage\<close>/\<open>setStorage\<close> of \<open>src/src/context/DataContext.jsx\<close>
  (lines 26--59), and the two readers of \<open>src/src/context/AuthContext.jsx\<close>: the roster
  reader \<open>getStoredUsers\<close> (lines 14--35) and the session restore effect (lines 43--61).

  A stored string is either the serialisation of a JSON value or a string that
  \<open>JSON.parse\<close> rejects.  \<open>JSON.stringify\<close> followed by \<open>JSON.parse\<close> gives back the
  value, so a string written by \<open>setStorage\<close> is recorded as \<open>Valid v\<close>; anything else
  a user, another tab or an older version left under a key is \<open>Invalid s\<close> (the empty
  string is \<open>Invalid []\<close>, since \<open>JSON.parse('')\<close> throws).
\<close>

datatype json =
    JNull
  | JBool bool
  | JNum int
  | JStr string
  | JArr "json list"
  | JObj "(string \<times> json) list"

datatype raw = Valid json | Invalid string

type_synonym local_storage = "string \<rightharpoonup> raw"

text \<open>\<open>Array.isArray\<close> and \<open>typeof v === 'object'\<close> (true for \<open>null\<close>, too).\<close>

fun is_array :: "json \<Rightarrow> bool" where
  "is_array (JArr _) = True"
| "is_array _ = False"

fun typeof_object :: "json \<Rightarrow> bool" where
  "typeof_object JNull = True"
| "typeof_object (JArr _) = True"
| "typeof_object (JObj _) = True"
| "typeof_object _ = False"

text \<open>\<open>localStorage.getItem\<close> returns \<open>null\<close> for a missing key; the model returns
  \<open>None\<close>.  \<open>setItem\<close> stores the serialisation; \<open>removeItem\<close> deletes.\<close>

definition setStorage :: "string \<Rightarrow> json \<Rightarrow> local_storage \<Rightarrow> local_storage" where
  "setStorage key v ls = ls(key \<mapsto> Valid v)"

definition removeItem :: "string \<Rightarrow> local_storage \<Rightarrow> local_storage" where
  "removeItem key ls = ls(key := None)"

text \<open>
  The shape test of line 38: the parsed value is rejected when it is \<open>null\<close>, when the
  fallback is an array and the value is not, or when the fallback is a non-null object
  and the value is not a non-null object.
\<close>

definition wrong_shape :: "json \<Rightarrow> json \<Rightarrow> bool" where
  "wrong_shape fallback parsed \<longleftrightarrow>
     parsed = JNull
     \<or> (is_array fallback \<and> \<not> is_array parsed)
     \<or> (typeof_object fallback \<and> fallback \<noteq> JNull
        \<and> (\<not> typeof_object parsed \<or> parsed = JNull))"

definition getStorage :: "string \<Rightarrow> json \<Rightarrow> local_storage \<Rightarrow> json \<times> local_storage" where
  "getStorage key fallback ls =
     (case ls key of
        None \<Rightarrow> (fallback, setStorage key fallback ls)
      | Some (Invalid s) \<Rightarrow>
          (if s = [] then (fallback, setStorage key fallback ls)
           else (fallback, ls))
      | Some (Valid parsed) \<Rightarrow>
          (if wrong_shape fallback parsed then (fallback, setStorage key fallback ls)
           else (parsed, ls)))"

text \<open>
  \<open>getStoredUsers\<close> (AuthContext.jsx 14--35) tests \<open>!storedUsers\<close> (missing or empty),
  re-seeds when the parsed value is not an array, and on a parse error returns the
  empty roster, not the seed, leaving the stored string alone.
\<close>

definition skillbridge_users :: string where "skillbridge_users = ''skillbridge_users''"
definition skillbridge_user :: string where "skillbridge_user = ''skillbridge_user''"

definition getStoredUsers :: "json \<Rightarrow> local_storage \<Rightarrow> json \<times> local_storage" where
  "getStoredUsers initialUsers ls =
     (case ls skillbridge_users of
        None \<Rightarrow> (initialUsers, setStorage skillbridge_users initialUsers ls)
      | Some (Invalid s) \<Rightarrow>
          (if s = [] then (initialUsers, setStorage skillbridge_users initialUsers ls)
           else (JArr [], ls))
      | Some (Valid parsed) \<Rightarrow>
          (if \<not> is_array parsed then (initialUsers, setStorage skillbridge_users initialUsers ls)
           else (parsed, ls)))"

text \<open>
  The mount effect of \<open>AuthProvider\<close> (43--61): a non-empty stored session is parsed
  and becomes the current user (\<open>JSON.parse('null')\<close> gives \<open>null\<close>, no user); a
  parse error removes the stored session.
\<close>

definition restoreSession :: "local_storage \<Rightarrow> json option \<times> local_storage" where
  "restoreSession ls =
     (case ls skillbridge_user of
        None \<Rightarrow> (None, ls)
      | Some (Invalid s) \<Rightarrow>
          (if s = [] then (None, ls) else (None, removeItem skillbridge_user ls))
      | Some (Valid v) \<Rightarrow> (if v = JNull then None else Some v, ls))"

subsection \<open>Behaviour of \<open>getStorage\<close> on each branch\<close>

lemma getStorage_missing:
  "ls key = None \<Longrightarrow> getStorage key fb ls = (fb, ls(key \<mapsto> Valid fb))"
  by (simp add: getStorage_def setStorage_def)

lemma getStorage_empty:
  "ls key = Some (Invalid []) \<Longrightarrow> getStorage key fb ls = (fb, ls(key \<mapsto> Valid fb))"
  by (simp add: getStorage_def setStorage_def)

lemma getStorage_good:
  "ls key = Some (Valid v) \<Longrightarrow> \<not> wrong_shape fb v \<Longrightarrow> getStorage key fb ls = (v, ls)"
  by (simp add: getStorage_def)

lemma getStorage_other_keys:
  "k \<noteq> key \<Longrightarrow> snd (getStorage key fb ls) k = ls k"
  by (simp add: getStorage_def setStorage_def split: option.split raw.split)

lemma wrong_shape_array_fallback:
  "is_array fb \<Longrightarrow> wrong_shape fb v \<longleftrightarrow> \<not> is_array v"
  by (cases fb; cases v) (simp_all add: wrong_shape_def)

subsection \<open>Properties\<close>

text \<open>
  A stored string that \<open>JSON.parse\<close> rejects is kept: \<open>getStorage\<close> returns the
  fallback and does not write the key.
\<close>

theorem getStorage_corrupt:
  "ls key = Some (Invalid s) \<Longrightarrow> s \<noteq> [] \<Longrightarrow> getStorage key fb ls = (fb, ls)"
  by (simp add: getStorage_def)

theorem getStorage_corrupt_witness:
  "getStorage ''internships'' (JArr []) [''internships'' \<mapsto> Invalid ''{oops'']
   = (JArr [], [''internships'' \<mapsto> Invalid ''{oops''])"
  using getStorage_corrupt [of "[''internships'' \<mapsto> Invalid ''{oops'']" "''internships''" "''{oops''" "JArr []"]
  by simp

text \<open>
  A value that parses but has the wrong shape (here: an object where a list is
  expected) is replaced: \<open>getStorage\<close> returns the fallback and re-seeds the key.
\<close>

theorem getStorage_wrong_shape:
  "ls key = Some (Valid v) \<Longrightarrow> wrong_shape fb v \<Longrightarrow> getStorage key fb ls = (fb, ls(key \<mapsto> Valid fb))"
  by (simp add: getStorage_def setStorage_def)

theorem getStorage_wrong_shape_witness:
  "getStorage ''applications'' (JArr []) [''applications'' \<mapsto> Valid (JObj [])]
   = (JArr [], [''applications'' \<mapsto> Valid (JArr [])])"
  using getStorage_wrong_shape [of "[''applications'' \<mapsto> Valid (JObj [])]" "''applications''" "JObj []" "JArr []"]
  by (simp add: wrong_shape_def)

text \<open>
  What \<open>setStorage\<close> writes, \<open>getStorage\<close> reads back unchanged and without a
  write, unless its shape is wrong for the fallback.
\<close>

theorem getStorage_setStorage:
  "\<not> wrong_shape fb v \<Longrightarrow> getStorage key fb (setStorage key v ls) = (v, setStorage key v ls)"
  by (simp add: getStorage_def setStorage_def)

theorem getStorage_setStorage_witness:
  "getStorage ''savedInternships'' (JArr []) (setStorage ''savedInternships'' (JArr [JNum 3]) Map.empty)
   = (JArr [JNum 3], setStorage ''savedInternships'' (JArr [JNum 3]) Map.empty)"
  using getStorage_setStorage [of "JArr []" "JArr [JNum 3]" "''savedInternships''" Map.empty]
  by (simp add: wrong_shape_def)

end
