(* ===== verification/Auth.thy ===== *)
theory Auth
  imports Storage
begin

text \<open>
  The identity store, \<open>AuthProvider\<close> of \<open>src/src/context/AuthContext.jsx\<close>: the
  roster \<open>users\<close>, the session \<open>user\<close>, and the operations \<open>login\<close> (63--74),
  \<open>signup\<close> (76--103), \<open>logout\<close> (104--107) and \<open>updateUser\<close> (109--118).  The
  React state pair \<open>(user, users)\<close> and \<open>localStorage\<close> form one record; every
  \<open>setUsers\<close>/\<open>setUser\<close>/\<open>localStorage.setItem\<close> of a handler is an update of it.

  A JavaScript account object has optional fields; a field that may be absent is an
  \<open>option\<close> here (\<open>None\<close> = \<open>undefined\<close>), so \<open>x || d\<close> is \<open>case x of None \<Rightarrow> d\<close>.
  Education entries \<open>{degree, school, year}\<close> and projects
  \<open>{name, description, link}\<close> are the objects the profile page creates
  (\<open>src/src/pages/student/StudentProfile.jsx\<close>, lines 18--20).
\<close>

datatype role = Student | Recruiter | Admin

record education =
  ed_degree :: string
  ed_school :: string
  ed_year :: string

record project =
  pj_name :: string
  pj_description :: string
  pj_link :: string

record user =
  u_id :: int
  u_name :: string
  u_email :: string
  u_password :: string
  u_role :: role
  u_companyId :: "jsid option"
  u_skills :: "string list option"
  u_education :: "education list option"
  u_projects :: "project list option"
  u_resume :: "string option"
  u_bio :: "string option"
  u_about :: "string option"
  u_phone :: "string option"
  u_location :: "string option"
  u_links :: "(string \<times> string) list option"
  u_profileImage :: "string option"

record auth_state =
  users :: "user list"
  cur_user :: "user option"
  auth_ls :: local_storage

datatype auth_error = EmailExists

subsection \<open>Serialisation of accounts\<close>

text \<open>\<open>JSON.stringify\<close> of an account: absent fields are omitted.\<close>

definition opt_field :: "string \<Rightarrow> ('a \<Rightarrow> json) \<Rightarrow> 'a option \<Rightarrow> (string \<times> json) list" where
  "opt_field k f v = (case v of None \<Rightarrow> [] | Some x \<Rightarrow> [(k, f x)])"

fun json_of_role :: "role \<Rightarrow> json" where
  "json_of_role Student = JStr ''student''"
| "json_of_role Recruiter = JStr ''recruiter''"
| "json_of_role Admin = JStr ''admin''"

fun json_of_jsid :: "jsid \<Rightarrow> json" where
  "json_of_jsid (NumId n) = JNum n"
| "json_of_jsid (StrId s) = JStr s"

definition json_of_education :: "education \<Rightarrow> json" where
  "json_of_education e = JObj [(''degree'', JStr (ed_degree e)), (''school'', JStr (ed_school e)),
                               (''year'', JStr (ed_year e))]"

definition json_of_project :: "project \<Rightarrow> json" where
  "json_of_project pr = JObj [(''name'', JStr (pj_name pr)), (''description'', JStr (pj_description pr)),
                              (''link'', JStr (pj_link pr))]"

definition json_of_user :: "user \<Rightarrow> json" where
  "json_of_user u = JObj
     ([(''id'', JNum (u_id u)), (''name'', JStr (u_name u)), (''email'', JStr (u_email u)),
       (''password'', JStr (u_password u)), (''role'', json_of_role (u_role u))]
      @ opt_field ''companyId'' json_of_jsid (u_companyId u)
      @ opt_field ''skills'' (\<lambda>xs. JArr (map JStr xs)) (u_skills u)
      @ opt_field ''education'' (\<lambda>xs. JArr (map json_of_education xs)) (u_education u)
      @ opt_field ''projects'' (\<lambda>xs. JArr (map json_of_project xs)) (u_projects u)
      @ opt_field ''resume'' JStr (u_resume u)
      @ opt_field ''bio'' JStr (u_bio u)
      @ opt_field ''about'' JStr (u_about u)
      @ opt_field ''phone'' JStr (u_phone u)
      @ opt_field ''location'' JStr (u_location u)
      @ opt_field ''links'' (\<lambda>ps. JObj (map (\<lambda>(k, v). (k, JStr v)) ps)) (u_links u)
      @ opt_field ''profileImage'' JStr (u_profileImage u))"

definition json_of_users :: "user list \<Rightarrow> json" where
  "json_of_users us = JArr (map json_of_user us)"

subsection \<open>Operations\<close>

text \<open>\<open>login\<close>: the first account whose email and password both match exactly.\<close>

definition login :: "string \<Rightarrow> string \<Rightarrow> auth_state \<Rightarrow> user option \<times> auth_state" where
  "login email password st =
     (case find (\<lambda>u. u_email u = email \<and> u_password u = password) (users st) of
        Some u \<Rightarrow> (Some u, st\<lparr>cur_user := Some u,
                   auth_ls := setStorage skillbridge_user (json_of_user u) (auth_ls st)\<rparr>)
      | None \<Rightarrow> (None, st))"

text \<open>The student defaults of lines 83--94 (note: \<open>about\<close>, not \<open>bio\<close>).\<close>

definition or_default :: "'a option \<Rightarrow> 'a \<Rightarrow> 'a option" where
  "or_default x d = Some (case x of None \<Rightarrow> d | Some v \<Rightarrow> v)"

definition student_defaults :: "user \<Rightarrow> user" where
  "student_defaults u = u\<lparr>
     u_education := or_default (u_education u) [],
     u_skills := or_default (u_skills u) [],
     u_resume := or_default (u_resume u) [],
     u_phone := or_default (u_phone u) [],
     u_location := or_default (u_location u) [],
     u_links := or_default (u_links u) [],
     u_about := or_default (u_about u) [],
     u_projects := or_default (u_projects u) []\<rparr>"

text \<open>
  \<open>signup\<close>: the new account gets \<open>id = Date.now()\<close> (the parameter \<open>now\<close>), the
  student defaults when its role is \<open>student\<close>, is appended to the roster, persisted,
  and becomes the session.  A taken email throws, which is \<open>Inl EmailExists\<close>.
\<close>

definition signup :: "timestamp \<Rightarrow> user \<Rightarrow> auth_state \<Rightarrow> auth_error + (user \<times> auth_state)" where
  "signup now userData st =
     (if list_ex (\<lambda>u. u_email u = u_email userData) (users st) then Inl EmailExists
      else
        let newUser0 = userData\<lparr>u_id := now\<rparr>;
            newUser = (if u_role newUser0 = Student then student_defaults newUser0 else newUser0);
            updatedUsers = users st @ [newUser]
        in Inr (newUser, st\<lparr>users := updatedUsers, cur_user := Some newUser,
                 auth_ls := setStorage skillbridge_user (json_of_user newUser)
                              (setStorage skillbridge_users (json_of_users updatedUsers) (auth_ls st))\<rparr>))"

definition logout :: "auth_state \<Rightarrow> auth_state" where
  "logout st = st\<lparr>cur_user := None, auth_ls := removeItem skillbridge_user (auth_ls st)\<rparr>"

text \<open>
  \<open>updateUser(updates)\<close> merges \<open>{...user, ...updates}\<close>.  The updates object is a
  patch over every key of an account: each either absent (\<open>None\<close>) or a new value;
  for a key that is optional in the account a present key carries the account's
  option (\<open>p_companyId\<close> etc.).  Every account whose id equals the session's id is
  replaced in the roster.
\<close>

record user_patch =
  p_id :: "int option"
  p_name :: "string option"
  p_email :: "string option"
  p_password :: "string option"
  p_role :: "role option"
  p_companyId :: "jsid option"
  p_skills :: "string list option"
  p_education :: "education list option"
  p_projects :: "project list option"
  p_resume :: "string option"
  p_bio :: "string option"
  p_about :: "string option"
  p_phone :: "string option"
  p_location :: "string option"
  p_links :: "(string \<times> string) list option"
  p_profileImage :: "string option"

definition override :: "'a option \<Rightarrow> 'a \<Rightarrow> 'a" where
  "override p v = (case p of None \<Rightarrow> v | Some x \<Rightarrow> x)"

definition override_opt :: "'a option \<Rightarrow> 'a option \<Rightarrow> 'a option" where
  "override_opt p v = (case p of None \<Rightarrow> v | Some x \<Rightarrow> Some x)"

definition apply_patch :: "user_patch \<Rightarrow> user \<Rightarrow> user" where
  "apply_patch p u = u\<lparr>
     u_id := override (p_id p) (u_id u),
     u_name := override (p_name p) (u_name u),
     u_email := override (p_email p) (u_email u),
     u_password := override (p_password p) (u_password u),
     u_role := override (p_role p) (u_role u),
     u_companyId := override_opt (p_companyId p) (u_companyId u),
     u_skills := override_opt (p_skills p) (u_skills u),
     u_education := override_opt (p_education p) (u_education u),
     u_projects := override_opt (p_projects p) (u_projects u),
     u_resume := override_opt (p_resume p) (u_resume u),
     u_bio := override_opt (p_bio p) (u_bio u),
     u_about := override_opt (p_about p) (u_about u),
     u_phone := override_opt (p_phone p) (u_phone u),
     u_location := override_opt (p_location p) (u_location u),
     u_links := override_opt (p_links p) (u_links u),
     u_profileImage := override_opt (p_profileImage p) (u_profileImage u)\<rparr>"

text \<open>The patch every key of an account spreads to (\<open>{...profile}\<close>).\<close>

definition patch_of_user :: "user \<Rightarrow> user_patch" where
  "patch_of_user u = \<lparr>p_id = Some (u_id u), p_name = Some (u_name u), p_email = Some (u_email u),
     p_password = Some (u_password u), p_role = Some (u_role u), p_companyId = u_companyId u,
     p_skills = u_skills u, p_education = u_education u, p_projects = u_projects u,
     p_resume = u_resume u, p_bio = u_bio u, p_about = u_about u, p_phone = u_phone u,
     p_location = u_location u, p_links = u_links u, p_profileImage = u_profileImage u\<rparr>"

definition updateUser :: "user_patch \<Rightarrow> auth_state \<Rightarrow> auth_state" where
  "updateUser updates st =
     (case cur_user st of
        None \<Rightarrow> st
      | Some user \<Rightarrow>
          let updatedUser = apply_patch updates user;
              updatedUsers = map (\<lambda>u. if u_id u = u_id user then updatedUser else u) (users st)
          in st\<lparr>cur_user := Some updatedUser, users := updatedUsers,
                auth_ls := setStorage skillbridge_users (json_of_users updatedUsers)
                             (setStorage skillbridge_user (json_of_user updatedUser) (auth_ls st))\<rparr>)"

subsection \<open>Invariant of the identity store\<close>

text \<open>
  Emails and ids are unique in the roster and the session account is a roster member.
  Signup takes \<open>Date.now()\<close> as the id; uniqueness of ids needs that value to be new,
  which is the hypothesis of \<open>signup_auth_inv\<close>.
\<close>

definition auth_inv :: "auth_state \<Rightarrow> bool" where
  "auth_inv st \<longleftrightarrow>
     distinct (map u_email (users st)) \<and> distinct (map u_id (users st))
     \<and> (\<forall>u. cur_user st = Some u \<longrightarrow> u \<in> set (users st))"

lemma list_ex_email: "list_ex (\<lambda>u. u_email u = e) us \<longleftrightarrow> e \<in> set (map u_email us)"
  by (auto simp: list_ex_iff)

lemma student_defaults_email [simp]: "u_email (student_defaults u) = u_email u"
  by (simp add: student_defaults_def)

lemma student_defaults_id [simp]: "u_id (student_defaults u) = u_id u"
  by (simp add: student_defaults_def)

lemma student_defaults_role [simp]: "u_role (student_defaults u) = u_role u"
  by (simp add: student_defaults_def)

lemma student_defaults_password [simp]: "u_password (student_defaults u) = u_password u"
  by (simp add: student_defaults_def)

text \<open>
  \<open>updateUser\<close> does not check the keys it overwrites; the roster stays consistent
  when the patch leaves the session's id and email as they are.
\<close>

definition keeps_identity :: "user_patch \<Rightarrow> user \<Rightarrow> bool" where
  "keeps_identity p u \<longleftrightarrow>
     (case p_id p of None \<Rightarrow> True | Some i \<Rightarrow> i = u_id u)
     \<and> (case p_email p of None \<Rightarrow> True | Some e \<Rightarrow> e = u_email u)"

definition patch_ok :: "user_patch \<Rightarrow> auth_state \<Rightarrow> bool" where
  "patch_ok p st = (case cur_user st of None \<Rightarrow> True | Some u \<Rightarrow> keeps_identity p u)"

lemma apply_patch_keeps:
  "keeps_identity p u \<Longrightarrow> u_email (apply_patch p u) = u_email u \<and> u_id (apply_patch p u) = u_id u"
  by (simp add: keeps_identity_def apply_patch_def override_def split: option.splits)

lemma patch_of_user_keeps [simp]: "keeps_identity (patch_of_user v) u \<longleftrightarrow> u_id v = u_id u \<and> u_email v = u_email u"
  by (simp add: keeps_identity_def patch_of_user_def)

lemma signup_Inr:
  "signup now d st = Inr (nu, st') \<longleftrightarrow>
     u_email d \<notin> set (map u_email (users st)) \<and>
     nu = (if u_role d = Student then student_defaults (d\<lparr>u_id := now\<rparr>) else d\<lparr>u_id := now\<rparr>) \<and>
     st' = st\<lparr>users := users st @ [nu], cur_user := Some nu,
              auth_ls := setStorage skillbridge_user (json_of_user nu)
                           (setStorage skillbridge_users (json_of_users (users st @ [nu])) (auth_ls st))\<rparr>"
  by (auto simp: signup_def list_ex_email Let_def)

lemma signup_Inl:
  "signup now d st = Inl e \<longleftrightarrow> u_email d \<in> set (map u_email (users st)) \<and> e = EmailExists"
  by (auto simp: signup_def list_ex_email Let_def)

lemma login_cases:
  "login e p st = (None, st) \<or> (\<exists>u. u \<in> set (users st) \<and> login e p st =
     (Some u, st\<lparr>cur_user := Some u, auth_ls := setStorage skillbridge_user (json_of_user u) (auth_ls st)\<rparr>))"
  by (auto simp: login_def split: option.split dest: find_Some_iff [THEN iffD1, simplified] intro: nth_mem)

lemma login_auth_inv: "auth_inv st \<Longrightarrow> auth_inv (snd (login e p st))"
  using login_cases [of e p st] by (auto simp: auth_inv_def)

lemma signup_auth_inv:
  "auth_inv st \<Longrightarrow> now \<notin> set (map u_id (users st)) \<Longrightarrow> signup now d st = Inr (nu, st') \<Longrightarrow> auth_inv st'"
  by (auto simp: auth_inv_def signup_Inr)

lemma logout_auth_inv: "auth_inv st \<Longrightarrow> auth_inv (logout st)"
  by (simp add: auth_inv_def logout_def)

lemma replace_by_id:
  assumes "distinct (map u_id us)" "u \<in> set us" "u_id v = u_id u"
  shows "map (\<lambda>w. if u_id w = u_id u then v else w) us = map (\<lambda>w. if w = u then v else w) us"
proof (rule map_cong [OF refl])
  fix w assume "w \<in> set us"
  with assms(1,2) have "u_id w = u_id u \<longleftrightarrow> w = u" by (auto dest: inj_onD [OF distinct_map [THEN iffD1, THEN conjunct2]])
  then show "(if u_id w = u_id u then v else w) = (if w = u then v else w)" by simp
qed

lemma map_replace_keys:
  "f v = f u \<Longrightarrow> map f (map (\<lambda>w. if w = u then v else w) us) = map f us"
  by (induction us) auto

lemma updateUser_cur_user:
  "cur_user st = Some u \<Longrightarrow> cur_user (updateUser p st) = Some (apply_patch p u)"
  by (simp add: updateUser_def Let_def)

lemma updateUser_auth_inv: "auth_inv st \<Longrightarrow> patch_ok p st \<Longrightarrow> auth_inv (updateUser p st)"
proof (cases "cur_user st")
  case (Some u)
  assume inv: "auth_inv st" and ok: "patch_ok p st"
  then have u: "u \<in> set (users st)" and ids: "distinct (map u_id (users st))"
    using Some by (auto simp: auth_inv_def)
  have keep: "u_email (apply_patch p u) = u_email u" "u_id (apply_patch p u) = u_id u"
    using ok Some apply_patch_keeps [of p u] by (simp_all add: patch_ok_def)
  let ?us = "map (\<lambda>w. if w = u then apply_patch p u else w) (users st)"
  have eq: "map (\<lambda>w. if u_id w = u_id u then apply_patch p u else w) (users st) = ?us"
    using ids u keep(2) by (rule replace_by_id)
  have st': "users (updateUser p st) = ?us" "cur_user (updateUser p st) = Some (apply_patch p u)"
    using Some eq by (simp_all add: updateUser_def Let_def)
  have "map u_email ?us = map u_email (users st)" "map u_id ?us = map u_id (users st)"
    by (simp_all only: map_replace_keys keep)
  moreover have "apply_patch p u \<in> set ?us" using u by (auto simp: image_iff)
  ultimately show ?thesis using inv by (simp only: auth_inv_def st') simp
qed (simp add: updateUser_def)

lemma find_unique_email:
  "distinct (map u_email us) \<Longrightarrow> u \<in> set us \<Longrightarrow>
     find (\<lambda>v. u_email v = u_email u \<and> u_password v = u_password u) us = Some u"
  by (induction us) (auto simp: image_iff)

lemma login_registered:
  "auth_inv st \<Longrightarrow> u \<in> set (users st) \<Longrightarrow> cur_user (snd (login (u_email u) (u_password u) st)) = Some u"
  by (simp add: login_def auth_inv_def find_unique_email)

subsection \<open>Examples\<close>

definition demo_student :: "string list \<Rightarrow> user" where
  "demo_student skills = \<lparr>u_id = 1, u_name = ''Sam'', u_email = ''s@uni.edu'', u_password = ''secret'',
     u_role = Student, u_companyId = None, u_skills = Some skills, u_education = None,
     u_projects = None, u_resume = None, u_bio = None, u_about = None, u_phone = None,
     u_location = None, u_links = None, u_profileImage = None\<rparr>"

definition demo_auth :: auth_state where
  "demo_auth = \<lparr>users = [demo_student []], cur_user = None, auth_ls = Map.empty\<rparr>"

subsection \<open>Properties\<close>

text \<open>Signing up with an email already in the roster fails with \<open>EmailExists\<close>.\<close>

theorem signup_duplicate_email:
  "u_email d \<in> set (map u_email (users st)) \<Longrightarrow> signup now d st = Inl EmailExists"
  by (simp add: signup_Inl)

theorem signup_duplicate_email_witness:
  "signup 99 ((demo_student [])\<lparr>u_name := ''Other''\<rparr>) demo_auth = Inl EmailExists"
  by (rule signup_duplicate_email) (simp add: demo_auth_def demo_student_def)

text \<open>
  A successful login returns a roster account with exactly that email and password
  and makes it the session, the roster untouched; a failed login changes nothing and
  there is no such account.
\<close>

theorem login_result:
  "(login e p st = (Some u, st') \<longrightarrow>
      u \<in> set (users st) \<and> u_email u = e \<and> u_password u = p \<and> cur_user st' = Some u \<and> users st' = users st)
   \<and> (login e p st = (None, st') \<longrightarrow>
      st' = st \<and> (\<forall>v\<in>set (users st). \<not> (u_email v = e \<and> u_password v = p)))"
proof (cases "find (\<lambda>u. u_email u = e \<and> u_password u = p) (users st)")
  case None
  then have "\<forall>v\<in>set (users st). \<not> (u_email v = e \<and> u_password v = p)"
    by (simp add: find_None_iff)
  with None show ?thesis by (simp add: login_def)
next
  case (Some v)
  then have "v \<in> set (users st) \<and> u_email v = e \<and> u_password v = p"
    by (auto simp: find_Some_iff)
  with Some show ?thesis by (auto simp: login_def)
qed

theorem login_result_witness:
  "fst (login ''s@uni.edu'' ''secret'' demo_auth) = Some (demo_student [])
   \<and> cur_user (snd (login ''s@uni.edu'' ''secret'' demo_auth)) = Some (demo_student [])
   \<and> demo_student [] \<in> set (users demo_auth)"
proof -
  have f: "find (\<lambda>u. u_email u = ''s@uni.edu'' \<and> u_password u = ''secret'') (users demo_auth)
           = Some (demo_student [])"
    by (simp add: demo_auth_def demo_student_def)
  have l: "login ''s@uni.edu'' ''secret'' demo_auth
           = (Some (demo_student []), snd (login ''s@uni.edu'' ''secret'' demo_auth))"
    by (simp add: login_def f)
  from login_result [of "''s@uni.edu''" "''secret''" demo_auth "demo_student []"
         "snd (login ''s@uni.edu'' ''secret'' demo_auth)"] l
  show ?thesis by (metis fst_conv)
qed

end
