(* ===== verification/Listings.thy ===== *)
theory Listings
  imports Auth
begin

text \<open>
  The listing repository of \<open>src/src/context/DataContext.jsx\<close>: companies and
  internships, the merge of local and external listings into one list keyed by id
  (\<open>allInternships\<close>, lines 197--204, a JavaScript \<open>Map\<close>), lookup by a route
  parameter (\<open>getInternship\<close>, line 216, with \<open>parseInt\<close>), \<open>getCompany\<close>
  (line 217) and the recruiter's \<open>addInternship\<close> (lines 259--273).

  A field that may be \<open>undefined\<close> and is compared with \<open>===\<close> is an \<open>option\<close>
  (\<open>undefined === undefined\<close> holds, as \<open>None = None\<close> does).
  Posting dates are day numbers: the code stores \<open>YYYY-MM-DD\<close> strings and compares
  them through \<open>new Date(...)\<close>, which orders them as the day numbers do.
\<close>

record company =
  c_id :: jsid
  c_name :: string
  c_logo :: string

record internship =
  i_id :: jsid
  i_title :: string
  i_company :: string
  i_companyId :: "jsid option"
  i_logo :: string
  i_location :: string
  i_type :: string
  i_isPaid :: bool
  i_stipend :: string
  i_duration :: string
  i_domain :: string
  i_description :: string
  i_posted :: day
  i_deadline :: string
  i_applicants :: nat
  i_requirements :: "string list"
  i_redirect_url :: "string option"

subsection \<open>The merged view: a JavaScript \<open>Map\<close> keyed by id\<close>

text \<open>
  \<open>Map.prototype.set\<close> replaces the value of a present key in place and appends a new
  key at the end; the entries are then read back in insertion order.
\<close>

fun map_set :: "('k \<times> 'v) list \<Rightarrow> 'k \<Rightarrow> 'v \<Rightarrow> ('k \<times> 'v) list" where
  "map_set [] k v = [(k, v)]"
| "map_set ((k', v') # m) k v = (if k' = k then (k, v) # m else (k', v') # map_set m k v)"

definition allInternships :: "internship list \<Rightarrow> internship list \<Rightarrow> internship list" where
  "allInternships localInternships externalInternships =
     map snd (fold (\<lambda>int m. map_set m (i_id int) int)
                   (localInternships @ externalInternships) [])"

subsection \<open>\<open>parseInt\<close> and lookup by route parameter\<close>

text \<open>
  \<open>parseInt(s)\<close> with no radix: leading white space is skipped, an optional sign is
  read, a \<open>0x\<close>/\<open>0X\<close> prefix selects radix 16, and the longest prefix of digits of
  the radix is converted; no digit gives \<open>NaN\<close> (\<open>None\<close>).  A number argument is
  first converted to its decimal string, so an integer parses to itself.
\<close>

definition js_space :: "char \<Rightarrow> bool" where
  "js_space c \<longleftrightarrow> c \<in> {CHR '' '', CHR 0x09, CHR 0x0A, CHR 0x0B, CHR 0x0C, CHR 0x0D}"

definition digit_value :: "nat \<Rightarrow> char \<Rightarrow> nat option" where
  "digit_value radix c =
     (let n = of_char c :: nat;
          d = (if 48 \<le> n \<and> n \<le> 57 then n - 48
               else if 97 \<le> n \<and> n \<le> 122 then n - 87
               else if 65 \<le> n \<and> n \<le> 90 then n - 55 else radix)
      in if d < radix then Some d else None)"

fun digits_prefix :: "nat \<Rightarrow> string \<Rightarrow> nat list" where
  "digits_prefix radix [] = []"
| "digits_prefix radix (c # cs) =
     (case digit_value radix c of None \<Rightarrow> [] | Some d \<Rightarrow> d # digits_prefix radix cs)"

definition digits_to_nat :: "nat \<Rightarrow> nat list \<Rightarrow> nat" where
  "digits_to_nat radix ds = foldl (\<lambda>acc d. acc * radix + d) 0 ds"

definition parse_unsigned :: "string \<Rightarrow> nat option" where
  "parse_unsigned s =
     (let hex = (2 \<le> length s \<and> s ! 0 = CHR ''0'' \<and> (s ! 1 = CHR ''x'' \<or> s ! 1 = CHR ''X''));
          radix = (if hex then 16 else 10);
          ds = digits_prefix radix (if hex then drop 2 s else s)
      in if ds = [] then None else Some (digits_to_nat radix ds))"

definition js_parseInt :: "string \<Rightarrow> int option" where
  "js_parseInt s =
     (let t = dropWhile js_space s
      in if t \<noteq> [] \<and> hd t = CHR ''-'' then map_option (\<lambda>n. - int n) (parse_unsigned (tl t))
         else if t \<noteq> [] \<and> hd t = CHR ''+'' then map_option int (parse_unsigned (tl t))
         else map_option int (parse_unsigned t))"

fun parseInt_id :: "jsid \<Rightarrow> int option" where
  "parseInt_id (NumId n) = Some n"
| "parseInt_id (StrId s) = js_parseInt s"

text \<open>\<open>internships.find(i => i.id === parseInt(id) || i.id === id)\<close>\<close>

definition id_matches :: "jsid \<Rightarrow> internship \<Rightarrow> bool" where
  "id_matches key i \<longleftrightarrow>
     (case parseInt_id key of Some n \<Rightarrow> i_id i = NumId n | None \<Rightarrow> False) \<or> i_id i = key"

definition getInternship :: "internship list \<Rightarrow> jsid \<Rightarrow> internship option" where
  "getInternship internships key = find (id_matches key) internships"

text \<open>\<open>companies.find(c => c.id === parseInt(id))\<close>\<close>

definition getCompany :: "company list \<Rightarrow> jsid \<Rightarrow> company option" where
  "getCompany companies key =
     (case parseInt_id key of
        None \<Rightarrow> None
      | Some n \<Rightarrow> find (\<lambda>c. c_id c = NumId n) companies)"

text \<open>\<open>String(n)\<close> of an integer and the route \<open>/internship/${internship.id}\<close>.\<close>

definition digit_char :: "nat \<Rightarrow> char" where
  "digit_char d = char_of (48 + d)"

fun dec_string :: "nat \<Rightarrow> string" where
  "dec_string n = (if n < 10 then [digit_char n] else dec_string (n div 10) @ [digit_char (n mod 10)])"

declare dec_string.simps [simp del]

definition js_String_int :: "int \<Rightarrow> string" where
  "js_String_int i = (if i < 0 then CHR ''-'' # dec_string (nat (- i)) else dec_string (nat i))"

fun route_param :: "jsid \<Rightarrow> jsid" where
  "route_param (NumId n) = StrId (js_String_int n)"
| "route_param (StrId s) = StrId s"

subsection \<open>\<open>parseInt\<close> reads back \<open>String(n)\<close>\<close>

lemma of_char_digit_char: "d < 10 \<Longrightarrow> of_char (digit_char d) = 48 + d"
  by (simp add: digit_char_def)

lemma digit_value_digit_char: "d < 10 \<Longrightarrow> digit_value 10 (digit_char d) = Some d"
  by (simp add: digit_value_def of_char_digit_char Let_def)

lemma digit_char_not_special:
  assumes "d < 10"
  shows "digit_char d \<noteq> CHR ''x''" "digit_char d \<noteq> CHR ''X''" "digit_char d \<noteq> CHR ''-''"
    "digit_char d \<noteq> CHR ''+''" "\<not> js_space (digit_char d)"
proof -
  have "of_char (digit_char d) = (48 + d :: nat)" using assms by (rule of_char_digit_char)
  then have "of_char (digit_char d) \<in> {48..<58::nat}" using assms by simp
  then show "digit_char d \<noteq> CHR ''x''" "digit_char d \<noteq> CHR ''X''" "digit_char d \<noteq> CHR ''-''"
    "digit_char d \<noteq> CHR ''+''" "\<not> js_space (digit_char d)"
    by (auto simp: js_space_def)
qed

lemma dec_string_digits:
  "\<exists>ds. dec_string n = map digit_char ds \<and> ds \<noteq> [] \<and> (\<forall>d\<in>set ds. d < 10) \<and> digits_to_nat 10 ds = n"
proof (induction n rule: dec_string.induct)
  case (1 n)
  show ?case
  proof (cases "n < 10")
    case True
    then show ?thesis
      by (intro exI [of _ "[n]"]) (simp add: dec_string.simps [of n] digits_to_nat_def)
  next
    case False
    with "1.IH" obtain ds where ds: "dec_string (n div 10) = map digit_char ds" "ds \<noteq> []"
      "\<forall>d\<in>set ds. d < 10" "digits_to_nat 10 ds = n div 10" by blast
    have "digits_to_nat 10 (ds @ [n mod 10]) = n"
      using ds(4) by (simp add: digits_to_nat_def)
    with ds False show ?thesis
      by (intro exI [of _ "ds @ [n mod 10]"]) (simp add: dec_string.simps [of n])
  qed
qed

lemma digits_prefix_digit_chars: "\<forall>d\<in>set ds. d < 10 \<Longrightarrow> digits_prefix 10 (map digit_char ds) = ds"
  by (induction ds) (auto simp: digit_value_digit_char)

lemma parse_unsigned_dec_string: "parse_unsigned (dec_string n) = Some n"
proof -
  obtain ds where ds: "dec_string n = map digit_char ds" "ds \<noteq> []" "\<forall>d\<in>set ds. d < 10"
    "digits_to_nat 10 ds = n" using dec_string_digits by blast
  have "\<not> (2 \<le> length ds \<and> (ds ! 1 < 10 \<and> (digit_char (ds ! 1) = CHR ''x'' \<or> digit_char (ds ! 1) = CHR ''X'')))"
    using digit_char_not_special by blast
  moreover have "2 \<le> length ds \<Longrightarrow> ds ! 1 < 10" using ds(3) by simp
  ultimately show ?thesis using ds by (auto simp: parse_unsigned_def digits_prefix_digit_chars Let_def)
qed

lemma dec_string_head: "\<exists>d ds. dec_string n = digit_char d # ds \<and> d < 10"
  using dec_string_digits [of n] by (auto simp: neq_Nil_conv)

lemma js_parseInt_String: "js_parseInt (js_String_int i) = Some i"
proof -
  obtain d ds where h: "dec_string (nat \<bar>i\<bar>) = digit_char d # ds" "d < 10"
    using dec_string_head by blast
  note sp = digit_char_not_special [OF h(2)]
  have p: "parse_unsigned (digit_char d # ds) = Some (nat \<bar>i\<bar>)"
    using parse_unsigned_dec_string [of "nat \<bar>i\<bar>"] h(1) by simp
  show ?thesis
  proof (cases "i < 0")
    case True
    then have "js_String_int i = CHR ''-'' # digit_char d # ds" using h by (simp add: js_String_int_def)
    then show ?thesis using True sp p by (simp add: js_parseInt_def js_space_def)
  next
    case False
    then have "js_String_int i = digit_char d # ds" using h by (simp add: js_String_int_def)
    then show ?thesis using False sp p by (simp add: js_parseInt_def)
  qed
qed

subsection \<open>Lookup by route parameter\<close>

lemma find_unique:
  assumes "x \<in> set xs" "P x" "\<And>y. y \<in> set xs \<Longrightarrow> P y \<Longrightarrow> y = x"
  shows "find P xs = Some x"
  using assms
proof (induction xs)
  case (Cons a xs)
  show ?case
  proof (cases "P a")
    case True
    then have "a = x" by (rule Cons.prems(3) [rotated]) simp
    with True show ?thesis by simp
  next
    case False
    with Cons.prems(1,2) have "x \<in> set xs" by auto
    moreover have "\<And>y. y \<in> set xs \<Longrightarrow> P y \<Longrightarrow> y = x"
      by (rule Cons.prems(3)) simp_all
    ultimately have "find P xs = Some x" using Cons.IH Cons.prems(2) by blast
    with False show ?thesis by simp
  qed
qed simp

definition str_ids_unparsable :: "internship list \<Rightarrow> bool" where
  "str_ids_unparsable ins \<longleftrightarrow>
     (\<forall>i\<in>set ins. case i_id i of StrId s \<Rightarrow> js_parseInt s = None | NumId _ \<Rightarrow> True)"

lemma id_matches_route:
  assumes "str_ids_unparsable ins" "j \<in> set ins" "k \<in> i_id ` set ins"
  shows "id_matches (route_param k) j \<longleftrightarrow> i_id j = k"
proof (cases k)
  case (NumId n)
  have "i_id j \<noteq> StrId (js_String_int n)"
    using assms js_parseInt_String [of n] by (auto simp: str_ids_unparsable_def split: jsid.splits)
  then show ?thesis using NumId by (auto simp: id_matches_def js_parseInt_String)
next
  case (StrId s)
  show ?thesis
  proof (cases "js_parseInt s")
    case (Some n)
    with assms(1,3) StrId show ?thesis by (auto simp: str_ids_unparsable_def split: jsid.splits)
  qed (simp add: StrId id_matches_def)
qed

lemma getInternship_route_exact:
  "str_ids_unparsable ins \<Longrightarrow> k \<in> i_id ` set ins \<Longrightarrow>
   getInternship ins (route_param k) = find (\<lambda>j. i_id j = k) ins"
  unfolding getInternship_def by (rule find_cong [OF refl]) (rule id_matches_route)

subsection \<open>Posting a listing\<close>

text \<open>
  \<open>addInternship\<close>: only a recruiter posts; the listing gets \<open>id = Date.now()\<close>, the
  recruiter's company id, name and logo (\<open>'Unknown Company'\<close> and \<open>'??'\<close> when the
  company is not found or the field is empty), today's date and no applicants, and is
  appended to the local listings.  A non-recruiter call returns \<open>undefined\<close>
  (\<open>None\<close>) and changes nothing.
\<close>

definition company_of :: "company list \<Rightarrow> user \<Rightarrow> company option" where
  "company_of companies user =
     (case u_companyId user of None \<Rightarrow> None | Some k \<Rightarrow> find (\<lambda>c. c_id c = k) companies)"

definition or_string :: "string \<Rightarrow> string \<Rightarrow> string" where
  "or_string s d = (if s = [] then d else s)"

definition addInternship ::
  "timestamp \<Rightarrow> day \<Rightarrow> user option \<Rightarrow> company list \<Rightarrow> internship \<Rightarrow> internship list
   \<Rightarrow> internship option \<times> internship list" where
  "addInternship now today user companies internshipData localInternships =
     (case user of
        Some u \<Rightarrow>
          if u_role u = Recruiter then
            let c = company_of companies u;
                newInternship = internshipData\<lparr>
                  i_id := NumId now,
                  i_companyId := u_companyId u,
                  i_company := (case c of Some c \<Rightarrow> or_string (c_name c) ''Unknown Company''
                                | None \<Rightarrow> ''Unknown Company''),
                  i_logo := (case c of Some c \<Rightarrow> or_string (c_logo c) ''??'' | None \<Rightarrow> ''??''),
                  i_posted := today,
                  i_applicants := 0\<rparr>
            in (Some newInternship, localInternships @ [newInternship])
          else (None, localInternships)
      | None \<Rightarrow> (None, localInternships))"

subsection \<open>The merge: refinement of a finite map\<close>

abbreviation id_map :: "internship list \<Rightarrow> jsid \<rightharpoonup> internship" where
  "id_map xs \<equiv> map_of (map (\<lambda>i. (i_id i, i)) xs)"

lemma map_of_map_set [simp]: "map_of (map_set m k v) = (map_of m)(k \<mapsto> v)"
  by (induction m) (auto simp: fun_eq_iff)

lemma keys_map_set [simp]:
  "map fst (map_set m k v) = (if k \<in> set (map fst m) then map fst m else map fst m @ [k])"
  by (induction m) force+

lemma map_set_keys:
  "\<forall>(k', v') \<in> set m. k' = key v' \<Longrightarrow> \<forall>(k', v') \<in> set (map_set m (key v) v). k' = key v'"
  by (induction m) (auto split: if_splits)

definition merge_map :: "internship list \<Rightarrow> (jsid \<times> internship) list \<Rightarrow> (jsid \<times> internship) list" where
  "merge_map xs m = fold (\<lambda>int m. map_set m (i_id int) int) xs m"

lemma merge_map_Cons [simp]: "merge_map (x # xs) m = merge_map xs (map_set m (i_id x) x)"
  by (simp add: merge_map_def)

lemma merge_map_Nil [simp]: "merge_map [] m = m"
  by (simp add: merge_map_def)

lemma allInternships_merge_map: "allInternships L E = map snd (merge_map (L @ E) [])"
  by (simp add: allInternships_def merge_map_def)

text \<open>The later of two listings with one id wins: the lookup is that of the reversed list.\<close>

lemma merge_map_lookup: "map_of (merge_map xs m) = map_of m ++ id_map (rev xs)"
  by (induction xs arbitrary: m) (auto simp: map_add_def fun_eq_iff split: option.split)

lemma merge_map_distinct: "distinct (map fst m) \<Longrightarrow> distinct (map fst (merge_map xs m))"
  by (induction xs arbitrary: m) auto

lemma merge_map_keys:
  "\<forall>(k, v) \<in> set m. k = i_id v \<Longrightarrow> \<forall>(k, v) \<in> set (merge_map xs m). k = i_id v"
proof (induction xs arbitrary: m)
  case (Cons x xs)
  then show ?case using map_set_keys [of m i_id x] by simp
qed simp

lemma keyed_by_id: "\<forall>(k, v) \<in> set m. k = i_id v \<Longrightarrow> map ((\<lambda>i. (i_id i, i)) \<circ> snd) m = m"
  by (induction m) auto

lemma merge_map_keyed: "map ((\<lambda>i. (i_id i, i)) \<circ> snd) (merge_map xs []) = merge_map xs []"
  by (rule keyed_by_id, rule merge_map_keys) simp

lemma allInternships_ids: "map i_id (allInternships L E) = map fst (merge_map (L @ E) [])"
proof -
  have "map fst (map ((\<lambda>i. (i_id i, i)) \<circ> snd) (merge_map (L @ E) [])) = map fst (merge_map (L @ E) [])"
    by (simp only: merge_map_keyed)
  then show ?thesis by (simp add: allInternships_merge_map)
qed

lemma allInternships_ids_distinct: "distinct (map i_id (allInternships L E))"
  by (simp add: allInternships_ids merge_map_distinct)

lemma allInternships_lookup: "id_map (allInternships L E) = id_map (rev L) ++ id_map (rev E)"
proof -
  have "id_map (allInternships L E) = map_of (merge_map (L @ E) [])"
    by (simp add: allInternships_merge_map merge_map_keyed)
  also have "\<dots> = id_map (rev (L @ E))" by (simp add: merge_map_lookup)
  finally show ?thesis by (simp add: map_add_def fun_eq_iff map_of_append split: option.split)
qed

lemma merge_map_abs: "map_of (merge_map xs m) = fold (\<lambda>i f. f(i_id i \<mapsto> i)) xs (map_of m)"
  by (induction xs arbitrary: m) simp_all

subsection \<open>Examples\<close>

definition demo_listing :: "jsid \<Rightarrow> string \<Rightarrow> string list \<Rightarrow> day \<Rightarrow> internship" where
  "demo_listing k title reqs posted = \<lparr>i_id = k, i_title = title, i_company = ''Acme'',
     i_companyId = Some (NumId 1), i_logo = ''A'', i_location = ''Remote'', i_type = ''Remote'',
     i_isPaid = True, i_stipend = [], i_duration = [], i_domain = ''Web Development'',
     i_description = [], i_posted = posted, i_deadline = [], i_applicants = 0,
     i_requirements = reqs, i_redirect_url = None\<rparr>"

definition demo_recruiter :: user where
  "demo_recruiter = \<lparr>u_id = 7, u_name = ''Rita'', u_email = ''r@acme.com'', u_password = ''secret'',
     u_role = Recruiter, u_companyId = Some (NumId 1), u_skills = None, u_education = None,
     u_projects = None, u_resume = None, u_bio = None, u_about = None, u_phone = None,
     u_location = None, u_links = None, u_profileImage = None\<rparr>"

subsection \<open>Properties\<close>

text \<open>
  C4: the merged view refines a last-write-wins map: looking an id up in
  \<open>allInternships L E\<close> gives what inserting the local and then the external listings
  one by one into an empty map gives.
\<close>

theorem allInternships_refines_map:
  "id_map (allInternships L E) = fold (\<lambda>i f. f(i_id i \<mapsto> i)) (L @ E) Map.empty"
proof -
  have "id_map (allInternships L E) = map_of (merge_map (L @ E) [])"
    by (simp add: allInternships_merge_map merge_map_keyed)
  then show ?thesis by (simp add: merge_map_abs)
qed

text \<open>
  C5: the merged view holds each id once, and an external listing whose id no other
  external listing has is the entry for its id, whatever local listing has the same id.
\<close>

theorem allInternships_external_wins:
  assumes "i \<in> set E" "distinct (map i_id E)"
  shows "distinct (map i_id (allInternships L E)) \<and> find (\<lambda>j. i_id j = i_id i) (allInternships L E) = Some i"
proof
  show d: "distinct (map i_id (allInternships L E))" by (rule allInternships_ids_distinct)
  have "distinct (map fst (rev (map (\<lambda>j. (i_id j, j)) E)))"
    using assms(2) by (simp add: rev_map [symmetric] o_def)
  then have "id_map (rev E) (i_id i) = Some i"
    using assms(1) by (simp add: map_of_eq_Some_iff rev_map [symmetric])
  then have ii: "id_map (allInternships L E) (i_id i) = Some i" by (simp add: allInternships_lookup)
  then have "(i_id i, i) \<in> set (map (\<lambda>j. (i_id j, j)) (allInternships L E))" by (rule map_of_SomeD)
  then have "i \<in> set (allInternships L E)" by auto
  moreover have "j = i" if "j \<in> set (allInternships L E)" "i_id j = i_id i" for j
  proof -
    have "id_map (allInternships L E) (i_id j) = Some j"
      using d that(1) by (simp add: map_of_eq_Some_iff o_def)
    then have "Some j = Some i" unfolding that(2) ii by (rule sym)
    then show ?thesis by (rule option.inject [THEN iffD1])
  qed
  ultimately show "find (\<lambda>j. i_id j = i_id i) (allInternships L E) = Some i"
    by (intro find_unique) auto
qed

theorem allInternships_external_wins_witness:
  "distinct (map i_id (allInternships [demo_listing (NumId 5) ''Local'' [] 1] [demo_listing (NumId 5) ''Remote copy'' [] 2]))
   \<and> find (\<lambda>j. i_id j = NumId 5) (allInternships [demo_listing (NumId 5) ''Local'' [] 1] [demo_listing (NumId 5) ''Remote copy'' [] 2])
     = Some (demo_listing (NumId 5) ''Remote copy'' [] 2)"
  using allInternships_external_wins [of "demo_listing (NumId 5) ''Remote copy'' [] 2"
          "[demo_listing (NumId 5) ''Remote copy'' [] 2]" "[demo_listing (NumId 5) ''Local'' [] 1]"]
  by (simp add: demo_listing_def)

text \<open>
  The detail route of a listing, \<open>/internship/${internship.id}\<close>, leads back to that
  listing through \<open>getInternship\<close>'s \<open>parseInt\<close>, when ids are unique and no string id
  parses as a number (external ids start with \<open>adzuna-\<close>).
\<close>

theorem getInternship_route:
  assumes "str_ids_unparsable ins" "distinct (map i_id ins)" "i \<in> set ins"
  shows "getInternship ins (route_param (i_id i)) = Some i"
proof -
  have "getInternship ins (route_param (i_id i)) = find (\<lambda>j. i_id j = i_id i) ins"
    using assms(1,3) by (intro getInternship_route_exact) auto
  also have "\<dots> = Some i"
    using assms(2,3) by (intro find_unique) (auto dest: inj_onD [OF distinct_map [THEN iffD1, THEN conjunct2]])
  finally show ?thesis .
qed

theorem getInternship_route_witness:
  "getInternship [demo_listing (NumId 12) ''A'' [] 1, demo_listing (StrId ''adzuna-12'') ''B'' [] 2]
     (StrId ''12'') = Some (demo_listing (NumId 12) ''A'' [] 1)"
proof -
  have "getInternship [demo_listing (NumId 12) ''A'' [] 1, demo_listing (StrId ''adzuna-12'') ''B'' [] 2]
          (route_param (i_id (demo_listing (NumId 12) ''A'' [] 1))) = Some (demo_listing (NumId 12) ''A'' [] 1)"
  proof (rule getInternship_route)
    show "str_ids_unparsable [demo_listing (NumId 12) ''A'' [] 1, demo_listing (StrId ''adzuna-12'') ''B'' [] 2]"
      by code_simp
  qed (simp_all add: demo_listing_def)
  moreover have "route_param (i_id (demo_listing (NumId 12) ''A'' [] 1)) = StrId ''12''" by code_simp
  ultimately show ?thesis by simp
qed

text \<open>
  \<open>addInternship\<close> posts only for a recruiter; the posted listing carries the
  clock as id, today's date and no applicants, and is appended to the local listings.
\<close>

theorem addInternship_result:
  "addInternship now today user cs d loc = (Some ni, loc') \<Longrightarrow>
     (\<exists>r. user = Some r \<and> u_role r = Recruiter \<and> i_companyId ni = u_companyId r)
     \<and> loc' = loc @ [ni] \<and> i_id ni = NumId now \<and> i_posted ni = today \<and> i_applicants ni = 0"
  by (auto simp: addInternship_def Let_def split: option.splits if_splits)

theorem addInternship_result_witness:
  "addInternship 1700000000000 20000 (Some demo_recruiter) [\<lparr>c_id = NumId 1, c_name = ''Acme'', c_logo = ''A''\<rparr>]
     (demo_listing (NumId 0) ''Intern'' [''sql''] 0) []
   = (Some (demo_listing (NumId 1700000000000) ''Intern'' [''sql''] 20000),
      [demo_listing (NumId 1700000000000) ''Intern'' [''sql''] 20000])
   \<and> i_applicants (demo_listing (NumId 1700000000000) ''Intern'' [''sql''] 20000) = 0"
proof -
  have eq: "addInternship 1700000000000 20000 (Some demo_recruiter) [\<lparr>c_id = NumId 1, c_name = ''Acme'', c_logo = ''A''\<rparr>]
     (demo_listing (NumId 0) ''Intern'' [''sql''] 0) []
   = (Some (demo_listing (NumId 1700000000000) ''Intern'' [''sql''] 20000),
      [demo_listing (NumId 1700000000000) ''Intern'' [''sql''] 20000])"
    by code_simp
  from addInternship_result [OF eq] eq show ?thesis by simp
qed

end
