(* ===== verification/Matching.thy ===== *)
theory Matching
  imports Listings
begin

text \<open>
  The matching engine of \<open>src/src/context/DataContext.jsx\<close>: the search and filter
  of \<open>getFilteredInternships\<close> (lines 345--382) with the synonym table of
  \<open>src/src/data/keywordRelationships.js\<close>, the skill-match percentage and ranking of
  \<open>getRecommendedInternships\<close> (384--417), the profile checklist (134--184) and the
  autocomplete vocabulary \<open>getSearchableTerms\<close> (419--435) with the suggestion list of
  \<open>src/src/pages/BrowseInternships.jsx\<close> (29--41).
\<close>

subsection \<open>The synonym table\<close>

text \<open>The object literal of \<open>keywordRelationships.js\<close>, entry by entry.\<close>

definition keywordRelationships :: "(string \<times> string list) list" where
  "keywordRelationships = [
    (''ai'', [''artificial intelligence'', ''ml'', ''machine learning'', ''deep learning'', ''data science'', ''nlp'', ''computer vision'', ''python'']),
    (''ml'', [''machine learning'', ''ai'', ''data science'', ''deep learning'', ''python'', ''tensorflow'', ''pytorch'']),
    (''machine learning'', [''ml'', ''ai'', ''data science'', ''deep learning'', ''python'', ''tensorflow'', ''pytorch'']),
    (''deep learning'', [''neural networks'', ''ai'', ''ml'', ''tensorflow'', ''pytorch'']),
    (''data science'', [''data analysis'', ''analytics'', ''statistics'', ''python'', ''sql'', ''r'', ''machine learning'']),
    (''data analyst'', [''analytics'', ''sql'', ''tableau'', ''power bi'', ''excel'', ''statistics'']),
    (''nlp'', [''natural language processing'', ''ai'', ''ml'', ''text analysis'', ''spacy'', ''nltk'']),
    (''computer vision'', [''opencv'', ''image processing'', ''ai'', ''ml'', ''deep learning'']),
    (''web'', [''frontend'', ''backend'', ''full stack'', ''javascript'', ''html'', ''css'', ''react'', ''angular'', ''vue'']),
    (''frontend'', [''web development'', ''ui'', ''ux'', ''javascript'', ''react'', ''angular'', ''vue'', ''html'', ''css'', ''tailwind'']),
    (''backend'', [''server-side'', ''database'', ''api'', ''nodejs'', ''python'', ''java'', ''go'', ''ruby'', ''php'']),
    (''full stack'', [''frontend'', ''backend'', ''web development'', ''javascript'', ''nodejs'', ''react'', ''database'']),
    (''javascript'', [''js'', ''react'', ''node.js'', ''vue'', ''angular'', ''typescript'', ''es6'']),
    (''react'', [''react.js'', ''frontend'', ''javascript'', ''redux'', ''next.js'', ''ui'']),
    (''angular'', [''angular.js'', ''frontend'', ''javascript'', ''typescript'', ''rxjs'']),
    (''vue'', [''vue.js'', ''frontend'', ''javascript'', ''vuex'']),
    (''node.js'', [''nodejs'', ''backend'', ''javascript'', ''express'', ''api'']),
    (''python'', [''django'', ''flask'', ''backend'', ''scripting'', ''ai'', ''data science'']),
    (''java'', [''spring boot'', ''backend'', ''enterprise'', ''android'']),
    (''php'', [''laravel'', ''wordpress'', ''backend'', ''web'']),
    (''ruby'', [''ruby on rails'', ''backend'', ''web'']),
    (''database'', [''sql'', ''nosql'', ''mongodb'', ''postgresql'', ''mysql'', ''database administration'']),
    (''design'', [''graphic design'', ''ui'', ''ux'', ''user experience'', ''user interface'', ''figma'', ''sketch'', ''adobe xd'', ''photoshop'', ''illustrator'']),
    (''graphic design'', [''design'', ''photoshop'', ''illustrator'', ''creative suite'', ''visuals'']),
    (''ui'', [''user interface'', ''design'', ''frontend'', ''figma'', ''sketch'']),
    (''ux'', [''user experience'', ''design'', ''research'', ''usability'', ''prototyping'']),
    (''ui/ux'', [''design'', ''user experience'', ''user interface'', ''figma'', ''sketch'']),
    (''figma'', [''design'', ''ui'', ''ux'', ''prototyping'', ''wireframing'']),
    (''mobile'', [''ios'', ''android'', ''swift'', ''kotlin'', ''react native'', ''flutter'', ''mobile development'']),
    (''ios'', [''swift'', ''swiftui'', ''xcode'', ''apple'', ''mobile'']),
    (''android'', [''kotlin'', ''java'', ''android sdk'', ''jetpack'', ''mobile'']),
    (''react native'', [''mobile'', ''javascript'', ''ios'', ''android'', ''cross-platform'']),
    (''flutter'', [''mobile'', ''dart'', ''ios'', ''android'', ''cross-platform'']),
    (''cloud'', [''aws'', ''azure'', ''gcp'', ''devops'', ''docker'', ''kubernetes'', ''serverless'', ''cloud computing'']),
    (''devops'', [''ci/cd'', ''automation'', ''docker'', ''kubernetes'', ''jenkins'', ''ansible'', ''terraform'', ''cloud'']),
    (''aws'', [''amazon web services'', ''cloud'', ''s3'', ''ec2'', ''lambda'', ''dynamodb'']),
    (''azure'', [''microsoft azure'', ''cloud'', ''cloud computing'']),
    (''gcp'', [''google cloud platform'', ''cloud'', ''bigquery'', ''kubernetes engine'']),
    (''docker'', [''containerization'', ''devops'', ''microservices'']),
    (''kubernetes'', [''k8s'', ''container orchestration'', ''devops'', ''docker'']),
    (''cybersecurity'', [''security'', ''infosec'', ''networking'', ''hacking'', ''penetration testing'', ''digital forensics'']),
    (''security'', [''cybersecurity'', ''infosec'', ''encryption'', ''vulnerability'']),
    (''penetration testing'', [''pentesting'', ''ethical hacking'', ''cybersecurity'', ''kali linux'']),
    (''marketing'', [''digital marketing'', ''seo'', ''social media'', ''content marketing'', ''analytics'', ''growth hacking'']),
    (''seo'', [''search engine optimization'', ''marketing'', ''google analytics'', ''keywords'']),
    (''social media'', [''marketing'', ''content creation'', ''community management'']),
    (''game development'', [''gaming'', ''unity'', ''unreal engine'', ''c++'', ''c#'']),
    (''robotics'', [''ros'', ''c++'', ''robot operating system'', ''automation'']),
    (''finance'', [''quantitative analysis'', ''fintech'', ''investment banking'', ''excel'']),
    (''business'', [''analysis'', ''sales'', ''product management'', ''strategy'']),
    (''product management'', [''pm'', ''product strategy'', ''agile'', ''roadmap''])
  ]"

text \<open>
  \<open>keywordRelationships[keyword]\<close> is a property read on a plain object: besides its
  own keys it finds the properties inherited from \<open>Object.prototype\<close>, which are
  truthy and have no \<open>forEach\<close>, so line 355 throws a \<open>TypeError\<close> for them.
\<close>

definition object_prototype_props :: "string list" where
  "object_prototype_props = [''constructor'', ''__proto__'', ''toString'', ''toLocaleString'',
     ''valueOf'', ''hasOwnProperty'', ''isPrototypeOf'', ''propertyIsEnumerable'',
     ''__defineGetter__'', ''__defineSetter__'', ''__lookupGetter__'', ''__lookupSetter__'']"

datatype property = Own "string list" | Inherited | Absent

definition keyword_lookup :: "string \<Rightarrow> property" where
  "keyword_lookup k =
     (case map_of keywordRelationships k of
        Some rel \<Rightarrow> Own rel
      | None \<Rightarrow> if k \<in> set object_prototype_props then Inherited else Absent)"

text \<open>Lines 350--357: tokens, then the related terms of each token, one level deep.\<close>

definition searchKeywords :: "string \<Rightarrow> string list" where
  "searchKeywords search = filter (\<lambda>w. w \<noteq> []) (js_split CHR '' '' (toLowerCase search))"

fun related_terms :: "string list \<Rightarrow> js_error + string list" where
  "related_terms [] = Inr []"
| "related_terms (k # ks) =
     (case keyword_lookup k of
        Own rel \<Rightarrow> (case related_terms ks of Inl e \<Rightarrow> Inl e | Inr r \<Rightarrow> Inr (rel @ r))
      | Absent \<Rightarrow> related_terms ks
      | Inherited \<Rightarrow> Inl TypeError)"

definition expandedKeywords :: "string \<Rightarrow> js_error + string list" where
  "expandedKeywords search =
     (let ks = searchKeywords search
      in case related_terms ks of Inl e \<Rightarrow> Inl e | Inr r \<Rightarrow> Inr (remdups (ks @ r)))"

subsection \<open>Search and filters\<close>

record filters =
  f_search :: string
  f_type :: string
  f_paid :: string
  f_domain :: string
  f_location :: string

definition searchableText :: "internship \<Rightarrow> string" where
  "searchableText i = toLowerCase (js_join '' ''
     ([i_title i, i_company i, i_domain i, i_description i] @ i_requirements i))"

definition matchesSearch :: "string list \<Rightarrow> internship \<Rightarrow> bool" where
  "matchesSearch kws i = (if kws \<noteq> [] then list_ex (js_includes (searchableText i)) kws else True)"

definition matchesOther :: "filters \<Rightarrow> internship \<Rightarrow> bool" where
  "matchesOther f i \<longleftrightarrow>
     (f_type f = ''all'' \<or> i_type i = f_type f)
     \<and> (f_paid f = ''all'' \<or> (f_paid f = ''paid'' \<and> i_isPaid i) \<or> (f_paid f = ''unpaid'' \<and> \<not> i_isPaid i))
     \<and> (f_domain f = ''all'' \<or> i_domain i = f_domain f)
     \<and> (f_location f = [] \<or> js_includes (toLowerCase (i_location i)) (toLowerCase (f_location f)))"

text \<open>
  The callback of \<open>internships.filter\<close> recomputes the keywords for each listing; it
  runs only when there is a listing, so an empty list filters to \<open>[]\<close> whatever the
  query.
\<close>

definition getFilteredInternships :: "internship list \<Rightarrow> filters \<Rightarrow> js_error + internship list" where
  "getFilteredInternships internships f =
     (if internships = [] then Inr []
      else case expandedKeywords (f_search f) of
             Inl e \<Rightarrow> Inl e
           | Inr kws \<Rightarrow> Inr (filter (\<lambda>i. matchesSearch kws i \<and> matchesOther f i) internships))"

subsection \<open>Skill match and recommendations\<close>

definition is_student :: "user option \<Rightarrow> bool" where
  "is_student user \<longleftrightarrow> (case user of Some u \<Rightarrow> u_role u = Student | None \<Rightarrow> False)"

definition studentSkills :: "user option \<Rightarrow> string list" where
  "studentSkills user =
     (case user of
        Some u \<Rightarrow> if u_role u = Student then map toLowerCase (case u_skills u of None \<Rightarrow> [] | Some s \<Rightarrow> s) else []
      | None \<Rightarrow> [])"

text \<open>Lines 394--404, with \<open>Math.round\<close> of the exact quotient.\<close>

definition match_count :: "string list \<Rightarrow> string list \<Rightarrow> nat" where
  "match_count skills reqs = length (filter (\<lambda>s. s \<in> set reqs) skills)"

definition matchPercentage :: "user option \<Rightarrow> internship \<Rightarrow> nat" where
  "matchPercentage user i =
     (let ss = studentSkills user
      in if is_student user \<and> ss \<noteq> [] then
           (let reqs = map toLowerCase (i_requirements i)
            in if reqs \<noteq> [] then round_percent (match_count ss reqs) (length reqs) else 0)
         else 0)"

text \<open>
  The comparator of lines 407--413 puts \<open>a\<close> before \<open>b\<close> when \<open>a\<close> has the higher
  match, or the same match and the later posting date: the order of the key
  \<open>(- match, - posted)\<close>.  \<open>Array.prototype.sort\<close> is stable, and so is
  \<open>sort_key\<close>.
\<close>

type_synonym recommendation = "internship \<times> nat"

text \<open>The comparator \<open>(a, b) => b.matchPercentage - a.matchPercentage\<close>, or the
  difference of the posting dates when the matches agree.\<close>

definition rec_cmp :: "recommendation \<Rightarrow> recommendation \<Rightarrow> int" where
  "rec_cmp a b = (if snd b \<noteq> snd a then int (snd b) - int (snd a) else i_posted (fst b) - i_posted (fst a))"


definition rec_key :: "recommendation \<Rightarrow> int \<times> int" where
  "rec_key r = (- int (snd r), - i_posted (fst r))"

definition getRecommendedInternships :: "user option \<Rightarrow> internship list \<Rightarrow> recommendation list" where
  "getRecommendedInternships user internships =
     take 5 (sort_key rec_key (map (\<lambda>i. (i, matchPercentage user i)) internships))"

subsection \<open>Profile impact checklist\<close>

record check_item =
  ci_label :: string
  ci_completed :: bool
  ci_points :: nat
  ci_action :: string

definition list_len :: "'a list option \<Rightarrow> nat" where
  "list_len xs = (case xs of None \<Rightarrow> 0 | Some l \<Rightarrow> length l)"

definition truthy_str :: "string option \<Rightarrow> bool" where
  "truthy_str s \<longleftrightarrow> (case s of None \<Rightarrow> False | Some t \<Rightarrow> t \<noteq> [])"

definition profileChecklist :: "user \<Rightarrow> check_item list" where
  "profileChecklist u = [
     \<lparr>ci_label = ''Upload Resume'', ci_completed = truthy_str (u_resume u), ci_points = 30, ci_action = ''Upload''\<rparr>,
     \<lparr>ci_label = ''Add 3+ Skills'', ci_completed = (3 \<le> list_len (u_skills u)), ci_points = 20, ci_action = ''Add Skills''\<rparr>,
     \<lparr>ci_label = ''Add Education Details'', ci_completed = (1 \<le> list_len (u_education u)), ci_points = 15, ci_action = ''Add Education''\<rparr>,
     \<lparr>ci_label = ''Write a Short Bio'', ci_completed = truthy_str (u_bio u), ci_points = 15, ci_action = ''Add Bio''\<rparr>,
     \<lparr>ci_label = ''Add 1+ Project/Experience'', ci_completed = (1 \<le> list_len (u_projects u)), ci_points = 20, ci_action = ''Add Project''\<rparr>]"

definition profileScore :: "user \<Rightarrow> nat" where
  "profileScore u =
     (if truthy_str (u_resume u) then 30 else 0)
     + (if 3 \<le> list_len (u_skills u) then 20 else 0)
     + (if 1 \<le> list_len (u_education u) then 15 else 0)
     + (if truthy_str (u_bio u) then 15 else 0)
     + (if 1 \<le> list_len (u_projects u) then 20 else 0)"

text \<open>\<open>(profileImpactScore, profileCompletionPercentage, profileCompletionChecklist)\<close>;
  \<open>Math.round\<close> of an integer is the integer.\<close>

definition profileImpact :: "user option \<Rightarrow> nat \<times> nat \<times> check_item list" where
  "profileImpact user =
     (case user of
        Some u \<Rightarrow> if u_role u = Student then (profileScore u, profileScore u, profileChecklist u) else (0, 0, [])
      | None \<Rightarrow> (0, 0, []))"

subsection \<open>Autocomplete\<close>

definition internshipTerms :: "internship \<Rightarrow> string list" where
  "internshipTerms i = [i_title i] @ i_requirements i
     @ (if i_domain i \<noteq> [] then [i_domain i] else []) @ (if i_company i \<noteq> [] then [i_company i] else [])"

text \<open>A \<open>Set\<close> keeps the first occurrence of each term; capitalisation comes after it.\<close>

definition getSearchableTerms :: "internship list \<Rightarrow> string list" where
  "getSearchableTerms internships =
     sort (map capitalize (remdups (concat (map internshipTerms internships)
                                     @ map fst keywordRelationships @ concat (map snd keywordRelationships))))"

definition suggestions :: "string \<Rightarrow> string list \<Rightarrow> string list" where
  "suggestions search allSearchableTerms =
     (if search \<noteq> [] then take 5 (filter (\<lambda>t. js_includes (toLowerCase t) (toLowerCase search)) allSearchableTerms)
      else [])"

subsection \<open>Lemmas: skill match\<close>

lemma match_count_le: "distinct skills \<Longrightarrow> match_count skills reqs \<le> length reqs"
proof -
  assume d: "distinct skills"
  have "match_count skills reqs = card (set (filter (\<lambda>s. s \<in> set reqs) skills))"
    using d by (simp only: match_count_def distinct_card [symmetric] distinct_filter)
  also have "\<dots> \<le> card (set reqs)" by (rule card_mono) auto
  also have "\<dots> \<le> length reqs" by (rule card_length)
  finally show ?thesis .
qed

subsection \<open>Lemmas: ranking\<close>

abbreviation scored :: "user option \<Rightarrow> internship list \<Rightarrow> recommendation list" where
  "scored user ins \<equiv> map (\<lambda>i. (i, matchPercentage user i)) ins"

lemma sorted_map_take: "sorted (map f ys) \<Longrightarrow> sorted (map f (take k ys))"
proof -
  assume "sorted (map f ys)"
  then have "sorted (map f (take k ys) @ map f (drop k ys))"
    by (simp add: map_append [symmetric] del: map_append)
  then show ?thesis by (simp add: sorted_append)
qed

lemma sorted_take_drop_le:
  "sorted (map f ys) \<Longrightarrow> x \<in> set (take k ys) \<Longrightarrow> y \<in> set (drop k ys) \<Longrightarrow> f x \<le> f y"
proof -
  assume s: "sorted (map f ys)" and x: "x \<in> set (take k ys)" and y: "y \<in> set (drop k ys)"
  from s have "sorted (map f (take k ys) @ map f (drop k ys))"
    by (simp add: map_append [symmetric] del: map_append)
  with x y show "f x \<le> f y" by (auto simp: sorted_append)
qed

lemma rec_cmp_key: "rec_cmp a b < 0 \<longleftrightarrow> rec_key a < rec_key b" "rec_cmp a b = 0 \<longleftrightarrow> rec_key a = rec_key b"
  by (auto simp: rec_cmp_def rec_key_def less_prod_def)

subsection \<open>Lemmas: search\<close>

lemma getFilteredInternships_Inr:
  "expandedKeywords (f_search f) = Inr kws \<Longrightarrow>
   getFilteredInternships ins f = Inr (filter (\<lambda>i. matchesSearch kws i \<and> matchesOther f i) ins)"
  by (simp add: getFilteredInternships_def)

lemma related_terms_Inl: "(\<exists>e. related_terms ks = Inl e) \<longleftrightarrow> (\<exists>k\<in>set ks. keyword_lookup k = Inherited)"
  by (induction ks) (auto split: property.split sum.split)

lemma expandedKeywords_Inl:
  "(\<exists>e. expandedKeywords s = Inl e) \<longleftrightarrow> (\<exists>k\<in>set (searchKeywords s). keyword_lookup k = Inherited)"
  by (auto simp: expandedKeywords_def Let_def related_terms_Inl [symmetric] split: sum.splits)

lemma related_terms_TypeError: "related_terms ks = Inl e \<Longrightarrow> e = TypeError"
  by (induction ks) (auto split: property.splits sum.splits)

lemma expandedKeywords_TypeError: "expandedKeywords s = Inl e \<Longrightarrow> e = TypeError"
  by (auto simp: expandedKeywords_def Let_def dest: related_terms_TypeError split: sum.splits)

lemma keywordRelationships_keys_distinct: "distinct (map fst keywordRelationships)"
  by code_simp

lemma ai_expansion:
  "expandedKeywords ''ai'' = Inr [''ai'', ''artificial intelligence'', ''ml'', ''machine learning'',
     ''deep learning'', ''data science'', ''nlp'', ''computer vision'', ''python'']"
  by code_simp

lemma constructor_expansion: "expandedKeywords ''constructor'' = Inl TypeError"
proof -
  have "keyword_lookup ''constructor'' = Inherited" "searchKeywords ''constructor'' = [''constructor'']"
    by code_simp+
  then have "\<exists>e. expandedKeywords ''constructor'' = Inl e" by (simp add: expandedKeywords_Inl)
  then obtain e where "expandedKeywords ''constructor'' = Inl e" by blast
  then show ?thesis using expandedKeywords_TypeError by blast
qed

subsection \<open>Lemmas: autocomplete\<close>

lemma count_map_two:
  assumes "distinct xs" "a \<in> set xs" "b \<in> set xs" "a \<noteq> b" "f a = c" "f b = c"
  shows "2 \<le> count (mset (map f xs)) c"
proof -
  have "count (mset (map f xs)) c = length (filter (\<lambda>x. c = f x) xs)"
    by (induction xs) auto
  also have "\<dots> = card (set (filter (\<lambda>x. c = f x) xs))"
    using assms(1) by (simp only: distinct_card [symmetric] distinct_filter)
  also have "card {a, b} \<le> \<dots>" using assms(2-6) by (intro card_mono) auto
  finally show ?thesis using assms(4) by simp
qed

lemma react_key: "''react'' \<in> set (map fst keywordRelationships)"
  by code_simp

lemma capitalize_react: "capitalize ''react'' = ''React''" "capitalize ''React'' = ''React''"
  by code_simp+

subsection \<open>Examples\<close>

definition demo_six :: "internship list" where
  "demo_six = map (\<lambda>n. demo_listing (NumId n) ''Intern'' [] n) [1, 2, 3, 4, 5, 6]"

subsection \<open>Properties\<close>

text \<open>
  C7: searching \<open>ai\<close> (all other filters off) keeps exactly the listings whose
  searchable text contains one of \<open>ai\<close> or its related terms, one level deep: the
  expansion is an OR over the nine terms.
\<close>

theorem search_ai:
  "getFilteredInternships ins \<lparr>f_search = ''ai'', f_type = ''all'', f_paid = ''all'', f_domain = ''all'', f_location = []\<rparr>
   = Inr (filter (\<lambda>i. \<exists>k\<in>set [''ai'', ''artificial intelligence'', ''ml'', ''machine learning'',
     ''deep learning'', ''data science'', ''nlp'', ''computer vision'', ''python'']. js_includes (searchableText i) k) ins)"
  (is "getFilteredInternships ins ?f = Inr (filter ?P ins)")
proof -
  have "expandedKeywords (f_search ?f) = Inr [''ai'', ''artificial intelligence'', ''ml'', ''machine learning'',
     ''deep learning'', ''data science'', ''nlp'', ''computer vision'', ''python'']"
    by (simp add: ai_expansion)
  then show ?thesis
    by (simp add: getFilteredInternships_Inr matchesSearch_def matchesOther_def list_ex_iff del: list.set)
qed

text \<open>
  C8: the query \<open>constructor\<close> finds the inherited \<open>Object.prototype.constructor\<close> in
  the synonym table and the search throws a \<open>TypeError\<close> as soon as there is a listing
  to filter.
\<close>

theorem search_constructor_crash:
  "ins \<noteq> [] \<Longrightarrow> getFilteredInternships ins (f\<lparr>f_search := ''constructor''\<rparr>) = Inl TypeError"
  by (simp add: getFilteredInternships_def constructor_expansion)

theorem search_constructor_crash_witness:
  "getFilteredInternships [demo_listing (NumId 1) ''Intern'' [] 0]
     (\<lparr>f_search = [], f_type = ''all'', f_paid = ''all'', f_domain = ''all'', f_location = []\<rparr>\<lparr>f_search := ''constructor''\<rparr>)
   = Inl TypeError"
  by (rule search_constructor_crash) simp

text \<open>
  C9: when the student's lower-cased skills are distinct, the match percentage of any
  listing is at most 100.
\<close>

theorem matchPercentage_le_100:
  assumes "distinct (studentSkills user)"
  shows "matchPercentage user i \<le> 100"
proof -
  let ?reqs = "map toLowerCase (i_requirements i)"
  have "match_count (studentSkills user) ?reqs \<le> length ?reqs"
    using assms by (rule match_count_le)
  then have "round_percent (match_count (studentSkills user) ?reqs) (length ?reqs) \<le> 100"
    by (rule round_percent_le)
  then show ?thesis by (simp add: matchPercentage_def Let_def)
qed

theorem matchPercentage_le_100_witness:
  "distinct (studentSkills (Some (demo_student [''React'', ''SQL''])))
   \<and> matchPercentage (Some (demo_student [''React'', ''SQL''])) (demo_listing (NumId 1) ''X'' [''react''] 0) \<le> 100"
proof -
  have d: "distinct (studentSkills (Some (demo_student [''React'', ''SQL''])))" by code_simp
  show ?thesis using d matchPercentage_le_100 [OF d] by simp
qed

text \<open>
  The bound fails without distinct skills.  The profile page adds a skill unless
  the exact string is present, so \<open>React\<close> and \<open>react\<close> can both be saved; both
  lower-case to \<open>react\<close>, both count as matched, and a one-requirement listing scores
  200.
\<close>

theorem matchPercentage_duplicate_skills:
  "matchPercentage (Some (demo_student [''React'', ''react''])) (demo_listing (NumId 1) ''X'' [''react''] 0) = 200"
  by code_simp

text \<open>Skills react and sql against requirements react, python, sql: round(200/3) = 67.\<close>

theorem matchPercentage_scenario_c:
  "matchPercentage (Some (demo_student [''react'', ''sql''])) (demo_listing (NumId 1) ''X'' [''react'', ''python'', ''sql''] 0) = 67"
  by code_simp

text \<open>A listing without requirements scores 0 for everyone.\<close>

theorem matchPercentage_no_requirements: "i_requirements i = [] \<Longrightarrow> matchPercentage user i = 0"
  by (simp add: matchPercentage_def Let_def)

theorem matchPercentage_no_requirements_witness:
  "i_requirements (demo_listing (NumId 1) ''X'' [] 0) = []
   \<and> matchPercentage (Some (demo_student [''react''])) (demo_listing (NumId 1) ''X'' [] 0) = 0"
  using matchPercentage_no_requirements [of "demo_listing (NumId 1) ''X'' [] 0" "Some (demo_student [''react''])"]
  by (simp add: demo_listing_def)

text \<open>
  The recommendations are a top five: no listing left out ranks strictly before a
  recommended one (higher match, or equal match and later posting).
\<close>

theorem getRecommended_top:
  assumes "r \<in> set (getRecommendedInternships user ins)"
    and "x \<in># mset (scored user ins) - mset (getRecommendedInternships user ins)"
  shows "rec_key r \<le> rec_key x"
proof -
  let ?ys = "sort_key rec_key (scored user ins)"
  have "mset (scored user ins) = mset (take 5 ?ys @ drop 5 ?ys)"
    by (simp only: append_take_drop_id mset_sort)
  then have "mset (scored user ins) - mset (take 5 ?ys) = mset (drop 5 ?ys)"
    by (simp only: mset_append add_diff_cancel_left')
  with assms have "r \<in> set (take 5 ?ys)" "x \<in> set (drop 5 ?ys)"
    by (simp_all add: getRecommendedInternships_def flip: set_mset_mset)
  then show ?thesis by (rule sorted_take_drop_le [OF sorted_sort_key])
qed

theorem getRecommended_top_witness:
  "rec_key (demo_listing (NumId 6) ''Intern'' [] 6, 0) \<le> rec_key (demo_listing (NumId 1) ''Intern'' [] 1, 0)"
proof (rule getRecommended_top [of _ None demo_six])
  show "(demo_listing (NumId 6) ''Intern'' [] 6, 0) \<in> set (getRecommendedInternships None demo_six)"
    by code_simp
  show "(demo_listing (NumId 1) ''Intern'' [] 1, 0)
        \<in># mset (scored None demo_six) - mset (getRecommendedInternships None demo_six)"
    by code_simp
qed

text \<open>
  \<open>Array.prototype.sort\<close> with the comparator of lines 407--413 guarantees a
  permutation, ordered by the comparator, in which elements the comparator calls equal
  keep their order.  Only one list has these properties: the one \<open>sort_key rec_key\<close>
  computes, so the model's ranking is the program's.
\<close>

theorem js_sort_is_sort_key:
  assumes "mset ys = mset xs"
    and "\<forall>k\<in>set ys. filter (\<lambda>x. rec_cmp k x = 0) ys = filter (\<lambda>x. rec_cmp k x = 0) xs"
    and "sorted_wrt (\<lambda>a b. \<not> rec_cmp b a < 0) ys"
  shows "sort_key rec_key xs = ys"
proof (rule properties_for_sort_key)
  show "mset ys = mset xs" by (rule assms(1))
  show "filter (\<lambda>x. rec_key k = rec_key x) ys = filter (\<lambda>x. rec_key k = rec_key x) xs"
    if "k \<in> set ys" for k
    using assms(2) that by (simp add: rec_cmp_key)
  have "sorted_wrt (\<lambda>a b. rec_key a \<le> rec_key b) ys"
    using assms(3) by (rule sorted_wrt_mono_rel [rotated]) (simp add: rec_cmp_key not_less)
  then show "sorted (map rec_key ys)" by (simp add: sorted_map)
qed

theorem js_sort_is_sort_key_witness:
  "sort_key rec_key [(demo_listing (NumId 1) ''A'' [] 1, 0), (demo_listing (NumId 2) ''B'' [] 2, 0)]
   = [(demo_listing (NumId 2) ''B'' [] 2, 0), (demo_listing (NumId 1) ''A'' [] 1, 0)]"
  by (rule js_sort_is_sort_key) code_simp+

text \<open>
  At most five recommendations, as many as there are listings up to five, in
  ranking order, each a listing with its own match percentage.
\<close>

theorem getRecommended_shape:
  "length (getRecommendedInternships user ins) = min 5 (length ins)
   \<and> sorted (map rec_key (getRecommendedInternships user ins))
   \<and> set (getRecommendedInternships user ins) \<subseteq> set (scored user ins)"
  by (auto simp: getRecommendedInternships_def length_sort sorted_map_take dest: in_set_takeD)

text \<open>
  For a student the impact score is the sum of the points of the completed
  checklist items, the percentage equals it, the weights add up to 100 and the score
  is at most 100.
\<close>

theorem profile_score_consistent:
  assumes "u_role u = Student" "profileImpact (Some u) = (sc, pct, cl)"
  shows "sc = sum_list (map ci_points (filter ci_completed cl)) \<and> pct = sc
         \<and> sum_list (map ci_points cl) = 100 \<and> sc \<le> 100"
  using assms by (auto simp: profileImpact_def profileScore_def profileChecklist_def)

theorem profile_score_consistent_witness:
  "profileImpact (Some (demo_student [''a'', ''b'', ''c''])) = (20, 20, profileChecklist (demo_student [''a'', ''b'', ''c'']))
   \<and> sum_list (map ci_points (filter ci_completed (profileChecklist (demo_student [''a'', ''b'', ''c''])))) = 20"
proof -
  have e: "profileImpact (Some (demo_student [''a'', ''b'', ''c''])) = (20, 20, profileChecklist (demo_student [''a'', ''b'', ''c'']))"
    by code_simp
  have "u_role (demo_student [''a'', ''b'', ''c'']) = Student" by (simp add: demo_student_def)
  from profile_score_consistent [OF this e] e show ?thesis by simp
qed

text \<open>
  The autocomplete vocabulary is deduplicated before capitalisation, so a listing
  requiring \<open>React\<close> and the synonym key \<open>react\<close> both give \<open>React\<close>: the list
  holds it twice.
\<close>

theorem searchable_terms_duplicate:
  assumes "i \<in> set ins" "''React'' \<in> set (i_requirements i)"
  shows "2 \<le> count (mset (getSearchableTerms ins)) ''React''"
proof -
  let ?ts = "concat (map internshipTerms ins) @ map fst keywordRelationships @ concat (map snd keywordRelationships)"
  have a: "''React'' \<in> set (remdups ?ts)" using assms by (auto simp: internshipTerms_def)
  have b: "''react'' \<in> set (remdups ?ts)" using react_key by simp
  have "''React'' \<noteq> ''react''" by simp
  from distinct_remdups a b this capitalize_react(2) capitalize_react(1)
  have "2 \<le> count (mset (map capitalize (remdups ?ts))) ''React''"
    by (rule count_map_two)
  then show ?thesis by (simp add: getSearchableTerms_def)
qed

theorem searchable_terms_duplicate_witness:
  "2 \<le> count (mset (getSearchableTerms [demo_listing (NumId 1) ''Frontend Intern'' [''React''] 0])) ''React''"
  by (rule searchable_terms_duplicate [of "demo_listing (NumId 1) ''Frontend Intern'' [''React''] 0"])
     (simp_all add: demo_listing_def)

end
