(* ===== verification/Ledger.thy ===== *)
theory Ledger
  imports Listings
begin

text \<open>
  The application ledger of \<open>src/src/context/DataContext.jsx\<close>: application records,
  \<open>applyForInternship\<close> (lines 275--292), \<open>updateApplicationStatus\<close> (335--343),
  \<open>getStudentApplications\<close> (294--302) and \<open>getRecruiterApplicants\<close> (304--323).

  \<open>applyForInternship\<close> is a callback created at render time: its duplicate check reads
  the \<open>applications\<close> array of that render (\<open>seen\<close> below), while the update
  \<open>setApplications(prev => [...prev, newApplication])\<close> appends to the current state.
  The two agree when the component re-rendered since the last call.
  Records created by it have no \<open>id\<close> field (\<open>a_id = None\<close>); seeded records have one.
\<close>

record application =
  a_id :: "int option"
  a_internshipId :: jsid
  a_studentId :: int
  a_status :: string
  a_appliedDate :: day

definition has_applied :: "application list \<Rightarrow> jsid \<Rightarrow> int \<Rightarrow> bool" where
  "has_applied apps internshipId sid \<longleftrightarrow>
     list_ex (\<lambda>app. a_internshipId app = internshipId \<and> a_studentId app = sid) apps"

definition bump_applicants :: "jsid \<Rightarrow> internship list \<Rightarrow> internship list" where
  "bump_applicants internshipId ins =
     map (\<lambda>i. if i_id i = internshipId then i\<lparr>i_applicants := i_applicants i + 1\<rparr> else i) ins"

definition applyForInternship ::
  "day \<Rightarrow> user option \<Rightarrow> application list \<Rightarrow> jsid
   \<Rightarrow> application list \<times> internship list \<Rightarrow> application list \<times> internship list" where
  "applyForInternship today user seen internshipId st =
     (case user of
        Some u \<Rightarrow>
          if u_role u \<noteq> Student then st
          else if has_applied seen internshipId (u_id u) then st
          else let newApplication = \<lparr>a_id = None, a_internshipId = internshipId, a_studentId = u_id u,
                                      a_status = ''Applied'', a_appliedDate = today\<rparr>
               in (fst st @ [newApplication], bump_applicants internshipId (snd st))
      | None \<Rightarrow> st)"

text \<open>\<open>app.id === applicationId\<close>: \<open>undefined === undefined\<close> holds.\<close>

definition updateApplicationStatus ::
  "user option \<Rightarrow> int option \<Rightarrow> string \<Rightarrow> application list \<Rightarrow> application list" where
  "updateApplicationStatus user applicationId newStatus apps =
     (case user of
        Some u \<Rightarrow>
          if u_role u \<noteq> Recruiter then apps
          else map (\<lambda>app. if a_id app = applicationId then app\<lparr>a_status := newStatus\<rparr> else app) apps
      | None \<Rightarrow> apps)"

definition getStudentApplications ::
  "user option \<Rightarrow> application list \<Rightarrow> internship list \<Rightarrow> (application \<times> internship option) list" where
  "getStudentApplications user apps internships =
     (case user of
        Some u \<Rightarrow>
          if u_role u \<noteq> Student then []
          else map (\<lambda>app. (app, find (\<lambda>i. i_id i = a_internshipId app) internships))
                   (filter (\<lambda>app. a_studentId app = u_id u) apps)
      | None \<Rightarrow> [])"

text \<open>
  Applicants of a listing, for the recruiter of the listing's company only; each with
  the student's name and email (\<open>'Unknown Student'\<close>/\<open>'Unknown Email'\<close> when the
  account is missing or the field is empty).
\<close>

definition getRecruiterApplicants ::
  "user option \<Rightarrow> user list \<Rightarrow> internship list \<Rightarrow> application list \<Rightarrow> jsid
   \<Rightarrow> (application \<times> string \<times> string) list" where
  "getRecruiterApplicants user allUsers internships apps internshipId =
     (case user of
        Some u \<Rightarrow>
          if u_role u \<noteq> Recruiter then []
          else (case find (\<lambda>i. i_id i = internshipId) internships of
                  None \<Rightarrow> []
                | Some target \<Rightarrow>
                    if i_companyId target \<noteq> u_companyId u then []
                    else map (\<lambda>app.
                           let student = find (\<lambda>s. u_id s = a_studentId app) allUsers
                           in (app,
                               case student of Some s \<Rightarrow> or_string (u_name s) ''Unknown Student''
                                             | None \<Rightarrow> ''Unknown Student'',
                               case student of Some s \<Rightarrow> or_string (u_email s) ''Unknown Email''
                                             | None \<Rightarrow> ''Unknown Email''))
                         (filter (\<lambda>app. a_internshipId app = internshipId) apps))
      | None \<Rightarrow> [])"

subsection \<open>Invariant: one application per student and listing\<close>

definition pairs_unique :: "application list \<Rightarrow> bool" where
  "pairs_unique apps \<longleftrightarrow> distinct (map (\<lambda>a. (a_studentId a, a_internshipId a)) apps)"

lemma has_applied_iff:
  "has_applied apps k sid \<longleftrightarrow> (sid, k) \<in> set (map (\<lambda>a. (a_studentId a, a_internshipId a)) apps)"
  by (auto simp: has_applied_def list_ex_iff)

lemma applyForInternship_pairs_unique:
  "pairs_unique (fst st) \<Longrightarrow> pairs_unique (fst (applyForInternship today user (fst st) k st))"
  by (auto simp: applyForInternship_def pairs_unique_def has_applied_iff Let_def split: option.split)

lemma updateApplicationStatus_pairs:
  "map (\<lambda>a. (a_studentId a, a_internshipId a)) (updateApplicationStatus user aid s apps)
   = map (\<lambda>a. (a_studentId a, a_internshipId a)) apps"
  by (simp add: updateApplicationStatus_def split: option.split)

lemma updateApplicationStatus_pairs_unique:
  "pairs_unique apps \<Longrightarrow> pairs_unique (updateApplicationStatus user aid s apps)"
  by (simp add: pairs_unique_def updateApplicationStatus_pairs)

lemma bump_applicants_ids [simp]: "map i_id (bump_applicants k ins) = map i_id ins"
  by (simp add: bump_applicants_def)

lemma bump_applicants_other: "i_id i \<noteq> k \<Longrightarrow> i \<in> set ins \<Longrightarrow> i \<in> set (bump_applicants k ins)"
  by (force simp: bump_applicants_def)

lemma applyForInternship_absorb:
  "applyForInternship d' user (fst (applyForInternship d user (fst st) k st)) k
     (applyForInternship d user (fst st) k st) = applyForInternship d user (fst st) k st"
  by (auto simp: applyForInternship_def has_applied_def Let_def split: option.split)

lemma count_pair_append:
  "length (filter P (xs @ [x])) = length (filter P xs) + (if P x then 1 else 0)"
  by simp

lemma pairs_unique_count:
  "pairs_unique apps \<Longrightarrow>
     length (filter (\<lambda>a. a_studentId a = sid \<and> a_internshipId a = k) apps) = (if has_applied apps k sid then 1 else 0)"
proof -
  assume "pairs_unique apps"
  then have d: "distinct (map (\<lambda>a. (a_studentId a, a_internshipId a)) apps)" by (simp add: pairs_unique_def)
  have "length (filter (\<lambda>a. a_studentId a = sid \<and> a_internshipId a = k) apps)
        = count (mset (map (\<lambda>a. (a_studentId a, a_internshipId a)) apps)) (sid, k)"
    by (induction apps) auto
  also have "\<dots> = (if (sid, k) \<in> set (map (\<lambda>a. (a_studentId a, a_internshipId a)) apps) then 1 else 0)"
    using d by (simp add: distinct_count_atmost_1 del: set_map)
  finally show ?thesis by (simp add: has_applied_iff)
qed

subsection \<open>Examples\<close>

definition demo_application :: "int option \<Rightarrow> jsid \<Rightarrow> int \<Rightarrow> application" where
  "demo_application aid k sid = \<lparr>a_id = aid, a_internshipId = k, a_studentId = sid,
     a_status = ''Applied'', a_appliedDate = 0\<rparr>"

subsection \<open>Properties\<close>

text \<open>
  C20: applications created by \<open>applyForInternship\<close> have no \<open>id\<close>, and the recruiter
  dashboard passes \<open>applicant.id\<close>; with \<open>undefined\<close> as the id, one status change
  rewrites every id-less application, whichever listing or company it belongs to.
\<close>

theorem updateStatus_undefined_id:
  "u_role r = Recruiter \<Longrightarrow> a \<in> set apps \<Longrightarrow> a_id a = None \<Longrightarrow>
   a\<lparr>a_status := s\<rparr> \<in> set (updateApplicationStatus (Some r) None s apps)"
  by (force simp: updateApplicationStatus_def)

theorem updateStatus_undefined_id_witness:
  "updateApplicationStatus (Some demo_recruiter) None ''shortlisted''
     [demo_application None (NumId 1) 1, demo_application None (NumId 2) 2]
   = [(demo_application None (NumId 1) 1)\<lparr>a_status := ''shortlisted''\<rparr>,
      (demo_application None (NumId 2) 2)\<lparr>a_status := ''shortlisted''\<rparr>]
   \<and> (demo_application None (NumId 2) 2)\<lparr>a_status := ''shortlisted''\<rparr>
     \<in> set (updateApplicationStatus (Some demo_recruiter) None ''shortlisted''
              [demo_application None (NumId 1) 1, demo_application None (NumId 2) 2])"
proof -
  have "(demo_application None (NumId 2) 2)\<lparr>a_status := ''shortlisted''\<rparr>
     \<in> set (updateApplicationStatus (Some demo_recruiter) None ''shortlisted''
              [demo_application None (NumId 1) 1, demo_application None (NumId 2) 2])"
    by (rule updateStatus_undefined_id) (simp_all add: demo_recruiter_def demo_application_def)
  moreover have "updateApplicationStatus (Some demo_recruiter) None ''shortlisted''
     [demo_application None (NumId 1) 1, demo_application None (NumId 2) 2]
   = [(demo_application None (NumId 1) 1)\<lparr>a_status := ''shortlisted''\<rparr>,
      (demo_application None (NumId 2) 2)\<lparr>a_status := ''shortlisted''\<rparr>]"
    by (simp add: updateApplicationStatus_def demo_recruiter_def demo_application_def)
  ultimately show ?thesis by simp
qed

text \<open>
  C22: the duplicate check reads the applications of the render that created the
  callback.  Two calls from one render (a double submit) both pass it and record two
  applications of the student to the listing.
\<close>

theorem stale_apply_duplicates:
  assumes "user = Some u" "u_role u = Student" "\<not> has_applied seen k (u_id u)"
  shows "length (filter (\<lambda>a. a_studentId a = u_id u \<and> a_internshipId a = k)
            (fst (applyForInternship d user seen k (applyForInternship d user seen k st))))
         = length (filter (\<lambda>a. a_studentId a = u_id u \<and> a_internshipId a = k) (fst st)) + 2"
  using assms by (simp add: applyForInternship_def Let_def)

theorem stale_apply_duplicates_witness:
  "length (filter (\<lambda>a. a_studentId a = 1 \<and> a_internshipId a = NumId 4)
     (fst (applyForInternship 0 (Some (demo_student [])) [] (NumId 4)
            (applyForInternship 0 (Some (demo_student [])) [] (NumId 4) ([], []))))) = 2"
  using stale_apply_duplicates [of "Some (demo_student [])" "demo_student []" "[]" "NumId 4" 0 "([], [])"]
  by (simp add: demo_student_def has_applied_def)

text \<open>
  C23: a recruiter sees no applicants of a listing of another company (scenario B),
  even when applications to it exist.
\<close>

theorem recruiter_applicants_scoped:
  "u_role r = Recruiter \<Longrightarrow> find (\<lambda>i. i_id i = k) ins = Some t \<Longrightarrow> i_companyId t \<noteq> u_companyId r \<Longrightarrow>
   getRecruiterApplicants (Some r) us ins apps k = []"
  by (simp add: getRecruiterApplicants_def)

theorem recruiter_applicants_scoped_witness:
  "getRecruiterApplicants (Some (demo_recruiter\<lparr>u_companyId := Some (NumId 2)\<rparr>)) [demo_student []]
     [demo_listing (NumId 1) ''L1'' [] 0] [demo_application None (NumId 1) 1] (NumId 1) = []"
  by (rule recruiter_applicants_scoped [of _ _ _ "demo_listing (NumId 1) ''L1'' [] 0"])
     (simp_all add: demo_recruiter_def demo_listing_def)

end
