(* ===== verification/Saved.thy ===== *)
theory Saved
  imports Prelude
begin

text \<open>
  The saved-items tracker: \<open>toggleSaveInternship\<close> of
  \<open>src/src/context/DataContext.jsx\<close> (lines 325--333), a functional update of the one
  \<open>savedInternships\<close> array of the data provider (persisted under the single key
  \<open>'savedInternships'\<close>, line 211).  The list is not keyed by account.
\<close>

definition toggleSaveInternship :: "jsid \<Rightarrow> jsid list \<Rightarrow> jsid list" where
  "toggleSaveInternship internshipId prevSaved =
     (if internshipId \<in> set prevSaved then filter (\<lambda>k. k \<noteq> internshipId) prevSaved
      else prevSaved @ [internshipId])"

lemma toggle_distinct: "distinct s \<Longrightarrow> distinct (toggleSaveInternship k s)"
  by (simp add: toggleSaveInternship_def)

subsection \<open>Properties\<close>

text \<open>
  A toggle removes a saved listing (every copy of it) and adds an unsaved one,
  leaving the other saved listings as they are.
\<close>

theorem toggle_set:
  "set (toggleSaveInternship k s) = (if k \<in> set s then set s - {k} else insert k (set s))"
  by (auto simp: toggleSaveInternship_def)

end
