(* ===== verification/App.thy ===== *)
theory App
  imports Matching Ledger Saved
begin

text \<open>
  The application-data fa\<ccedilla>ade: \<open>AuthProvider\<close> and \<open>DataProvider\<close> together
  (\<open>src/src/context/AuthContext.jsx\<close>, \<open>src/src/context/DataContext.jsx\<close>).  Their
  React state is one record; each mutation the UI can call is an event, and
  \<open>app_step\<close> runs its handler on the current state (every handler is called from
  a fresh render, so the \<open>applications\<close> closure of \<open>applyForInternship\<close> is the
  current array).  The derived \<open>internships\<close> view is the merge of
  \<open>Listings.allInternships\<close>.
\<close>

record app_state =
  auth :: auth_state
  localInternships :: "internship list"
  externalInternships :: "internship list"
  companies :: "company list"
  applications :: "application list"
  savedInternships :: "jsid list"

definition internships :: "app_state \<Rightarrow> internship list" where
  "internships s = allInternships (localInternships s) (externalInternships s)"

datatype event =
    Login string string
  | Signup timestamp user
  | Logout
  | UpdateUser user_patch
  | AddInternship timestamp day internship
  | Apply day jsid
  | UpdateStatus "int option" string
  | ToggleSave jsid
  | ExternalLoaded "internship list"

text \<open>A failed signup throws to the form; the state is unchanged.\<close>

fun app_step :: "app_state \<Rightarrow> event \<Rightarrow> app_state" where
  "app_step s (Login e p) = s\<lparr>auth := snd (login e p (auth s))\<rparr>"
| "app_step s (Signup now d) =
     (case signup now d (auth s) of Inl _ \<Rightarrow> s | Inr (_, a') \<Rightarrow> s\<lparr>auth := a'\<rparr>)"
| "app_step s Logout = s\<lparr>auth := logout (auth s)\<rparr>"
| "app_step s (UpdateUser p) = s\<lparr>auth := updateUser p (auth s)\<rparr>"
| "app_step s (AddInternship now today d) =
     s\<lparr>localInternships := snd (addInternship now today (cur_user (auth s)) (companies s) d (localInternships s))\<rparr>"
| "app_step s (Apply today k) =
     (let r = applyForInternship today (cur_user (auth s)) (applications s) k
                (applications s, localInternships s)
      in s\<lparr>applications := fst r, localInternships := snd r\<rparr>)"
| "app_step s (UpdateStatus aid st) =
     s\<lparr>applications := updateApplicationStatus (cur_user (auth s)) aid st (applications s)\<rparr>"
| "app_step s (ToggleSave k) = s\<lparr>savedInternships := toggleSaveInternship k (savedInternships s)\<rparr>"
| "app_step s (ExternalLoaded xs) = s\<lparr>externalInternships := xs\<rparr>"

text \<open>
  The environment's part: \<open>Date.now()\<close> at a signup differs from every id in the
  roster (it is later than each of them), and the pages that call \<open>updateUser\<close> pass
  the session's own id and email or none (\<open>Auth.patch_ok\<close>; the profile pages are
  shown to keep it).
\<close>

fun env_ok :: "app_state \<Rightarrow> event \<Rightarrow> bool" where
  "env_ok s (Signup now d) \<longleftrightarrow> now \<notin> set (map u_id (users (auth s)))"
| "env_ok s (UpdateUser p) \<longleftrightarrow> patch_ok p (auth s)"
| "env_ok s _ \<longleftrightarrow> True"

inductive reachable :: "app_state \<Rightarrow> app_state \<Rightarrow> bool" for s0 where
  start: "reachable s0 s0"
| step: "reachable s0 s \<Longrightarrow> env_ok s e \<Longrightarrow> reachable s0 (app_step s e)"

definition app_inv :: "app_state \<Rightarrow> bool" where
  "app_inv s \<longleftrightarrow> auth_inv (auth s) \<and> pairs_unique (applications s) \<and> distinct (savedInternships s)"

lemma app_step_auth_inv: "auth_inv (auth s) \<Longrightarrow> env_ok s e \<Longrightarrow> auth_inv (auth (app_step s e))"
proof (cases e)
  case (Signup now d)
  assume inv: "auth_inv (auth s)" and ok: "env_ok s e"
  show ?thesis
  proof (cases "signup now d (auth s)")
    case (Inr r)
    then obtain nu a' where "signup now d (auth s) = Inr (nu, a')" by (cases r) auto
    with inv ok Signup show ?thesis by (simp add: signup_auth_inv)
  qed (simp add: Signup inv)
qed (simp_all add: login_auth_inv logout_auth_inv updateUser_auth_inv Let_def)

lemma app_step_pairs_unique: "pairs_unique (applications s) \<Longrightarrow> pairs_unique (applications (app_step s e))"
proof (cases e)
  case (Apply today k)
  assume "pairs_unique (applications s)"
  then have "pairs_unique (fst (applyForInternship today (cur_user (auth s)) (applications s) k
                                 (applications s, localInternships s)))"
    using applyForInternship_pairs_unique [of "(applications s, localInternships s)"] by simp
  with Apply show ?thesis by (simp add: Let_def)
qed (simp_all add: updateApplicationStatus_pairs_unique split: sum.split prod.split)

lemma app_step_saved_distinct: "distinct (savedInternships s) \<Longrightarrow> distinct (savedInternships (app_step s e))"
  by (cases e) (simp_all add: toggle_distinct Let_def split: sum.split prod.split)

lemma app_step_inv: "app_inv s \<Longrightarrow> env_ok s e \<Longrightarrow> app_inv (app_step s e)"
  by (simp add: app_inv_def app_step_auth_inv app_step_pairs_unique app_step_saved_distinct)

lemma reachable_app_inv: "reachable s0 s \<Longrightarrow> app_inv s0 \<Longrightarrow> app_inv s"
  by (induction rule: reachable.induct) (simp_all add: app_step_inv)

lemma apply_student_once:
  "pairs_unique (applications s) \<Longrightarrow> cur_user (auth s) = Some u \<Longrightarrow> u_role u = Student \<Longrightarrow>
     length (filter (\<lambda>a. a_studentId a = u_id u \<and> a_internshipId a = k) (applications (app_step s (Apply today k)))) = 1"
proof -
  assume pu: "pairs_unique (applications s)" and c: "cur_user (auth s) = Some u" and r: "u_role u = Student"
  have pu': "pairs_unique (applications (app_step s (Apply today k)))"
    using pu by (rule app_step_pairs_unique)
  have "has_applied (applications (app_step s (Apply today k))) k (u_id u)"
    using c r by (auto simp: applyForInternship_def Let_def has_applied_def)
  with pairs_unique_count [OF pu'] show ?thesis by simp
qed

subsection \<open>Examples\<close>

definition demo_state :: app_state where
  "demo_state = \<lparr>auth = demo_auth\<lparr>cur_user := Some (demo_student [])\<rparr>,
     localInternships = [demo_listing (NumId 1) ''Local'' [] 1],
     externalInternships = [demo_listing (StrId ''adzuna-9'') ''External'' [] 2],
     companies = [], applications = [], savedInternships = []\<rparr>"

lemma demo_state_inv: "app_inv demo_state"
  by (simp add: demo_state_def app_inv_def auth_inv_def pairs_unique_def demo_auth_def)

end
