(* ===== verification/Validation.thy ===== *)
theory Validation
  imports Prelude
begin

text \<open>
  The client-side validators of the forms: the email pattern
  \<open>/^[^\s@]+@[^\s@]+\.[^\s@]+$/\<close> (\<open>src/src/pages/auth/Login.jsx\<close> line 17,
  \<open>src/src/pages/auth/Signup.jsx\<close> line 28, \<open>src/src/components/ApplyModal.jsx\<close>
  line 32), the phone pattern \<open>/^\d{10,15}$/\<close> (ApplyModal line 33) and the password
  length \<open>PASSWORD_MIN_LENGTH = 6\<close>.  A pattern is an executable test here; the email
  test is proved to accept exactly the language of the regular expression, written as
  a decomposition of the string (\<open>email_lang\<close>).  Without the \<open>m\<close> flag, \<open>$\<close> of
  JavaScript matches only at the end of the input.
\<close>

definition plain_char :: "char \<Rightarrow> bool" where
  "plain_char c \<longleftrightarrow> \<not> js_ws c \<and> c \<noteq> CHR ''@''"

text \<open>The language of the email pattern: \<open>a@b.c\<close>, three non-empty runs of \<open>[^\s@]\<close>.\<close>

definition email_lang :: "string \<Rightarrow> bool" where
  "email_lang s \<longleftrightarrow> (\<exists>a b c. s = a @ CHR ''@'' # b @ CHR ''.'' # c \<and> a \<noteq> [] \<and> b \<noteq> [] \<and> c \<noteq> []
                        \<and> list_all plain_char (a @ b @ c))"

text \<open>
  The matcher: no white space, exactly one \<open>@\<close> with something before it, and a dot
  after it that is neither the first nor the last character of the domain (the
  backtracking of \<open>[^\s@]+\.\<close> may pick any dot of the domain).
\<close>

definition emailRegex_test :: "string \<Rightarrow> bool" where
  "emailRegex_test s \<longleftrightarrow> list_all (\<lambda>c. \<not> js_ws c) s \<and>
     (case js_split CHR ''@'' s of [a, d] \<Rightarrow> a \<noteq> [] \<and> CHR ''.'' \<in> set (butlast (tl d)) | _ \<Rightarrow> False)"

definition is_digit :: "char \<Rightarrow> bool" where
  "is_digit c \<longleftrightarrow> CHR ''0'' \<le> c \<and> c \<le> CHR ''9''"

definition phoneRegex_test :: "string \<Rightarrow> bool" where
  "phoneRegex_test s \<longleftrightarrow> 10 \<le> length s \<and> length s \<le> 15 \<and> list_all is_digit s"

definition PASSWORD_MIN_LENGTH :: nat where
  "PASSWORD_MIN_LENGTH = 6"

subsection \<open>Splitting at a separator\<close>

lemma js_split_two:
  "js_split c s = [a, d] \<longleftrightarrow> s = a @ c # d \<and> c \<notin> set a \<and> c \<notin> set d"
proof
  assume sp: "js_split c s = [a, d]"
  then have "s = js_join [c] [a, d]" by (metis js_split_join)
  moreover have "c \<notin> set a" "c \<notin> set d"
    using js_split_no_sep [of _ c s] sp by auto
  ultimately show "s = a @ c # d \<and> c \<notin> set a \<and> c \<notin> set d" by simp
next
  assume "s = a @ c # d \<and> c \<notin> set a \<and> c \<notin> set d"
  then show "js_split c s = [a, d]" by (simp add: js_split_at_sep js_split_no_sep_char)
qed

lemma in_butlast_tl_iff:
  "x \<in> set (butlast (tl d)) \<longleftrightarrow> (\<exists>b e. d = b @ x # e \<and> b \<noteq> [] \<and> e \<noteq> [])"
proof
  assume "x \<in> set (butlast (tl d))"
  then obtain ys zs where yz: "butlast (tl d) = ys @ x # zs" by (meson in_set_conv_decomp)
  then have t: "tl d \<noteq> []" by auto
  then obtain y where d: "d = y # tl d" by (cases d) auto
  have "tl d = butlast (tl d) @ [last (tl d)]" using t by simp
  with yz have "d = (y # ys) @ x # (zs @ [last (tl d)])" using d by simp
  then show "\<exists>b e. d = b @ x # e \<and> b \<noteq> [] \<and> e \<noteq> []" by blast
next
  assume "\<exists>b e. d = b @ x # e \<and> b \<noteq> [] \<and> e \<noteq> []"
  then obtain b e where "d = b @ x # e" "b \<noteq> []" "e \<noteq> []" by blast
  then show "x \<in> set (butlast (tl d))"
    by (cases b) (auto simp: butlast_append)
qed

subsection \<open>The email test decides the pattern's language\<close>

lemma emailRegex_test_sound: "emailRegex_test s \<Longrightarrow> email_lang s"
proof -
  assume t: "emailRegex_test s"
  then have ws: "\<forall>c\<in>set s. \<not> js_ws c" by (simp add: emailRegex_test_def list_all_iff)
  from t obtain a d where sp: "js_split CHR ''@'' s = [a, d]" and a: "a \<noteq> []"
      and dot: "CHR ''.'' \<in> set (butlast (tl d))"
    by (auto simp: emailRegex_test_def split: list.splits)
  from sp have s: "s = a @ CHR ''@'' # d" and na: "CHR ''@'' \<notin> set a" and nd: "CHR ''@'' \<notin> set d"
    by (simp_all add: js_split_two)
  from dot [unfolded in_butlast_tl_iff] obtain b c where d: "d = b @ CHR ''.'' # c" "b \<noteq> []" "c \<noteq> []"
    by blast
  have "\<forall>x\<in>set (a @ b @ c). \<not> js_ws x" using ws by (simp add: s d)
  moreover have "CHR ''@'' \<notin> set (a @ b @ c)" using na nd by (simp add: d)
  ultimately have "list_all plain_char (a @ b @ c)"
    by (auto simp: list_all_iff plain_char_def)
  with s d a show "email_lang s" unfolding email_lang_def by blast
qed

lemma emailRegex_test_complete: "email_lang s \<Longrightarrow> emailRegex_test s"
proof -
  assume "email_lang s"
  then obtain a b c where s: "s = a @ CHR ''@'' # b @ CHR ''.'' # c" and ne: "a \<noteq> []" "b \<noteq> []" "c \<noteq> []"
      and pl: "list_all plain_char (a @ b @ c)"
    unfolding email_lang_def by blast
  have ws: "list_all (\<lambda>c. \<not> js_ws c) s"
    using pl by (auto simp: list_all_iff plain_char_def s)
  have "CHR ''@'' \<notin> set a" "CHR ''@'' \<notin> set (b @ CHR ''.'' # c)"
    using pl by (auto simp: list_all_iff plain_char_def)
  then have sp: "js_split CHR ''@'' s = [a, b @ CHR ''.'' # c]"
    by (simp add: js_split_two s)
  have "\<exists>b' e. b @ CHR ''.'' # c = b' @ CHR ''.'' # e \<and> b' \<noteq> [] \<and> e \<noteq> []"
    using ne by blast
  then have "CHR ''.'' \<in> set (butlast (tl (b @ CHR ''.'' # c)))"
    by (simp only: in_butlast_tl_iff)
  with ws sp ne show "emailRegex_test s" by (simp add: emailRegex_test_def)
qed

lemma emailRegex_test_nonempty: "emailRegex_test s \<Longrightarrow> s \<noteq> []"
  by (auto simp: emailRegex_test_def)

lemma phoneRegex_test_nonempty: "phoneRegex_test s \<Longrightarrow> s \<noteq> []"
  by (auto simp: phoneRegex_test_def)

end
