(* ===== verification/AuthPages.thy ===== *)
theory AuthPages
  imports Auth Validation
begin

text \<open>
  The two account pages: \<open>src/src/pages/auth/Login.jsx\<close> and
  \<open>src/src/pages/auth/Signup.jsx\<close>.  Each page is a record of its React state; an
  effect that recomputes state from the inputs is a function of the inputs; a handler
  returns the new page state, the new identity store and the route it navigates to
  (\<open>None\<close>: it stays).  The submit buttons are disabled while the form is invalid;
  the handlers still check, as the code does.  \<open>login_view\<close> is what the login
  page renders from its state.
\<close>

subsection \<open>Login page\<close>

record login_page =
  lp_email :: string
  lp_password :: string
  lp_generalError :: string

definition login_emailError :: "string \<Rightarrow> string" where
  "login_emailError email =
     (if email = [] then ''Email is required.''
      else if \<not> emailRegex_test email then ''Invalid email format.'' else [])"

definition password_error :: "string \<Rightarrow> string" where
  "password_error password =
     (if password = [] then ''Password is required.''
      else if length password < PASSWORD_MIN_LENGTH then ''Password must be at least 6 characters.''
      else [])"

text \<open>The validation effect of lines 21--47.\<close>

definition login_isFormValid :: "string \<Rightarrow> string \<Rightarrow> bool" where
  "login_isFormValid email password \<longleftrightarrow>
     login_emailError email = [] \<and> password_error password = [] \<and> email \<noteq> [] \<and> password \<noteq> []"

text \<open>The landing route of each role (lines 62--71; the fallback \<open>'/'\<close> needs a fourth role).\<close>

fun role_home :: "role \<Rightarrow> string" where
  "role_home Student = ''/student/dashboard''"
| "role_home Recruiter = ''/recruiter/dashboard''"
| "role_home Admin = ''/admin''"

definition login_handleSubmit ::
  "login_page \<Rightarrow> auth_state \<Rightarrow> login_page \<times> auth_state \<times> string option" where
  "login_handleSubmit p st =
     (if \<not> login_isFormValid (lp_email p) (lp_password p)
      then (p\<lparr>lp_generalError := ''Please correct the errors in the form.''\<rparr>, st, None)
      else (case login (lp_email p) (lp_password p) st of
              (Some u, st') \<Rightarrow> (p\<lparr>lp_generalError := []\<rparr>, st', Some (role_home (u_role u)))
            | (None, st') \<Rightarrow> (p\<lparr>lp_generalError := ''Invalid email or password''\<rparr>, st', None)))"

text \<open>The banner of lines 95--99.\<close>

definition login_banner :: "login_page \<Rightarrow> string option" where
  "login_banner p =
     (if lp_generalError p \<noteq> [] \<or> login_emailError (lp_email p) \<noteq> [] \<or> password_error (lp_password p) \<noteq> []
      then Some (if lp_generalError p \<noteq> [] then lp_generalError p else ''Please check your input.'')
      else None)"

definition login_initial :: login_page where
  "login_initial = \<lparr>lp_email = [], lp_password = [], lp_generalError = []\<rparr>"

record login_view =
  lv_banner :: "string option"
  lv_emailError :: "string option"
  lv_passwordError :: "string option"
  lv_submitEnabled :: bool

text \<open>
  The form (lines 94--164): the banner, the message under each input as the
  validation effect set it (shown whenever it is non-empty, submitted or not), and the
  submit button, enabled by \<open>isFormValid\<close>.
\<close>

definition login_view :: "login_page \<Rightarrow> login_view" where
  "login_view p =
     \<lparr>lv_banner = login_banner p,
      lv_emailError = (if login_emailError (lp_email p) \<noteq> [] then Some (login_emailError (lp_email p)) else None),
      lv_passwordError = (if password_error (lp_password p) \<noteq> [] then Some (password_error (lp_password p)) else None),
      lv_submitEnabled = login_isFormValid (lp_email p) (lp_password p)\<rparr>"

subsection \<open>Signup page\<close>

record signup_form =
  sf_name :: string
  sf_email :: string
  sf_password :: string
  sf_confirmPassword :: string
  sf_role :: role
  sf_terms :: bool

record signup_errors =
  se_name :: string
  se_email :: string
  se_password :: string
  se_confirmPassword :: string
  se_terms :: string

record signup_page =
  sp_form :: signup_form
  sp_errors :: signup_errors
  sp_generalError :: string
  sp_submitted :: bool

definition signup_initial :: signup_page where
  "signup_initial = \<lparr>sp_form = \<lparr>sf_name = [], sf_email = [], sf_password = [], sf_confirmPassword = [],
                                sf_role = Student, sf_terms = False\<rparr>,
                     sp_errors = \<lparr>se_name = [], se_email = [], se_password = [], se_confirmPassword = [],
                                  se_terms = []\<rparr>,
                     sp_generalError = [], sp_submitted = False\<rparr>"

text \<open>\<open>validateForm\<close> (lines 31--83): the messages it sets and whether all are empty.\<close>

definition validateForm :: "signup_form \<Rightarrow> signup_errors \<times> bool" where
  "validateForm d =
     (let nameE = (if js_trim (sf_name d) = [] then ''Full Name is required.'' else []);
          emailE = (if sf_email d = [] then ''Email is required.''
                    else if \<not> emailRegex_test (sf_email d) then ''Invalid email format.'' else []);
          pwE = password_error (sf_password d);
          cpE = (if sf_confirmPassword d = [] then ''Confirm Password is required.''
                 else if sf_password d \<noteq> sf_confirmPassword d then ''Passwords do not match.'' else []);
          tE = (if \<not> sf_terms d then ''You must agree to the terms.'' else [])
      in (\<lparr>se_name = nameE, se_email = emailE, se_password = pwE, se_confirmPassword = cpE, se_terms = tE\<rparr>,
          nameE = [] \<and> emailE = [] \<and> pwE = [] \<and> cpE = [] \<and> tE = []))"

text \<open>The validity effect of lines 93--102, which enables the submit button.\<close>

definition signup_isFormValid :: "signup_form \<Rightarrow> bool" where
  "signup_isFormValid f \<longleftrightarrow>
     js_trim (sf_name f) \<noteq> [] \<and> emailRegex_test (sf_email f)
     \<and> PASSWORD_MIN_LENGTH \<le> length (sf_password f) \<and> sf_password f = sf_confirmPassword f \<and> sf_terms f"

text \<open>
  What the user can do before submitting: type into the four inputs and the checkbox
  (\<open>handleChange\<close>, lines 105--108), click one of the two role buttons (169, 180),
  or arrive with \<open>?role=\<close> (the effect of lines 85--90).
\<close>

datatype signup_input =
    EditName string | EditEmail string | EditPassword string | EditConfirm string
  | SetTerms bool | ClickStudent | ClickRecruiter | RoleParam "string option"

fun signup_change :: "signup_page \<Rightarrow> signup_input \<Rightarrow> signup_page" where
  "signup_change p (EditName v) = p\<lparr>sp_form := (sp_form p)\<lparr>sf_name := v\<rparr>\<rparr>"
| "signup_change p (EditEmail v) = p\<lparr>sp_form := (sp_form p)\<lparr>sf_email := v\<rparr>\<rparr>"
| "signup_change p (EditPassword v) = p\<lparr>sp_form := (sp_form p)\<lparr>sf_password := v\<rparr>\<rparr>"
| "signup_change p (EditConfirm v) = p\<lparr>sp_form := (sp_form p)\<lparr>sf_confirmPassword := v\<rparr>\<rparr>"
| "signup_change p (SetTerms b) = p\<lparr>sp_form := (sp_form p)\<lparr>sf_terms := b\<rparr>\<rparr>"
| "signup_change p ClickStudent = p\<lparr>sp_form := (sp_form p)\<lparr>sf_role := Student\<rparr>\<rparr>"
| "signup_change p ClickRecruiter = p\<lparr>sp_form := (sp_form p)\<lparr>sf_role := Recruiter\<rparr>\<rparr>"
| "signup_change p (RoleParam r) =
     (if r = Some ''student'' then p\<lparr>sp_form := (sp_form p)\<lparr>sf_role := Student\<rparr>\<rparr>
      else if r = Some ''recruiter'' then p\<lparr>sp_form := (sp_form p)\<lparr>sf_role := Recruiter\<rparr>\<rparr>
      else p)"

text \<open>
  The object handed to \<open>signup\<close> (lines 123--128): name, email, password and role; no
  other key.  \<open>signup\<close> overwrites \<open>id\<close> with \<open>Date.now()\<close>, so the \<open>0\<close> here is never
  seen.
\<close>

definition signup_userData :: "signup_form \<Rightarrow> user" where
  "signup_userData f = \<lparr>u_id = 0, u_name = sf_name f, u_email = sf_email f, u_password = sf_password f,
     u_role = sf_role f, u_companyId = None, u_skills = None, u_education = None, u_projects = None,
     u_resume = None, u_bio = None, u_about = None, u_phone = None, u_location = None, u_links = None,
     u_profileImage = None\<rparr>"

definition signup_handleSubmit ::
  "timestamp \<Rightarrow> signup_page \<Rightarrow> auth_state \<Rightarrow> signup_page \<times> auth_state \<times> string option" where
  "signup_handleSubmit now p st =
     (let r = validateForm (sp_form p);
          p1 = p\<lparr>sp_submitted := True, sp_generalError := [], sp_errors := fst r\<rparr>
      in if \<not> snd r then (p1\<lparr>sp_generalError := ''Please correct the errors in the form.''\<rparr>, st, None)
         else (case signup now (signup_userData (sp_form p)) st of
                 Inl EmailExists \<Rightarrow> (p1\<lparr>sp_generalError := ''User with this email already exists.''\<rparr>, st, None)
               | Inr (nu, st') \<Rightarrow>
                   (p1, st', Some (if u_role nu = Student then ''/student/profile'' else ''/recruiter/dashboard''))))"

text \<open>The banner of lines 157--161.\<close>

definition signup_banner :: "signup_page \<Rightarrow> string option" where
  "signup_banner p =
     (let e = sp_errors p
      in if sp_submitted p \<and> (sp_generalError p \<noteq> [] \<or> se_name e \<noteq> [] \<or> se_email e \<noteq> []
                              \<or> se_password e \<noteq> [] \<or> se_confirmPassword e \<noteq> [] \<or> se_terms e \<noteq> [])
         then Some (if sp_generalError p \<noteq> [] then sp_generalError p else ''Please correct the errors in the form.'')
         else None)"

record signup_view =
  sv_banner :: "string option"
  sv_studentSelected :: bool
  sv_fieldErrors :: "string option list"
  sv_submitEnabled :: bool

text \<open>
  The form (lines 156--307): the banner, the role button shown selected, the message
  under each of name, email, password, confirmation and terms (shown once submitted),
  and the submit button, enabled by the validity effect (lines 92--101).
\<close>

definition signup_view :: "signup_page \<Rightarrow> signup_view" where
  "signup_view p =
     (let e = sp_errors p
      in \<lparr>sv_banner = signup_banner p,
          sv_studentSelected = (sf_role (sp_form p) = Student),
          sv_fieldErrors = map (\<lambda>m. if sp_submitted p \<and> m \<noteq> [] then Some m else None)
                             [se_name e, se_email e, se_password e, se_confirmPassword e, se_terms e],
          sv_submitEnabled = signup_isFormValid (sp_form p)\<rparr>)"

subsection \<open>Lemmas\<close>

text \<open>
  The login page greets the user with errors: before anything is typed the banner and
  both required-field messages are on screen and the button is disabled.
\<close>

lemma login_initial_errors:
  "login_view login_initial = \<lparr>lv_banner = Some ''Please check your input.'',
     lv_emailError = Some ''Email is required.'', lv_passwordError = Some ''Password is required.'',
     lv_submitEnabled = False\<rparr>"
  by (simp add: login_view_def login_initial_def login_banner_def login_emailError_def password_error_def
                login_isFormValid_def)

lemma login_view_valid:
  "lv_submitEnabled (login_view p) \<Longrightarrow>
     lv_emailError (login_view p) = None \<and> lv_passwordError (login_view p) = None"
  by (simp add: login_view_def login_isFormValid_def)

lemma signup_change_keeps_messages:
  "sp_errors (signup_change p x) = sp_errors p \<and> sp_generalError (signup_change p x) = sp_generalError p
   \<and> sp_submitted (signup_change p x) = sp_submitted p"
  by (cases x) simp_all

lemma signup_edits_keep_messages:
  "sp_errors (foldl signup_change p xs) = sp_errors p \<and> sp_generalError (foldl signup_change p xs) = sp_generalError p
   \<and> sp_submitted (foldl signup_change p xs) = sp_submitted p"
  by (induction xs arbitrary: p) (simp_all add: signup_change_keeps_messages)

text \<open>
  Editing never clears a message: after a submit that failed, the banner and every
  field message stay as they were whatever the user types, even once the form is valid
  and the button enabled, until the next submit.
\<close>

lemma signup_stale_messages:
  "sv_banner (signup_view (foldl signup_change p xs)) = sv_banner (signup_view p)
   \<and> sv_fieldErrors (signup_view (foldl signup_change p xs)) = sv_fieldErrors (signup_view p)"
  using signup_edits_keep_messages [of p xs]
  by (simp add: signup_view_def signup_banner_def Let_def)

lemma validateForm_valid_iff:
  "snd (validateForm d) \<longleftrightarrow>
     js_trim (sf_name d) \<noteq> [] \<and> sf_email d \<noteq> [] \<and> emailRegex_test (sf_email d)
     \<and> password_error (sf_password d) = [] \<and> sf_confirmPassword d \<noteq> [] \<and> sf_password d = sf_confirmPassword d
     \<and> sf_terms d"
  by (simp add: validateForm_def Let_def)

lemma password_error_iff: "password_error s = [] \<longleftrightarrow> PASSWORD_MIN_LENGTH \<le> length s"
  by (auto simp: password_error_def PASSWORD_MIN_LENGTH_def)

lemma signup_change_role: "sf_role (sp_form p) \<noteq> Admin \<Longrightarrow> sf_role (sp_form (signup_change p i)) \<noteq> Admin"
  by (cases i) simp_all

lemma signup_inputs_role: "sf_role (sp_form (foldl signup_change signup_initial ins)) \<noteq> Admin"
proof (induction ins rule: rev_induct)
  case Nil
  then show ?case by (simp add: signup_initial_def)
next
  case (snoc i ins)
  then show ?case by (simp add: signup_change_role)
qed

lemma signup_handleSubmit_Some:
  "signup_handleSubmit now p st = (p', st', Some path) \<Longrightarrow>
     snd (validateForm (sp_form p)) \<and>
     (\<exists>nu. signup now (signup_userData (sp_form p)) st = Inr (nu, st'))"
  by (auto simp: signup_handleSubmit_def Let_def split: if_splits sum.splits auth_error.splits)

lemma find_append_last:
  "\<forall>x\<in>set xs. \<not> P x \<Longrightarrow> P y \<Longrightarrow> find P (xs @ [y]) = Some y"
  by (induction xs) auto

subsection \<open>Examples\<close>

definition demo_signup_inputs :: "signup_input list" where
  "demo_signup_inputs = [RoleParam (Some ''recruiter''), EditName ''Ann'', EditEmail ''ann@acme.io'',
     EditPassword ''secret1'', EditConfirm ''secret1'', SetTerms True]"

subsection \<open>Properties\<close>

text \<open>
  C31: the two validity checks of the signup page agree: \<open>validateForm\<close>, run on
  submit, accepts exactly the forms for which the effect enables the submit button
  (the effect omits the emptiness tests, which the length and equality tests imply).
\<close>

theorem signup_validity_agrees: "snd (validateForm f) \<longleftrightarrow> signup_isFormValid f"
  by (auto simp: validateForm_valid_iff signup_isFormValid_def password_error_iff
                 PASSWORD_MIN_LENGTH_def dest: emailRegex_test_nonempty)

text \<open>
  C32: whatever the user types, clicks or passes as \<open>?role=\<close>, a successful signup
  through the page logs in an account whose role is student or recruiter, never
  admin, and lands on that role's page.
\<close>

theorem signup_page_no_admin:
  assumes "signup_handleSubmit now (foldl signup_change signup_initial ins) st = (p', st', Some path)"
  shows "\<exists>u. cur_user st' = Some u \<and> u_role u \<noteq> Admin
             \<and> path = (if u_role u = Student then ''/student/profile'' else ''/recruiter/dashboard'')"
proof -
  let ?f = "sp_form (foldl signup_change signup_initial ins)"
  from signup_handleSubmit_Some [OF assms] obtain nu where
    s: "signup now (signup_userData ?f) st = Inr (nu, st')" by blast
  then have "cur_user st' = Some nu" "u_role nu = sf_role ?f"
    by (auto simp: signup_Inr signup_userData_def)
  moreover have "path = (if u_role nu = Student then ''/student/profile'' else ''/recruiter/dashboard'')"
    using assms s by (simp add: signup_handleSubmit_def Let_def split: if_splits)
  ultimately show ?thesis using signup_inputs_role [of ins] by auto
qed

theorem signup_page_no_admin_witness:
  "\<exists>u. cur_user (fst (snd (signup_handleSubmit 5 (foldl signup_change signup_initial demo_signup_inputs) demo_auth)))
         = Some u \<and> u_role u \<noteq> Admin"
proof -
  let ?r = "signup_handleSubmit 5 (foldl signup_change signup_initial demo_signup_inputs) demo_auth"
  have "snd (snd ?r) = Some ''/recruiter/dashboard''" by code_simp
  then have "?r = (fst ?r, fst (snd ?r), Some ''/recruiter/dashboard'')" by (metis prod.collapse)
  from signup_page_no_admin [OF this] show ?thesis by blast
qed

text \<open>
  C33: an account created on the signup page can log in on the login page: after a
  successful signup and a logout, submitting the same email and password logs the new
  account in and lands on its role's page; the roster is not changed.
\<close>

theorem signup_then_login:
  assumes "signup_handleSubmit now p st = (p', st', Some path)"
  shows "\<exists>lp' st''. login_handleSubmit \<lparr>lp_email = sf_email (sp_form p), lp_password = sf_password (sp_form p),
                                        lp_generalError = []\<rparr> (logout st')
                    = (lp', st'', Some (role_home (sf_role (sp_form p))))
                  \<and> cur_user st'' = cur_user st' \<and> users st'' = users st'"
proof -
  let ?f = "sp_form p"
  from signup_handleSubmit_Some [OF assms] obtain nu where
    v: "snd (validateForm ?f)" and s: "signup now (signup_userData ?f) st = Inr (nu, st')" by blast
  from s have new: "sf_email ?f \<notin> set (map u_email (users st))" and us: "users st' = users st @ [nu]"
    and cu: "cur_user st' = Some nu"
    and nu: "u_email nu = sf_email ?f" "u_password nu = sf_password ?f" "u_role nu = sf_role ?f"
    by (auto simp: signup_Inr signup_userData_def)
  have ok: "login_isFormValid (sf_email ?f) (sf_password ?f)"
    using v by (auto simp: validateForm_valid_iff login_isFormValid_def login_emailError_def)
  have "find (\<lambda>u. u_email u = sf_email ?f \<and> u_password u = sf_password ?f) (users (logout st')) = Some nu"
  proof -
    have "\<forall>x\<in>set (users st). u_email x \<noteq> sf_email ?f" using new by (auto simp: image_iff)
    with nu show ?thesis by (auto simp: us logout_def intro!: find_append_last)
  qed
  then have "login (sf_email ?f) (sf_password ?f) (logout st')
             = (Some nu, (logout st')\<lparr>cur_user := Some nu,
                  auth_ls := setStorage skillbridge_user (json_of_user nu) (auth_ls (logout st'))\<rparr>)"
    by (simp add: login_def)
  with ok nu cu show ?thesis by (simp add: login_handleSubmit_def logout_def)
qed

theorem signup_then_login_witness:
  "\<exists>lp' st''. login_handleSubmit \<lparr>lp_email = ''ann@acme.io'', lp_password = ''secret1'', lp_generalError = []\<rparr>
      (logout (fst (snd (signup_handleSubmit 5 (foldl signup_change signup_initial demo_signup_inputs) demo_auth))))
      = (lp', st'', Some ''/recruiter/dashboard'')"
proof -
  let ?p = "foldl signup_change signup_initial demo_signup_inputs"
  let ?r = "signup_handleSubmit 5 ?p demo_auth"
  have "snd (snd ?r) = Some ''/recruiter/dashboard''" by code_simp
  then have r: "?r = (fst ?r, fst (snd ?r), Some ''/recruiter/dashboard'')" by (metis prod.collapse)
  have f: "sf_email (sp_form ?p) = ''ann@acme.io''" "sf_password (sp_form ?p) = ''secret1''"
          "sf_role (sp_form ?p) = Recruiter"
    by (simp_all add: demo_signup_inputs_def signup_initial_def)
  show ?thesis using signup_then_login [OF r] unfolding f role_home.simps by blast
qed

end
