(* ===== verification/ProfilePage.thy ===== *)
theory ProfilePage
  imports Matching
begin

text \<open>
  The student's profile editor, \<open>src/src/pages/student/StudentProfile.jsx\<close>, and the
  profile form \<open>src/src/components/EditProfileForm.jsx\<close>.  The page keeps a draft of
  the account (\<open>profile\<close>), the skill list, the education and project forms with the
  index being edited, and the picture; its handlers change the draft, and
  \<open>handleSave\<close> hands \<open>{...profile, skills, profileImage}\<close> to \<open>updateUser\<close>.  The
  effect of lines 24--29 copies the session account back into the draft whenever it
  changes.  Every click or keystroke the page wires (lines 161--561) is a
  \<open>profile_event\<close>; the resume line and the project forms are views of the state.
\<close>

record profile_page =
  pp_profile :: user
  pp_skills :: "string list"
  pp_inputSkill :: string
  pp_aiTip :: string
  pp_editingEducation :: "nat option"
  pp_newEducation :: education
  pp_editingProject :: "nat option"
  pp_newProject :: project
  pp_profileImage :: string
  pp_modalOpen :: bool

definition empty_education :: education where
  "empty_education = \<lparr>ed_degree = [], ed_school = [], ed_year = []\<rparr>"

definition empty_project :: project where
  "empty_project = \<lparr>pj_name = [], pj_description = [], pj_link = []\<rparr>"

text \<open>\<open>user?.skills || []\<close> and \<open>user?.profileImage || ''\<close>.\<close>

definition skills_or_empty :: "user \<Rightarrow> string list" where
  "skills_or_empty u = (case u_skills u of None \<Rightarrow> [] | Some s \<Rightarrow> s)"

definition image_or_empty :: "user \<Rightarrow> string" where
  "image_or_empty u = (case u_profileImage u of None \<Rightarrow> [] | Some s \<Rightarrow> s)"

definition profile_mount :: "user \<Rightarrow> profile_page" where
  "profile_mount u = \<lparr>pp_profile = u, pp_skills = skills_or_empty u, pp_inputSkill = [], pp_aiTip = [],
     pp_editingEducation = None, pp_newEducation = empty_education, pp_editingProject = None,
     pp_newProject = empty_project, pp_profileImage = image_or_empty u, pp_modalOpen = False\<rparr>"

definition profile_sync :: "user \<Rightarrow> profile_page \<Rightarrow> profile_page" where
  "profile_sync u pp = pp\<lparr>pp_profile := u, pp_skills := skills_or_empty u, pp_profileImage := image_or_empty u\<rparr>"

definition resume_tips :: "string list" where
  "resume_tips = [''Add quantifiable achievements to your education (e.g., 'GPA: 3.8/4.0')'',
     ''Include links to live projects or demos in your portfolio'',
     ''Highlight relevant coursework related to your target internships'',
     ''Mention any leadership roles in clubs or organizations'',
     ''Add technical tools and frameworks you're familiar with'']"

text \<open>\<open>Math.floor(Math.random() * tips.length)\<close> is the parameter \<open>r\<close>, an index below 5.\<close>

definition generateResumeTip :: "nat \<Rightarrow> profile_page \<Rightarrow> profile_page" where
  "generateResumeTip r pp = pp\<lparr>pp_aiTip := resume_tips ! (r mod length resume_tips)\<rparr>"

definition handleAddSkill :: "profile_page \<Rightarrow> profile_page" where
  "handleAddSkill pp =
     (if pp_inputSkill pp \<noteq> [] \<and> pp_inputSkill pp \<notin> set (pp_skills pp)
      then pp\<lparr>pp_skills := pp_skills pp @ [pp_inputSkill pp], pp_inputSkill := []\<rparr> else pp)"

definition handleRemoveSkill :: "string \<Rightarrow> profile_page \<Rightarrow> profile_page" where
  "handleRemoveSkill skill pp = pp\<lparr>pp_skills := filter (\<lambda>s. s \<noteq> skill) (pp_skills pp)\<rparr>"

text \<open>The patch of \<open>handleSave\<close> (line 76): every key of the draft, then the skills and the picture.\<close>

definition save_patch :: "profile_page \<Rightarrow> user_patch" where
  "save_patch pp = (patch_of_user (pp_profile pp))\<lparr>p_skills := Some (pp_skills pp),
                      p_profileImage := Some (pp_profileImage pp)\<rparr>"

definition handleSave :: "profile_page \<Rightarrow> auth_state \<Rightarrow> auth_state" where
  "handleSave pp st = updateUser (save_patch pp) st"

definition handlePhotoChange :: "string option \<Rightarrow> profile_page \<Rightarrow> profile_page" where
  "handlePhotoChange file pp = (case file of None \<Rightarrow> pp | Some dataUrl \<Rightarrow> pp\<lparr>pp_profileImage := dataUrl\<rparr>)"

definition list_or_empty :: "'a list option \<Rightarrow> 'a list" where
  "list_or_empty xs = (case xs of None \<Rightarrow> [] | Some l \<Rightarrow> l)"

definition education_complete :: "education \<Rightarrow> bool" where
  "education_complete e \<longleftrightarrow> ed_degree e \<noteq> [] \<and> ed_school e \<noteq> [] \<and> ed_year e \<noteq> []"

definition project_complete :: "project \<Rightarrow> bool" where
  "project_complete pr \<longleftrightarrow> pj_name pr \<noteq> [] \<and> pj_description pr \<noteq> []"

definition handleAddEducation :: "profile_page \<Rightarrow> profile_page" where
  "handleAddEducation pp =
     (if education_complete (pp_newEducation pp)
      then pp\<lparr>pp_profile := (pp_profile pp)\<lparr>u_education :=
                 Some (list_or_empty (u_education (pp_profile pp)) @ [pp_newEducation pp])\<rparr>,
              pp_newEducation := empty_education\<rparr>
      else pp)"

text \<open>
  \<open>{ ...profile.education[index] }\<close> (line 104): the entry at the index; past the end
  the read is \<open>undefined\<close> and its spread is \<open>{}\<close>, whose fields read \<open>undefined\<close>,
  falsy as the empty strings of \<open>empty_education\<close> are.
\<close>

definition js_at_or :: "'a list \<Rightarrow> nat \<Rightarrow> 'a \<Rightarrow> 'a" where
  "js_at_or xs i d = (if i < length xs then xs ! i else d)"

definition handleEditEducation :: "nat \<Rightarrow> profile_page \<Rightarrow> profile_page" where
  "handleEditEducation i pp =
     pp\<lparr>pp_editingEducation := Some i,
        pp_newEducation := js_at_or (list_or_empty (u_education (pp_profile pp))) i empty_education\<rparr>"

definition handleUpdateEducation :: "profile_page \<Rightarrow> profile_page" where
  "handleUpdateEducation pp =
     (case pp_editingEducation pp of
        None \<Rightarrow> pp
      | Some i \<Rightarrow>
          if education_complete (pp_newEducation pp)
          then pp\<lparr>pp_profile := (pp_profile pp)\<lparr>u_education :=
                     Some ((list_or_empty (u_education (pp_profile pp)))[i := pp_newEducation pp])\<rparr>,
                  pp_newEducation := empty_education, pp_editingEducation := None\<rparr>
          else pp)"

definition handleCancelEditEducation :: "profile_page \<Rightarrow> profile_page" where
  "handleCancelEditEducation pp = pp\<lparr>pp_newEducation := empty_education, pp_editingEducation := None\<rparr>"

definition handleAddProject :: "profile_page \<Rightarrow> profile_page" where
  "handleAddProject pp =
     (if project_complete (pp_newProject pp)
      then pp\<lparr>pp_profile := (pp_profile pp)\<lparr>u_projects :=
                 Some (list_or_empty (u_projects (pp_profile pp)) @ [pp_newProject pp])\<rparr>,
              pp_newProject := empty_project\<rparr>
      else pp)"

definition handleEditProject :: "nat \<Rightarrow> profile_page \<Rightarrow> profile_page" where
  "handleEditProject i pp =
     pp\<lparr>pp_editingProject := Some i,
        pp_newProject := js_at_or (list_or_empty (u_projects (pp_profile pp))) i empty_project\<rparr>"

definition handleUpdateProject :: "profile_page \<Rightarrow> profile_page" where
  "handleUpdateProject pp =
     (case pp_editingProject pp of
        None \<Rightarrow> pp
      | Some i \<Rightarrow>
          if project_complete (pp_newProject pp)
          then pp\<lparr>pp_profile := (pp_profile pp)\<lparr>u_projects :=
                     Some ((list_or_empty (u_projects (pp_profile pp)))[i := pp_newProject pp])\<rparr>,
                  pp_newProject := empty_project, pp_editingProject := None\<rparr>
          else pp)"

definition handleCancelEditProject :: "profile_page \<Rightarrow> profile_page" where
  "handleCancelEditProject pp = pp\<lparr>pp_newProject := empty_project, pp_editingProject := None\<rparr>"

definition handleResumeUpload :: "string option \<Rightarrow> profile_page \<Rightarrow> profile_page" where
  "handleResumeUpload file pp =
     (case file of None \<Rightarrow> pp
      | Some name \<Rightarrow> pp\<lparr>pp_profile := (pp_profile pp)\<lparr>u_resume := Some (''/uploads/'' @ name)\<rparr>\<rparr>)"

text \<open>
  The resume section (lines 524--552): the current resume's file name, the last
  \<open>/\<close>-separated part of the path (\<open>resume.split('/').pop()\<close>), and its link, shown
  when the draft has a non-empty resume.
\<close>

definition resume_view :: "profile_page \<Rightarrow> (string \<times> string) option" where
  "resume_view pp =
     (case u_resume (pp_profile pp) of
        Some r \<Rightarrow> if r \<noteq> [] then Some (last (js_split CHR ''/'' r), r) else None
      | None \<Rightarrow> None)"

text \<open>
  The project forms (lines 460--523): the edit form while a project is being edited,
  the add form otherwise; \<open>+ Add Project\<close> (\<open>PlusProject\<close>) leaves edit mode.
\<close>

definition project_forms :: "profile_page \<Rightarrow> bool \<times> bool" where
  "project_forms pp = (pp_editingProject pp \<noteq> None, pp_editingProject pp = None)"

datatype profile_event =
    TypeSkill string | AddSkill | RemoveSkill string | AskTip nat | PhotoChange "string option"
  | TypeEducation education | AddEducation | EditEducation nat | UpdateEducation | CancelEducation
  | PlusEducation
  | TypeProject project | AddProject | EditProject nat | UpdateProject | CancelProject | PlusProject
  | ResumeUpload "string option" | OpenEditModal

text \<open>
  A click or keystroke of the page.  The Edit buttons are rendered by
  \<open>profile?.education?.map((edu, index) => ...)\<close> (line 309) and
  \<open>profile?.projects?.map\<close> (line 438), one per entry of the draft, so an Edit click
  names an index of the rendered list; an index that no button carries is no click.
\<close>

fun profile_step :: "profile_page \<Rightarrow> profile_event \<Rightarrow> profile_page" where
  "profile_step pp (TypeSkill v) = pp\<lparr>pp_inputSkill := v\<rparr>"
| "profile_step pp AddSkill = handleAddSkill pp"
| "profile_step pp (RemoveSkill s) = handleRemoveSkill s pp"
| "profile_step pp (AskTip r) = generateResumeTip r pp"
| "profile_step pp (PhotoChange f) = handlePhotoChange f pp"
| "profile_step pp (TypeEducation e) = pp\<lparr>pp_newEducation := e\<rparr>"
| "profile_step pp AddEducation = handleAddEducation pp"
| "profile_step pp (EditEducation i) =
     (if i < length (list_or_empty (u_education (pp_profile pp))) then handleEditEducation i pp else pp)"
| "profile_step pp UpdateEducation = handleUpdateEducation pp"
| "profile_step pp CancelEducation = handleCancelEditEducation pp"
| "profile_step pp PlusEducation = pp\<lparr>pp_editingEducation := None, pp_newEducation := empty_education\<rparr>"
| "profile_step pp (TypeProject p) = pp\<lparr>pp_newProject := p\<rparr>"
| "profile_step pp AddProject = handleAddProject pp"
| "profile_step pp (EditProject i) =
     (if i < length (list_or_empty (u_projects (pp_profile pp))) then handleEditProject i pp else pp)"
| "profile_step pp UpdateProject = handleUpdateProject pp"
| "profile_step pp CancelProject = handleCancelEditProject pp"
| "profile_step pp PlusProject = pp\<lparr>pp_editingProject := None, pp_newProject := empty_project\<rparr>"
| "profile_step pp (ResumeUpload f) = handleResumeUpload f pp"
| "profile_step pp OpenEditModal = pp\<lparr>pp_modalOpen := True\<rparr>"

text \<open>
  What the route shows (lines 31--48): \<open>loading\<close> is read from \<open>useAuth()\<close>, whose
  value has no such key, so the skeleton is never shown; without a student session
  the page asks to log in.
\<close>

datatype profile_view = ProfileSkeleton | LoginPrompt | ProfileEditor

definition profile_route_view :: "bool option \<Rightarrow> user option \<Rightarrow> profile_view" where
  "profile_route_view loading user =
     (if loading = Some True then ProfileSkeleton
      else case user of Some u \<Rightarrow> if u_role u = Student then ProfileEditor else LoginPrompt
                      | None \<Rightarrow> LoginPrompt)"

subsection \<open>The modal (EditProfileModal.jsx)\<close>

text \<open>
  \<open>src/src/components/EditProfileModal.jsx\<close>: nothing when closed, otherwise the title
  and the children inside a panel over a backdrop.  A click bubbles from its target up
  through the handlers of its ancestors; the close button and the backdrop call
  \<open>onClose\<close>, the panel stops the propagation.  \<open>profile_modal_dispatch\<close> counts the calls of
  \<open>onClose\<close> along the bubbling path until a handler stops it.
\<close>

datatype click_handler = CallClose | StopPropagation | NoHandler

datatype profile_modal_target = OnBackdrop | OnPanel | OnCloseButton | OnChildren

definition profile_modal_render :: "bool \<Rightarrow> string \<Rightarrow> 'c \<Rightarrow> (string \<times> 'c) option" where
  "profile_modal_render isOpen title children = (if isOpen then Some (title, children) else None)"

text \<open>The handlers met from the target up to the backdrop (lines 7--27).\<close>

primrec profile_modal_path :: "profile_modal_target \<Rightarrow> click_handler list" where
  "profile_modal_path OnBackdrop = [CallClose]"
| "profile_modal_path OnPanel = [StopPropagation, CallClose]"
| "profile_modal_path OnCloseButton = [CallClose, NoHandler, StopPropagation, CallClose]"
| "profile_modal_path OnChildren = [NoHandler, StopPropagation, CallClose]"

primrec profile_modal_dispatch :: "click_handler list \<Rightarrow> nat" where
  "profile_modal_dispatch [] = 0"
| "profile_modal_dispatch (h # hs) =
     (case h of CallClose \<Rightarrow> Suc (profile_modal_dispatch hs) | StopPropagation \<Rightarrow> 0
              | NoHandler \<Rightarrow> profile_modal_dispatch hs)"

subsection \<open>The profile form (EditProfileForm.jsx)\<close>

record edit_form =
  ef_name :: string
  ef_phone :: string
  ef_location :: string
  ef_about :: string
  ef_github :: string
  ef_portfolio :: string
  ef_linkedin :: string

definition or_empty :: "string option \<Rightarrow> string" where
  "or_empty x = (case x of None \<Rightarrow> [] | Some s \<Rightarrow> s)"

definition link_of :: "user \<Rightarrow> string \<Rightarrow> string" where
  "link_of u site = (case u_links u of None \<Rightarrow> [] | Some ls \<Rightarrow> or_empty (map_of ls site))"

definition edit_form_of_user :: "user \<Rightarrow> edit_form" where
  "edit_form_of_user u = \<lparr>ef_name = u_name u, ef_phone = or_empty (u_phone u),
     ef_location = or_empty (u_location u), ef_about = or_empty (u_about u),
     ef_github = link_of u ''github'', ef_portfolio = link_of u ''portfolio'',
     ef_linkedin = link_of u ''linkedin''\<rparr>"

definition edit_form_patch :: "edit_form \<Rightarrow> user_patch" where
  "edit_form_patch f = \<lparr>p_id = None, p_name = Some (ef_name f), p_email = None, p_password = None,
     p_role = None, p_companyId = None, p_skills = None, p_education = None, p_projects = None,
     p_resume = None, p_bio = None, p_about = Some (ef_about f), p_phone = Some (ef_phone f),
     p_location = Some (ef_location f),
     p_links = Some [(''github'', ef_github f), (''portfolio'', ef_portfolio f), (''linkedin'', ef_linkedin f)],
     p_profileImage = None\<rparr>"

definition editForm_handleSubmit :: "edit_form \<Rightarrow> auth_state \<Rightarrow> auth_state" where
  "editForm_handleSubmit f st = updateUser (edit_form_patch f) st"

datatype link_site = Github | Portfolio | Linkedin

datatype ef_input = EfName string | EfAbout string | EfPhone string | EfLocation string | EfLink link_site string

text \<open>
  \<open>handleChange\<close> (lines 36--39) on the inputs named \<open>name\<close>, \<open>about\<close>, \<open>phone\<close> and
  \<open>location\<close>, and \<open>handleLinkChange\<close> (41--49) on the three link inputs.
\<close>

fun ef_change :: "edit_form \<Rightarrow> ef_input \<Rightarrow> edit_form" where
  "ef_change f (EfName v) = f\<lparr>ef_name := v\<rparr>"
| "ef_change f (EfAbout v) = f\<lparr>ef_about := v\<rparr>"
| "ef_change f (EfPhone v) = f\<lparr>ef_phone := v\<rparr>"
| "ef_change f (EfLocation v) = f\<lparr>ef_location := v\<rparr>"
| "ef_change f (EfLink Github v) = f\<lparr>ef_github := v\<rparr>"
| "ef_change f (EfLink Portfolio v) = f\<lparr>ef_portfolio := v\<rparr>"
| "ef_change f (EfLink Linkedin v) = f\<lparr>ef_linkedin := v\<rparr>"

record ef_view =
  efv_error :: "string option"
  efv_values :: edit_form
  efv_email :: string
  efv_disabled :: bool
  efv_label :: string

text \<open>
  The form (lines 68--222): the save error if any, the inputs showing the form's
  values, the account's email (not editable), and the two buttons, disabled while
  saving, the second labelled by \<open>isSaving\<close>.
\<close>

definition ef_view :: "user option \<Rightarrow> edit_form \<Rightarrow> bool \<Rightarrow> string \<Rightarrow> ef_view" where
  "ef_view user f isSaving saveError =
     \<lparr>efv_error = (if saveError \<noteq> [] then Some saveError else None), efv_values = f,
      efv_email = (case user of Some u \<Rightarrow> u_email u | None \<Rightarrow> []),
      efv_disabled = isSaving, efv_label = (if isSaving then ''Saving...'' else ''Save Changes'')\<rparr>"

subsection \<open>The links card\<close>

text \<open>
  The components in scope in \<open>StudentProfile.jsx\<close> (lines 4--7; \<open>Link\<close> of
  \<open>lucide-react\<close> as \<open>LinkIcon\<close>, \<open>Link\<close> of the router as \<open>RouterLink\<close>).
  \<open>Linkedin\<close>, used at line 286, is not among them.
\<close>

definition studentProfile_imports :: "string list" where
  "studentProfile_imports = [''User'', ''Mail'', ''Phone'', ''MapPin'', ''GraduationCap'', ''Briefcase'',
     ''Github'', ''Globe'', ''Upload'', ''Save'', ''Lightbulb'', ''FileText'', ''LinkIcon'', ''RouterLink'',
     ''ProfileSkeleton'', ''EditProfileModal'']"

text \<open>
  The links card of the draft (lines 266--290): its heading's \<open>LinkIcon\<close>, then an
  anchor for each of \<open>github\<close>, \<open>portfolio\<close> and \<open>linkedin\<close> whose value is truthy,
  each with its icon, showing the site and the address.
\<close>

definition profile_links_render :: "user \<Rightarrow> js_error + (string \<times> string) list" where
  "profile_links_render p =
     (let shown = filter (\<lambda>(k, c). link_of p k \<noteq> [])
                    [(''github'', ''Github''), (''portfolio'', ''Globe''), (''linkedin'', ''Linkedin'')]
      in map_sum id (\<lambda>_. map (\<lambda>(k, c). (k, link_of p k)) shown)
           (jsx_elements studentProfile_imports (''LinkIcon'' # map snd shown)))"

subsection \<open>Invariants of the editor\<close>

text \<open>The index being edited always names an entry of the draft.\<close>

definition profile_wf :: "profile_page \<Rightarrow> bool" where
  "profile_wf pp \<longleftrightarrow>
     (case pp_editingEducation pp of None \<Rightarrow> True
      | Some i \<Rightarrow> i < length (list_or_empty (u_education (pp_profile pp))))
     \<and> (case pp_editingProject pp of None \<Rightarrow> True
        | Some i \<Rightarrow> i < length (list_or_empty (u_projects (pp_profile pp))))"

lemma list_or_empty_Some [simp]: "list_or_empty (Some xs) = xs"
  by (simp add: list_or_empty_def)

lemmas profile_handlers = handleAddSkill_def handleRemoveSkill_def generateResumeTip_def
  handlePhotoChange_def handleAddEducation_def handleEditEducation_def handleUpdateEducation_def
  handleCancelEditEducation_def handleAddProject_def handleEditProject_def handleUpdateProject_def
  handleCancelEditProject_def handleResumeUpload_def

text \<open>
  The index being edited stays within the draft's list, so the assignment
  \<open>updatedEducation[isEditingEducation] = newEducation\<close> (and its project twin) is an
  update in place, which \<open>xs[i := v]\<close> models.
\<close>

lemma profile_step_wf: "profile_wf pp \<Longrightarrow> profile_wf (profile_step pp e)"
  by (cases e) (auto simp: profile_wf_def profile_handlers Let_def split: option.splits)

lemma profile_steps_wf: "profile_wf pp \<Longrightarrow> profile_wf (foldl profile_step pp evs)"
  by (induction evs arbitrary: pp) (simp_all add: profile_step_wf)

lemma profile_step_identity:
  "u_id (pp_profile (profile_step pp e)) = u_id (pp_profile pp)
   \<and> u_email (pp_profile (profile_step pp e)) = u_email (pp_profile pp)"
  by (cases e) (simp_all add: profile_handlers Let_def split: option.splits)

lemma profile_steps_identity:
  "u_id (pp_profile (foldl profile_step pp evs)) = u_id (pp_profile pp)
   \<and> u_email (pp_profile (foldl profile_step pp evs)) = u_email (pp_profile pp)"
  by (induction evs arbitrary: pp) (simp_all add: profile_step_identity)

lemma edit_form_patch_ok [simp]: "patch_ok (edit_form_patch f) st"
  by (simp add: patch_ok_def keeps_identity_def edit_form_patch_def split: option.split)

lemma override_opt_same [simp]: "override_opt x x = x"
  by (simp add: override_opt_def split: option.split)

lemma override_Some [simp]: "override (Some x) y = x"
  by (simp add: override_def)

lemma list_len_skills_or_empty: "list_len (Some (skills_or_empty u)) = list_len (u_skills u)"
  by (simp add: list_len_def skills_or_empty_def split: option.split)

text \<open>Saving a draft that differs from the account only in its resume.\<close>

lemma resume_upload_patch:
  "apply_patch (save_patch (handleResumeUpload (Some name) (profile_mount u))) u
   = u\<lparr>u_resume := Some (''/uploads/'' @ name), u_skills := Some (skills_or_empty u),
       u_profileImage := Some (image_or_empty u)\<rparr>"
  by (simp add: apply_patch_def save_patch_def patch_of_user_def handleResumeUpload_def profile_mount_def
        override_opt_def)

text \<open>
  Saving the profile form and opening it again shows exactly what was saved: the
  form's seven fields survive the patch \<open>updateUser\<close> applies to the session account.
\<close>

lemma edit_form_roundtrip:
  "cur_user st = Some u \<Longrightarrow> map_option edit_form_of_user (cur_user (editForm_handleSubmit f st)) = Some f"
  by (simp add: editForm_handleSubmit_def updateUser_cur_user apply_patch_def edit_form_patch_def
                edit_form_of_user_def or_empty_def link_of_def override_def override_opt_def)

text \<open>After an upload the resume section names the uploaded file.\<close>

lemma resume_view_upload:
  "CHR ''/'' \<notin> set name \<Longrightarrow>
     resume_view (handleResumeUpload (Some name) pp) = Some (name, ''/uploads/'' @ name)"
  using js_split_at_sep [of "CHR ''/''" "[]" "''uploads/'' @ name"]
        js_split_at_sep [of "CHR ''/''" "''uploads''" name] js_split_no_sep_char [of "CHR ''/''" name]
  by (simp add: resume_view_def handleResumeUpload_def)

lemma project_forms_exclusive: "fst (project_forms pp) \<longleftrightarrow> \<not> snd (project_forms pp)"
  by (simp add: project_forms_def)

text \<open>
  A click on the modal calls \<open>onClose\<close> at most once, and exactly once when it lands on
  the backdrop or the close button: the panel's \<open>stopPropagation\<close> keeps the close
  button's click from reaching the backdrop, and a click inside the panel closes nothing.
\<close>

lemma modal_click_closes: "profile_modal_dispatch (profile_modal_path t) = (if t \<in> {OnBackdrop, OnCloseButton} then 1 else 0)"
  by (cases t) simp_all

subsection \<open>Examples\<close>

definition demo_session :: "user \<Rightarrow> auth_state" where
  "demo_session u = \<lparr>users = [u], cur_user = Some u, auth_ls = Map.empty\<rparr>"

subsection \<open>Properties\<close>

text \<open>From the mount, whatever the student does, the edited index names an entry.\<close>

lemma profile_edit_in_range: "profile_wf (foldl profile_step (profile_mount u) evs)"
  by (rule profile_steps_wf) (simp add: profile_wf_def profile_mount_def)

text \<open>
  C34: editing an education entry replaces exactly that entry.  Clicking the Edit
  button of entry \<open>i\<close> loads it into the form; typing a complete entry and clicking
  Update writes it at index \<open>i\<close>, leaves the other entries, clears the form and
  leaves edit mode; an incomplete entry is refused and edit mode stays; Cancel leaves
  the list as it was.
\<close>

theorem education_edit_update:
  assumes "i < length (list_or_empty (u_education (pp_profile pp)))"
  shows "pp_newEducation (profile_step pp (EditEducation i)) = list_or_empty (u_education (pp_profile pp)) ! i
     \<and> (education_complete e \<longrightarrow>
          foldl profile_step pp [EditEducation i, TypeEducation e, UpdateEducation]
          = pp\<lparr>pp_profile := (pp_profile pp)\<lparr>u_education :=
                   Some ((list_or_empty (u_education (pp_profile pp)))[i := e])\<rparr>,
               pp_editingEducation := None, pp_newEducation := empty_education\<rparr>)
     \<and> (\<not> education_complete e \<longrightarrow>
          foldl profile_step pp [EditEducation i, TypeEducation e, UpdateEducation]
          = pp\<lparr>pp_editingEducation := Some i, pp_newEducation := e\<rparr>)
     \<and> foldl profile_step pp [EditEducation i, CancelEducation]
          = pp\<lparr>pp_editingEducation := None, pp_newEducation := empty_education\<rparr>"
  using assms
  by (simp add: handleEditEducation_def handleUpdateEducation_def handleCancelEditEducation_def js_at_or_def)

definition demo_education :: education where
  "demo_education = \<lparr>ed_degree = ''BSc'', ed_school = ''Uni'', ed_year = ''2025''\<rparr>"

theorem education_edit_update_witness:
  "foldl profile_step (profile_mount ((demo_student [])\<lparr>u_education := Some [demo_education, demo_education]\<rparr>))
     [EditEducation 1, TypeEducation (demo_education\<lparr>ed_year := ''2026''\<rparr>), UpdateEducation]
   = (profile_mount ((demo_student [])\<lparr>u_education := Some [demo_education, demo_education]\<rparr>))
       \<lparr>pp_profile := (demo_student [])\<lparr>u_education := Some [demo_education, demo_education\<lparr>ed_year := ''2026''\<rparr>]\<rparr>,
        pp_editingEducation := None, pp_newEducation := empty_education\<rparr>"
proof -
  let ?pp = "profile_mount ((demo_student [])\<lparr>u_education := Some [demo_education, demo_education]\<rparr>)"
  let ?e = "demo_education\<lparr>ed_year := ''2026''\<rparr>"
  have i: "1 < length (list_or_empty (u_education (pp_profile ?pp)))" by (simp add: profile_mount_def)
  have c: "education_complete ?e" by (simp add: education_complete_def demo_education_def)
  from education_edit_update [OF i, where e = ?e] c
  have "foldl profile_step ?pp [EditEducation 1, TypeEducation ?e, UpdateEducation]
        = ?pp\<lparr>pp_profile := (pp_profile ?pp)\<lparr>u_education := Some ((list_or_empty (u_education (pp_profile ?pp)))[1 := ?e])\<rparr>,
              pp_editingEducation := None, pp_newEducation := empty_education\<rparr>"
    by blast
  then show ?thesis by (simp add: profile_mount_def)
qed

text \<open>
  C14: the profile page crashes for an account with a LinkedIn address.  The links
  card creates a \<open>Linkedin\<close> element exactly when the draft's \<open>links.linkedin\<close> is
  non-empty, and \<open>StudentProfile.jsx\<close> does not import it, so that render throws a
  \<open>ReferenceError\<close>; otherwise the card lists the GitHub and portfolio addresses that
  are set, in that order.
\<close>

theorem profile_links_linkedin_crash:
  "profile_links_render p =
     (if link_of p ''linkedin'' \<noteq> [] then Inl (ReferenceError ''Linkedin'')
      else Inr (map (\<lambda>k. (k, link_of p k)) (filter (\<lambda>k. link_of p k \<noteq> []) [''github'', ''portfolio''])))"
  by (simp add: profile_links_render_def jsx_elements_def studentProfile_imports_def)

text \<open>
  C35: saving the profile page never changes the session account's id or email: the
  patch it hands to \<open>updateUser\<close> satisfies \<open>Auth.patch_ok\<close>, the condition under
  which \<open>updateUser\<close> keeps the roster consistent.
\<close>

theorem profile_save_patch_ok:
  "cur_user st = Some u \<Longrightarrow> patch_ok (save_patch (foldl profile_step (profile_mount u) evs)) st"
  using profile_steps_identity [of "profile_mount u" evs]
  by (simp add: patch_ok_def save_patch_def keeps_identity_def patch_of_user_def profile_mount_def)

theorem profile_save_patch_ok_witness:
  "patch_ok (save_patch (foldl profile_step (profile_mount (demo_student [])) [TypeSkill ''sql'', AddSkill]))
     (demo_session (demo_student []))"
  by (rule profile_save_patch_ok) (simp add: demo_session_def)

text \<open>
  Uploading a resume on the profile page and saving completes the checklist item
  \<open>Upload Resume\<close>: a student without a resume gains exactly its 30 points, and the
  rest of the score is unchanged.
\<close>

theorem resume_upload_score:
  assumes "cur_user st = Some u" "\<not> truthy_str (u_resume u)"
  shows "cur_user (handleSave (handleResumeUpload (Some name) (profile_mount u)) st) = Some u'
         \<longrightarrow> profileScore u' = profileScore u + 30"
proof
  assume "cur_user (handleSave (handleResumeUpload (Some name) (profile_mount u)) st) = Some u'"
  then have "u' = u\<lparr>u_resume := Some (''/uploads/'' @ name), u_skills := Some (skills_or_empty u),
                     u_profileImage := Some (image_or_empty u)\<rparr>"
    using assms(1) by (simp add: handleSave_def updateUser_cur_user resume_upload_patch)
  with assms(2) show "profileScore u' = profileScore u + 30"
    by (simp add: profileScore_def truthy_str_def list_len_skills_or_empty)
qed

theorem resume_upload_score_witness:
  "profileScore (the (cur_user (handleSave (handleResumeUpload (Some ''cv.pdf'') (profile_mount (demo_student [])))
                                 (demo_session (demo_student []))))) = 30"
proof -
  let ?st = "demo_session (demo_student [])"
  let ?u' = "the (cur_user (handleSave (handleResumeUpload (Some ''cv.pdf'') (profile_mount (demo_student []))) ?st))"
  have c: "cur_user ?st = Some (demo_student [])" by (simp add: demo_session_def)
  have r: "\<not> truthy_str (u_resume (demo_student []))" by (simp add: demo_student_def truthy_str_def)
  have "cur_user (handleSave (handleResumeUpload (Some ''cv.pdf'') (profile_mount (demo_student []))) ?st) = Some ?u'"
    by (simp add: handleSave_def updateUser_cur_user [OF c])
  with resume_upload_score [OF c r] have "profileScore ?u' = profileScore (demo_student []) + 30" by blast
  then show ?thesis by (simp add: profileScore_def demo_student_def truthy_str_def list_len_def)
qed

text \<open>
  The profile page refuses only an exact duplicate skill, so a student with
  \<open>React\<close> can add \<open>react\<close>; after saving, both lower-case to \<open>react\<close> and a
  listing that requires only \<open>react\<close> shows a 200% match.
\<close>

theorem profile_case_duplicate_match:
  "matchPercentage
     (cur_user (handleSave (foldl profile_step (profile_mount (demo_student [''React''])) [TypeSkill ''react'', AddSkill])
                 (demo_session (demo_student [''React'']))))
     (demo_listing (NumId 1) ''X'' [''react''] 0) = 200"
  by code_simp

end
