(* ===== verification/PostPage.thy ===== *)
theory PostPage
  imports Matching
begin

text \<open>
  The posting page of a recruiter, \<open>src/src/pages/PostInternship.jsx\<close>: the form state,
  the effect that finds the recruiter's company, the inputs and buttons, the browser's
  \<open>required\<close> check, and \<open>handleSubmit\<close>, which builds the listing (requirements split
  at commas and trimmed) and hands it to \<open>DataContext.addInternship\<close>
  (\<open>Listings.addInternship\<close>).  A submit has one of three outcomes: the browser blocks
  it, an alert without a post, or a post followed by the dashboard route.
\<close>

record post_form =
  pf_title :: string
  pf_description :: string
  pf_requirements :: string
  pf_type :: string
  pf_isPaid :: bool
  pf_stipend :: string
  pf_duration :: string
  pf_location :: string
  pf_deadline :: string
  pf_domain :: string

definition post_initial :: post_form where
  "post_initial = \<lparr>pf_title = [], pf_description = [], pf_requirements = [], pf_type = ''Remote'',
     pf_isPaid = True, pf_stipend = [], pf_duration = [], pf_location = [], pf_deadline = [], pf_domain = []\<rparr>"

text \<open>The effect of lines 26--31: the company whose id is the recruiter's \<open>companyId\<close>.\<close>

definition recruiter_company :: "user option \<Rightarrow> company list \<Rightarrow> company option" where
  "recruiter_company user companies =
     (case user of
        Some u \<Rightarrow> if u_role u = Recruiter \<and> companies \<noteq> [] then company_of companies u else None
      | None \<Rightarrow> None)"

datatype post_field = Title | Domain | Stipend | Duration | Location | Deadline | Description | Requirements

datatype post_input = EditField post_field string | PickType string | PickPaid bool

fun post_change :: "post_form \<Rightarrow> post_input \<Rightarrow> post_form" where
  "post_change f (EditField Title v) = f\<lparr>pf_title := v\<rparr>"
| "post_change f (EditField Domain v) = f\<lparr>pf_domain := v\<rparr>"
| "post_change f (EditField Stipend v) = f\<lparr>pf_stipend := v\<rparr>"
| "post_change f (EditField Duration v) = f\<lparr>pf_duration := v\<rparr>"
| "post_change f (EditField Location v) = f\<lparr>pf_location := v\<rparr>"
| "post_change f (EditField Deadline v) = f\<lparr>pf_deadline := v\<rparr>"
| "post_change f (EditField Description v) = f\<lparr>pf_description := v\<rparr>"
| "post_change f (EditField Requirements v) = f\<lparr>pf_requirements := v\<rparr>"
| "post_change f (PickType t) = f\<lparr>pf_type := t\<rparr>"
| "post_change f (PickPaid b) = f\<lparr>pf_isPaid := b\<rparr>"

text \<open>
  The \<open>required\<close> inputs: a non-empty value each (white space counts), the stipend only
  while it is rendered (\<open>formData.isPaid\<close>, line 196).
\<close>

definition post_required_ok :: "post_form \<Rightarrow> bool" where
  "post_required_ok f \<longleftrightarrow>
     pf_title f \<noteq> [] \<and> pf_domain f \<noteq> [] \<and> (\<not> pf_isPaid f \<or> pf_stipend f \<noteq> [])
     \<and> pf_duration f \<noteq> [] \<and> pf_location f \<noteq> [] \<and> pf_deadline f \<noteq> []
     \<and> pf_description f \<noteq> [] \<and> pf_requirements f \<noteq> []"

text \<open>\<open>formData.requirements.split(',').map(s => s.trim())\<close>\<close>

definition split_requirements :: "string \<Rightarrow> string list" where
  "split_requirements s = map js_trim (js_split CHR '','' s)"

text \<open>
  The object of lines 48--54: the form's keys, the split requirements and the company's
  name, id and logo.  \<open>addInternship\<close> then sets id, company, logo, date and counter,
  so the placeholders here for \<open>id\<close>, \<open>posted\<close> and \<open>applicants\<close> are overwritten.
\<close>

definition post_listing :: "post_form \<Rightarrow> company \<Rightarrow> internship" where
  "post_listing f c = \<lparr>i_id = NumId 0, i_title = pf_title f, i_company = c_name c,
     i_companyId = Some (c_id c), i_logo = c_logo c, i_location = pf_location f, i_type = pf_type f,
     i_isPaid = pf_isPaid f, i_stipend = pf_stipend f, i_duration = pf_duration f,
     i_domain = pf_domain f, i_description = pf_description f, i_posted = 0,
     i_deadline = pf_deadline f, i_applicants = 0, i_requirements = split_requirements (pf_requirements f),
     i_redirect_url = None\<rparr>"

text \<open>
  After the call the page alerts success and navigates whatever \<open>addInternship\<close>
  returned (lines 56--58); \<open>Posted\<close> carries that result.
\<close>

datatype post_outcome = Blocked | Alerted string | Posted "internship option" string

definition post_handleSubmit ::
  "timestamp \<Rightarrow> day \<Rightarrow> user option \<Rightarrow> company list \<Rightarrow> post_form \<Rightarrow> internship list
   \<Rightarrow> post_outcome \<times> internship list" where
  "post_handleSubmit now today user companies f localInternships =
     (if \<not> post_required_ok f then (Blocked, localInternships)
      else case recruiter_company user companies of
        None \<Rightarrow> (Alerted ''Company details not found. Cannot post internship.'', localInternships)
      | Some c \<Rightarrow>
          (let r = addInternship now today user companies (post_listing f c) localInternships
           in (Posted (fst r) ''/recruiter/dashboard'', snd r)))"

text \<open>The route's gate (lines 63--71).\<close>

definition post_route_allowed :: "user option \<Rightarrow> bool" where
  "post_route_allowed user = (case user of Some u \<Rightarrow> u_role u = Recruiter | None \<Rightarrow> False)"

subsection \<open>Lemmas\<close>

lemma recruiter_company_Some:
  "recruiter_company user cs = Some c \<Longrightarrow>
     \<exists>u k. user = Some u \<and> u_role u = Recruiter \<and> u_companyId u = Some k \<and> c \<in> set cs \<and> c_id c = k"
  by (auto simp: recruiter_company_def company_of_def split: option.splits if_splits
           dest: find_Some_iff [THEN iffD1] intro: nth_mem)

lemma post_handleSubmit_posted:
  "post_handleSubmit now today user cs f loc = (Posted r path, loc') \<Longrightarrow>
     \<exists>u c. user = Some u \<and> u_role u = Recruiter \<and> recruiter_company user cs = Some c
       \<and> addInternship now today user cs (post_listing f c) loc = (r, loc')
       \<and> path = ''/recruiter/dashboard''"
  by (auto simp: post_handleSubmit_def Let_def split: option.splits if_splits
           dest: recruiter_company_Some)

lemma addInternship_recruiter:
  "u_role u = Recruiter \<Longrightarrow> \<exists>ni. addInternship now today (Some u) cs d loc = (Some ni, loc @ [ni])"
  by (simp add: addInternship_def Let_def)

lemma addInternship_fields:
  "addInternship now today (Some u) cs d loc = (Some ni, loc') \<Longrightarrow>
     i_requirements ni = i_requirements d \<and> i_title ni = i_title d \<and> loc' = loc @ [ni]
     \<and> i_id ni = NumId now \<and> i_companyId ni = u_companyId u"
  by (auto simp: addInternship_def Let_def split: if_splits)

subsection \<open>Examples\<close>

definition demo_post_form :: post_form where
  "demo_post_form = post_initial\<lparr>pf_title := ''Data Intern'', pf_description := ''SQL reports'',
     pf_requirements := ''SQL, Python'', pf_stipend := ''500'', pf_duration := ''3 months'',
     pf_location := ''Remote'', pf_deadline := ''2025-12-01'', pf_domain := ''Data Science''\<rparr>"

definition demo_companies :: "company list" where
  "demo_companies = [\<lparr>c_id = NumId 1, c_name = ''Acme'', c_logo = ''A''\<rparr>]"

subsection \<open>Properties\<close>

text \<open>
  C37: a post that goes through appends exactly one listing to the local listings, with
  the clock as id, the recruiter's company id (never absent), the form's title and the
  comma-separated requirements, trimmed; the page then goes to the dashboard.
\<close>

theorem post_submit_result:
  assumes "post_handleSubmit now today user cs f loc = (Posted r path, loc')"
  shows "\<exists>ni u. r = Some ni \<and> user = Some u \<and> loc' = loc @ [ni] \<and> i_id ni = NumId now
           \<and> i_companyId ni = u_companyId u \<and> i_companyId ni \<noteq> None
           \<and> i_title ni = pf_title f \<and> i_requirements ni = split_requirements (pf_requirements f)
           \<and> path = ''/recruiter/dashboard''"
proof -
  from post_handleSubmit_posted [OF assms] obtain u c where
    u: "user = Some u" "u_role u = Recruiter" and c: "recruiter_company user cs = Some c"
    and a: "addInternship now today user cs (post_listing f c) loc = (r, loc')"
    and p: "path = ''/recruiter/dashboard''" by blast
  from recruiter_company_Some [OF c] u have k: "u_companyId u \<noteq> None" by auto
  from addInternship_recruiter [OF u(2)] obtain ni where
    "addInternship now today (Some u) cs (post_listing f c) loc = (Some ni, loc @ [ni])" by blast
  with a u have r: "r = Some ni" "loc' = loc @ [ni]" by simp_all
  with a u addInternship_fields [of now today u cs "post_listing f c" loc ni loc'] k p show ?thesis
    by (auto simp: post_listing_def)
qed

theorem post_submit_result_witness:
  "\<exists>ni. fst (post_handleSubmit 7 20000 (Some demo_recruiter) demo_companies demo_post_form [])
          = Posted (Some ni) ''/recruiter/dashboard''
        \<and> i_requirements ni = [''SQL'', ''Python''] \<and> i_id ni = NumId 7"
proof -
  let ?r = "post_handleSubmit 7 20000 (Some demo_recruiter) demo_companies demo_post_form []"
  let ?a = "fst (addInternship 7 20000 (Some demo_recruiter) demo_companies
                 (post_listing demo_post_form (hd demo_companies)) [])"
  have f: "fst ?r = Posted ?a ''/recruiter/dashboard''" by code_simp
  obtain r where r: "r = ?a" by blast
  from f r have f: "fst ?r = Posted r ''/recruiter/dashboard''" by simp
  then have "?r = (Posted r ''/recruiter/dashboard'', snd ?r)" by (metis prod.collapse)
  from post_submit_result [OF this] obtain ni where
    "r = Some ni" "i_id ni = NumId 7" "i_requirements ni = split_requirements (pf_requirements demo_post_form)"
    by blast
  moreover have "split_requirements (pf_requirements demo_post_form) = [''SQL'', ''Python'']" by code_simp
  ultimately show ?thesis using f by auto
qed

text \<open>
  A trailing comma or an empty entry in the requirements field becomes an empty
  requirement: \<open>'React, '\<close> posts \<open>['React', '']\<close>, and a student whose only skill is
  React then matches the listing at 50%, not 100%.
\<close>

theorem post_trailing_comma_requirement:
  "split_requirements ''React, '' = [''React'', []]
   \<and> matchPercentage (Some (demo_student [''React'']))
        ((demo_listing (NumId 1) ''X'' [] 0)\<lparr>i_requirements := split_requirements ''React, ''\<rparr>) = 50"
  by code_simp

end
