(* ===== verification/Interface.thy ===== *)
theory Interface
  imports Prelude
begin

text \<open>
  The interface between the two providers and their consumers.  \<open>AuthProvider\<close>
  (\<open>src/src/context/AuthContext.jsx\<close> line 121) and \<open>DataProvider\<close>
  (\<open>src/src/context/DataContext.jsx\<close> lines 438--464) publish an object with a fixed
  set of keys; every page and component destructures the keys it reads from
  \<open>useAuth()\<close> or \<open>useData()\<close>.  A key the provider does not publish reads as
  \<open>undefined\<close> (or as the destructuring default).  The keys are the interface's
  vocabulary; \<open>ctx_read\<close> is the read of one key, \<open>None\<close> for \<open>undefined\<close>.
\<close>

definition auth_value_keys :: "string list" where
  "auth_value_keys = [''user'', ''initialAuthLoading'', ''login'', ''logout'', ''signup'', ''updateUser'', ''users'']"

definition data_value_keys :: "string list" where
  "data_value_keys = [''internships'', ''companies'', ''notifications'', ''getInternship'', ''getCompany'',
     ''applyForInternship'', ''addInternship'', ''getStudentProfile'', ''getRecruiterProfile'',
     ''getStudentApplications'', ''getRecruiterApplicants'', ''getFilteredInternships'',
     ''getRecommendedInternships'', ''getSearchableTerms'', ''isLoadingExternal'', ''savedInternships'',
     ''toggleSaveInternship'', ''updateApplicationStatus'', ''adminStats'', ''skillSuggestions'', ''users'',
     ''profileImpactScore'', ''profileCompletionPercentage'', ''profileCompletionChecklist'']"

definition ctx_read :: "string list \<Rightarrow> string \<Rightarrow> 'a \<Rightarrow> 'a option" where
  "ctx_read keys k v = (if k \<in> set keys then Some v else None)"

subsection \<open>What each consumer reads\<close>

definition reads_RecruiterActivityStream :: "string list" where
  "reads_RecruiterActivityStream = [''user'', ''internships'', ''users'', ''applications'']"

definition reads_InternshipCard_data :: "string list" where
  "reads_InternshipCard_data = [''savedInternships'', ''toggleSaveInternship'']"

definition reads_DynamicStats :: "string list" where
  "reads_DynamicStats = [''internships'', ''companies'', ''applications'']"

definition reads_ProfileImpactMeter :: "string list" where
  "reads_ProfileImpactMeter = [''user'', ''profileImpactScore'', ''profileCompletionPercentage'',
     ''profileCompletionChecklist'']"

definition reads_StudentDashboard_auth :: "string list" where
  "reads_StudentDashboard_auth = [''user'', ''loading'']"

definition reads_StudentDashboard_data :: "string list" where
  "reads_StudentDashboard_data = [''getStudentProfile'', ''getStudentApplications'', ''internships'',
     ''notifications'', ''isLoadingExternal'', ''savedInternships'', ''profileCompletionPercentage'']"

definition reads_PostInternship_data :: "string list" where
  "reads_PostInternship_data = [''addInternship'', ''companies'']"

definition reads_StudentProfile_auth :: "string list" where
  "reads_StudentProfile_auth = [''user'', ''updateUser'', ''loading'']"

definition reads_StudentProfile_data :: "string list" where
  "reads_StudentProfile_data = [''skillSuggestions'']"

definition reads_InternshipDetails_data :: "string list" where
  "reads_InternshipDetails_data = [''internships'', ''applyForInternship'', ''toggleSaveInternship'',
     ''savedInternships'', ''applications'', ''getInternship'', ''isLoadingExternal'']"

definition reads_BrowseInternships_data :: "string list" where
  "reads_BrowseInternships_data = [''internships'', ''getFilteredInternships'', ''getRecommendedInternships'',
     ''getSearchableTerms'', ''isLoadingExternal'']"

definition reads_RecruiterDashboard_auth :: "string list" where
  "reads_RecruiterDashboard_auth = [''user'', ''loading'']"

definition reads_RecruiterDashboard_data :: "string list" where
  "reads_RecruiterDashboard_data = [''internships'', ''applications'', ''companies'',
     ''updateApplicationStatus'', ''users'']"

definition reads_auth_simple :: "string list" where
  "reads_auth_simple = [''user'', ''logout'', ''updateUser'', ''initialAuthLoading'', ''signup'', ''login'']"

definition reads_DataProvider_auth :: "string list" where
  "reads_DataProvider_auth = [''user'', ''users'']"

text \<open>Every consumer with the provider it reads from.\<close>

definition consumers :: "(string \<times> string list \<times> string list) list" where
  "consumers = [
     (''RecruiterActivityStream'', reads_RecruiterActivityStream, data_value_keys),
     (''InternshipCard'', reads_InternshipCard_data, data_value_keys),
     (''DynamicStats'', reads_DynamicStats, data_value_keys),
     (''ProfileImpactMeter'', reads_ProfileImpactMeter, data_value_keys),
     (''StudentDashboard/auth'', reads_StudentDashboard_auth, auth_value_keys),
     (''StudentDashboard/data'', reads_StudentDashboard_data, data_value_keys),
     (''PostInternship'', reads_PostInternship_data, data_value_keys),
     (''StudentProfile/auth'', reads_StudentProfile_auth, auth_value_keys),
     (''StudentProfile/data'', reads_StudentProfile_data, data_value_keys),
     (''InternshipDetails'', reads_InternshipDetails_data, data_value_keys),
     (''BrowseInternships'', reads_BrowseInternships_data, data_value_keys),
     (''RecruiterDashboard/auth'', reads_RecruiterDashboard_auth, auth_value_keys),
     (''RecruiterDashboard/data'', reads_RecruiterDashboard_data, data_value_keys),
     (''Navbar, EditProfileForm, AdminPanel, Messages, App, Login, Signup'', reads_auth_simple, auth_value_keys),
     (''DataProvider'', reads_DataProvider_auth, auth_value_keys)]"

definition missing_keys :: "string list \<Rightarrow> string list \<Rightarrow> string list" where
  "missing_keys reads provided = filter (\<lambda>k. k \<notin> set provided) reads"

definition undefined_reads :: "(string \<times> string list) list" where
  "undefined_reads = filter (\<lambda>(_, ks). ks \<noteq> []) (map (\<lambda>(c, r, p). (c, missing_keys r p)) consumers)"

lemma ctx_read_missing: "k \<notin> set keys \<Longrightarrow> ctx_read keys k v = None"
  by (simp add: ctx_read_def)

lemma ctx_read_present: "k \<in> set keys \<Longrightarrow> ctx_read keys k v = Some v"
  by (simp add: ctx_read_def)

lemma data_keys_lack [simp]:
  "''user'' \<notin> set data_value_keys" "''applications'' \<notin> set data_value_keys"
  by (simp_all add: data_value_keys_def)

lemma auth_keys_lack [simp]: "''loading'' \<notin> set auth_value_keys"
  by (simp add: auth_value_keys_def)

lemma data_keys_have [simp]:
  "''users'' \<in> set data_value_keys" "''internships'' \<in> set data_value_keys"
  "''savedInternships'' \<in> set data_value_keys" "''profileCompletionChecklist'' \<in> set data_value_keys"
  "''companies'' \<in> set data_value_keys" "''notifications'' \<in> set data_value_keys"
  by (simp_all add: data_value_keys_def)

subsection \<open>Properties\<close>

text \<open>
  C26: the interface is not type-correct: exactly these consumers read keys their
  provider does not publish, and read \<open>undefined\<close> for them.  The data provider has
  no \<open>user\<close> and no \<open>applications\<close>, the auth provider no \<open>loading\<close>; every other
  read of every consumer is published.
\<close>

theorem provider_interface_gaps:
  "undefined_reads =
     [(''RecruiterActivityStream'', [''user'', ''applications'']), (''DynamicStats'', [''applications'']),
      (''ProfileImpactMeter'', [''user'']), (''StudentDashboard/auth'', [''loading'']),
      (''StudentProfile/auth'', [''loading'']), (''InternshipDetails'', [''applications'']),
      (''RecruiterDashboard/auth'', [''loading'']), (''RecruiterDashboard/data'', [''applications''])]"
  by code_simp

end
