(* ===== verification/DetailsPage.thy ===== *)
theory DetailsPage
  imports App Validation Interface
begin

text \<open>
  The listing page \<open>src/src/pages/InternshipDetails.jsx\<close> and its application form
  \<open>src/src/components/ApplyModal.jsx\<close>.  The page finds its listing from the route
  parameter with \<open>getInternship\<close>, derives the saved and applied flags in an effect,
  and offers one action button.  The form validates four fields; a valid submit waits
  (\<open>setTimeout\<close>, not modelled as time) and calls the page's \<open>handleModalSubmit\<close>,
  which applies through \<open>DataContext.applyForInternship\<close> (an \<open>Apply\<close> event of
  \<open>App.app_step\<close>) and closes the modal; the modal's effect then resets it.  The
  \<open>applications\<close> the page reads from \<open>useData()\<close> is \<open>Interface.ctx_read\<close> of a key the
  provider does not publish.  The modal's form screen creates \<open>Send\<close> or \<open>Loader2\<close>
  elements the module does not import, so its render throws; the submit handlers are
  modelled as the code writes them, and \<open>details_run\<close> shows they are never reached.
\<close>

subsection \<open>The application form\<close>

record apply_form =
  af_fullName :: string
  af_email :: string
  af_phoneNumber :: string
  af_resume :: "string option"

record apply_errors =
  ae_fullName :: "string option"
  ae_email :: "string option"
  ae_phoneNumber :: "string option"
  ae_resume :: "string option"

record apply_modal =
  am_form :: apply_form
  am_errors :: apply_errors
  am_isSubmitting :: bool
  am_success :: bool

definition no_apply_errors :: apply_errors where
  "no_apply_errors = \<lparr>ae_fullName = None, ae_email = None, ae_phoneNumber = None, ae_resume = None\<rparr>"

definition modal_reset :: apply_modal where
  "modal_reset = \<lparr>am_form = \<lparr>af_fullName = [], af_email = [], af_phoneNumber = [], af_resume = None\<rparr>,
                  am_errors = no_apply_errors, am_isSubmitting = False, am_success = False\<rparr>"

text \<open>The effect of lines 15--28: closing the modal resets it.\<close>

definition modal_effect :: "bool \<Rightarrow> apply_modal \<Rightarrow> apply_modal" where
  "modal_effect isOpen m = (if isOpen then m else modal_reset)"

definition apply_validate :: "apply_form \<Rightarrow> apply_errors \<times> bool" where
  "apply_validate f =
     (let e = \<lparr>ae_fullName = (if af_fullName f = [] then Some ''Full Name is required'' else None),
               ae_email = (if af_email f = [] then Some ''Email is required''
                           else if \<not> emailRegex_test (af_email f) then Some ''Invalid email format'' else None),
               ae_phoneNumber = (if af_phoneNumber f = [] then Some ''Phone Number is required''
                                 else if \<not> phoneRegex_test (af_phoneNumber f)
                                 then Some ''Invalid phone number (10-15 digits)'' else None),
               ae_resume = (if af_resume f = None then Some ''Resume is required'' else None)\<rparr>
      in (e, e = no_apply_errors))"

datatype apply_field = FullName | Email | PhoneNumber

text \<open>\<open>handleChange\<close> (52--59) and \<open>handleFileChange\<close> (61--70): edit a field and clear its error.\<close>

fun apply_change :: "apply_field \<Rightarrow> string \<Rightarrow> apply_modal \<Rightarrow> apply_modal" where
  "apply_change FullName v m = m\<lparr>am_form := (am_form m)\<lparr>af_fullName := v\<rparr>,
     am_errors := (am_errors m)\<lparr>ae_fullName := None\<rparr>\<rparr>"
| "apply_change Email v m = m\<lparr>am_form := (am_form m)\<lparr>af_email := v\<rparr>,
     am_errors := (am_errors m)\<lparr>ae_email := None\<rparr>\<rparr>"
| "apply_change PhoneNumber v m = m\<lparr>am_form := (am_form m)\<lparr>af_phoneNumber := v\<rparr>,
     am_errors := (am_errors m)\<lparr>ae_phoneNumber := None\<rparr>\<rparr>"

definition apply_file_change :: "string option \<Rightarrow> apply_modal \<Rightarrow> apply_modal" where
  "apply_file_change file m =
     (case file of None \<Rightarrow> m
      | Some name \<Rightarrow> m\<lparr>am_form := (am_form m)\<lparr>af_resume := Some name\<rparr>,
                       am_errors := (am_errors m)\<lparr>ae_resume := None\<rparr>\<rparr>)"

datatype modal_screen = FormScreen | SuccessScreen

text \<open>What the modal renders (lines 92--107): nothing while closed.\<close>

definition modal_view :: "bool \<Rightarrow> apply_modal \<Rightarrow> modal_screen option" where
  "modal_view isOpen m = (if \<not> isOpen then None else Some (if am_success m then SuccessScreen else FormScreen))"

datatype modal_render =
    ModalSuccess string
  | ModalForm string "string list" "string option" bool string

text \<open>
  The components in scope in \<open>ApplyModal.jsx\<close>: the icons imported at line 2
  (\<open>XCircle\<close> under the name \<open>XCircleIcon\<close>).  \<open>Loader2\<close> and \<open>Send\<close>,
  used at lines 226 and 230, are not among them.
\<close>

definition applyModal_imports :: "string list" where
  "applyModal_imports = [''X'', ''Upload'', ''CheckCircle'', ''XCircleIcon'']"

text \<open>
  The modal's content (lines 91--243): the success screen names the listing; the form
  has its heading, the messages of the fields that have one (in the order name, email,
  phone, resume), the chosen file's name, whether the inputs are disabled and the
  button's label.  The elements it creates, in the order of the markup: the success
  screen's \<open>CheckCircle\<close> (line 109); on the form screen the close button's \<open>X\<close>
  (103), the file field's \<open>CheckCircle\<close> or \<open>Upload\<close> (201, 206) and the submit
  button's \<open>Loader2\<close> or \<open>Send\<close> (226, 230).  A closed modal renders \<open>null\<close>.
\<close>

definition modal_render :: "bool \<Rightarrow> string \<Rightarrow> apply_modal \<Rightarrow> js_error + modal_render option" where
  "modal_render isOpen internshipTitle m =
     (if \<not> isOpen then Inr None
      else if am_success m
      then map_sum id (\<lambda>_. Some (ModalSuccess internshipTitle)) (jsx_elements applyModal_imports [''CheckCircle''])
      else let e = am_errors m
           in map_sum id
                (\<lambda>_. Some (ModalForm (''Apply for '' @ internshipTitle)
                     (List.map_filter id [ae_fullName e, ae_email e, ae_phoneNumber e, ae_resume e])
                     (af_resume (am_form m)) (am_isSubmitting m)
                     (if am_isSubmitting m then ''Submitting...'' else ''Submit Application'')))
                (jsx_elements applyModal_imports
                   [''X'', if af_resume (am_form m) \<noteq> None then ''CheckCircle'' else ''Upload'',
                    if am_isSubmitting m then ''Loader2'' else ''Send'']))"

primrec modal_screen_of :: "modal_render \<Rightarrow> modal_screen" where
  "modal_screen_of (ModalSuccess _) = SuccessScreen"
| "modal_screen_of (ModalForm _ _ _ _ _) = FormScreen"

subsection \<open>The listing page\<close>

record details_page =
  dp_internship :: "internship option"
  dp_isSaved :: bool
  dp_hasApplied :: bool
  dp_showApplyModal :: bool

text \<open>The two effects of lines 18--30; \<open>applications\<close> is what \<open>useData()\<close> yields for that key.\<close>

definition details_load :: "internship list \<Rightarrow> jsid \<Rightarrow> details_page \<Rightarrow> details_page" where
  "details_load ins routeId dp = dp\<lparr>dp_internship := getInternship ins routeId\<rparr>"

definition details_flags ::
  "user option \<Rightarrow> jsid list \<Rightarrow> application list option \<Rightarrow> details_page \<Rightarrow> details_page" where
  "details_flags user saved apps dp =
     (case (user, dp_internship dp) of
        (Some u, Some i) \<Rightarrow>
          if u_role u = Student
          then dp\<lparr>dp_isSaved := i_id i \<in> set saved,
                  dp_hasApplied := (case apps of None \<Rightarrow> False | Some as \<Rightarrow> has_applied as (i_id i) (u_id u))\<rparr>
          else dp
      | _ \<Rightarrow> dp)"

datatype click_outcome = GoLogin | AlertOnlyStudents | OpenExternal string | OpenModal

definition handleApplyClick :: "user option \<Rightarrow> internship \<Rightarrow> click_outcome" where
  "handleApplyClick user i =
     (case user of
        None \<Rightarrow> GoLogin
      | Some u \<Rightarrow> if u_role u \<noteq> Student then AlertOnlyStudents
                  else case i_redirect_url i of Some url \<Rightarrow> if url \<noteq> [] then OpenExternal url else OpenModal
                                              | None \<Rightarrow> OpenModal)"

datatype action_button = ApplyExternal string | AppliedBadge | ApplyNow | EditPosting | LoginToApply

text \<open>The action area of lines 186--223.\<close>

definition details_action :: "user option \<Rightarrow> details_page \<Rightarrow> internship \<Rightarrow> action_button" where
  "details_action user dp i =
     (case user of
        Some u \<Rightarrow>
          if u_role u = Student then
            (case i_redirect_url i of Some url \<Rightarrow> if url \<noteq> [] then ApplyExternal (or_string (i_type i) ''External Site'')
                                                else if dp_hasApplied dp then AppliedBadge else ApplyNow
                                    | None \<Rightarrow> if dp_hasApplied dp then AppliedBadge else ApplyNow)
          else if u_role u = Recruiter then EditPosting else LoginToApply
      | None \<Rightarrow> LoginToApply)"

datatype details_view = DetailsSpinner | DetailsNotFound | DetailsShown action_button

definition details_view :: "bool \<Rightarrow> user option \<Rightarrow> details_page \<Rightarrow> details_view" where
  "details_view isLoadingExternal user dp =
     (case dp_internship dp of
        None \<Rightarrow> if isLoadingExternal then DetailsSpinner else DetailsNotFound
      | Some i \<Rightarrow> DetailsShown (details_action user dp i))"

text \<open>
  \<open>handleApplyClick\<close> (50--65) on the page: it opens the modal only for an internal
  listing and a student.  The button exists only while a listing is shown, so the
  handlers take that listing.
\<close>

definition details_click :: "user option \<Rightarrow> internship \<Rightarrow> details_page \<Rightarrow> details_page \<times> click_outcome" where
  "details_click user i dp =
     (let r = handleApplyClick user i
      in (if r = OpenModal then dp\<lparr>dp_showApplyModal := True\<rparr> else dp, r))"

text \<open>
  The submit of the form (72--90) followed by \<open>handleModalSubmit\<close> (67--73): an invalid
  form only shows its errors; a valid one applies, marks the page applied, closes the
  modal, sets the success flag, and the closing effect resets the modal.
\<close>

definition details_submit ::
  "day \<Rightarrow> internship \<Rightarrow> details_page \<Rightarrow> apply_modal \<Rightarrow> app_state
   \<Rightarrow> details_page \<times> apply_modal \<times> app_state" where
  "details_submit today i dp m s =
     (let v = apply_validate (am_form m)
      in if \<not> snd v then (dp, m\<lparr>am_errors := fst v\<rparr>, s)
         else let s' = app_step s (Apply today (i_id i));
                  dp' = dp\<lparr>dp_hasApplied := True, dp_showApplyModal := False\<rparr>;
                  m' = m\<lparr>am_success := True, am_isSubmitting := False\<rparr>
              in (dp', modal_effect (dp_showApplyModal dp') m', s'))"

text \<open>\<open>handleSave\<close> of the page (75--88).\<close>

definition details_save :: "user option \<Rightarrow> details_page \<Rightarrow> app_state \<Rightarrow> details_page \<times> app_state \<times> bool" where
  "details_save user dp s =
     (case (user, dp_internship dp) of
        (None, _) \<Rightarrow> (dp, s, True)
      | (Some u, Some i) \<Rightarrow> (dp\<lparr>dp_isSaved := \<not> dp_isSaved dp\<rparr>, app_step s (ToggleSave (i_id i)), False)
      | (Some u, None) \<Rightarrow> (dp, s, False))"

record details_fields =
  df_logo :: string
  df_title :: string
  df_company :: string
  df_domain :: string
  df_type :: string
  df_pay :: string
  df_duration :: string
  df_deadline :: "string option"
  df_description :: string
  df_requirements :: "string list"
  df_about_heading :: string
  df_about_text :: string
  df_location :: string

text \<open>
  The values the page shows for a found listing (lines 102--183): header, badges,
  description, required skills, the company paragraph and the location.  The pay badge
  is \<open>stipend || 'Unpaid'\<close>, whatever \<open>isPaid\<close> says.
\<close>

definition details_fields :: "internship \<Rightarrow> details_fields" where
  "details_fields i =
     \<lparr>df_logo = or_string (i_logo i) (or_string (take 1 (i_company i)) ''U''),
      df_title = or_string (i_title i) ''Untitled Internship'',
      df_company = or_string (i_company i) ''Unknown Company'',
      df_domain = or_string (i_domain i) ''General'',
      df_type = or_string (i_type i) ''N/A'',
      df_pay = or_string (i_stipend i) ''Unpaid'',
      df_duration = or_string (i_duration i) ''Flexible'',
      df_deadline = (if i_deadline i \<noteq> [] then Some (i_deadline i) else None),
      df_description = or_string (i_description i) ''No description provided.'',
      df_requirements = i_requirements i,
      df_about_heading = ''About '' @ or_string (i_company i) ''Unknown Company'',
      df_about_text = or_string (i_company i) ''This company'' @ '' is a great place to gain experience in the ''
                      @ or_string (i_domain i) ''chosen'' @ '' industry.'' @ or_string (i_company i) ''We''
                      @ '' are committed to providing excellent internship opportunities for students to gain real-world experience.'',
      df_location = or_string (i_location i) ''Remote''\<rparr>"

subsection \<open>The page driven by the user\<close>

text \<open>
  Every commit renders the page together with its modal (lines 229--234 pass
  \<open>isOpen={showApplyModal}\<close>).  A render that throws unmounts the whole tree, since
  the application installs no error boundary, and nothing happens afterwards.
  Otherwise the user may click the action button (\<open>handleApplyClick\<close>) or the heart
  (\<open>handleSave\<close>), and, while the modal's form is on the screen, type into it, pick a
  file, or submit it; the close buttons exist while the modal shows anything.  A
  navigation away from the page is not followed: later clicks on the page are an
  over-approximation of what the user can do.
\<close>

datatype details_event =
    ClickApply | ClickSave | TypeApplyField apply_field string | PickResume "string option"
  | CloseApplyModal | SubmitApplyForm

definition form_shown :: "modal_render option \<Rightarrow> bool" where
  "form_shown r \<longleftrightarrow> (case r of Some (ModalForm _ _ _ _ _) \<Rightarrow> True | _ \<Rightarrow> False)"

fun details_event_step ::
  "day \<Rightarrow> user option \<Rightarrow> internship \<Rightarrow> modal_render option \<Rightarrow> details_page \<times> apply_modal \<times> app_state
   \<Rightarrow> details_event \<Rightarrow> details_page \<times> apply_modal \<times> app_state" where
  "details_event_step d user i r (dp, m, s) ClickApply = (fst (details_click user i dp), m, s)"
| "details_event_step d user i r (dp, m, s) ClickSave =
     (case details_save user dp s of (dp', s', _) \<Rightarrow> (dp', m, s'))"
| "details_event_step d user i r (dp, m, s) (TypeApplyField f v) =
     (if form_shown r then (dp, apply_change f v m, s) else (dp, m, s))"
| "details_event_step d user i r (dp, m, s) (PickResume file) =
     (if form_shown r then (dp, apply_file_change file m, s) else (dp, m, s))"
| "details_event_step d user i r (dp, m, s) CloseApplyModal =
     (if r \<noteq> None then (dp\<lparr>dp_showApplyModal := False\<rparr>, modal_effect False m, s) else (dp, m, s))"
| "details_event_step d user i r (dp, m, s) SubmitApplyForm =
     (if form_shown r then details_submit d i dp m s else (dp, m, s))"

fun details_run ::
  "day \<Rightarrow> user option \<Rightarrow> internship \<Rightarrow> details_page \<times> apply_modal \<times> app_state \<Rightarrow> details_event list
   \<Rightarrow> js_error + details_page \<times> apply_modal \<times> app_state" where
  "details_run d user i (dp, m, s) [] =
     map_sum id (\<lambda>_. (dp, m, s)) (modal_render (dp_showApplyModal dp) (or_string (i_title i) ''this internship'') m)"
| "details_run d user i (dp, m, s) (ev # evs) =
     (case modal_render (dp_showApplyModal dp) (or_string (i_title i) ''this internship'') m of
        Inl e \<Rightarrow> Inl e
      | Inr r \<Rightarrow> details_run d user i (details_event_step d user i r (dp, m, s) ev) evs)"

subsection \<open>Lemmas\<close>

text \<open>Where the render goes through, it shows the screen \<open>modal_view\<close> names.\<close>

lemma modal_render_refines_view:
  "modal_render isOpen t m = Inr r \<Longrightarrow> map_option modal_screen_of r = modal_view isOpen m"
  by (auto simp: modal_render_def modal_view_def Let_def map_sum_def split: if_splits sum.splits)

text \<open>The form screen never renders: its submit button's icon is not in scope.\<close>

lemma modal_render_form_throws:
  "\<not> am_success m \<Longrightarrow>
     modal_render True t m = Inl (ReferenceError (if am_isSubmitting m then ''Loader2'' else ''Send''))"
  using jsx_elements_first_missing
          [of "[''X'', if af_resume (am_form m) \<noteq> None then ''CheckCircle'' else ''Upload'']"
              applyModal_imports "if am_isSubmitting m then ''Loader2'' else ''Send''" "[]"]
  by (simp add: modal_render_def applyModal_imports_def Let_def)

lemma modal_render_no_form: "modal_render b t m \<noteq> Inr (Some (ModalForm h msgs r d l))"
  by (cases "am_success m")
     (auto simp: modal_render_def jsx_elements_def applyModal_imports_def Let_def modal_render_form_throws)

lemma apply_validate_ok:
  "snd (apply_validate f) \<longleftrightarrow>
     af_fullName f \<noteq> [] \<and> emailRegex_test (af_email f) \<and> phoneRegex_test (af_phoneNumber f) \<and> af_resume f \<noteq> None"
  by (auto simp: apply_validate_def no_apply_errors_def Let_def dest: emailRegex_test_nonempty phoneRegex_test_nonempty)

lemma apply_records:
  "cur_user (auth s) = Some u \<Longrightarrow> u_role u = Student \<Longrightarrow>
     has_applied (applications (app_step s (Apply d k))) k (u_id u)"
  by (auto simp: applyForInternship_def has_applied_def Let_def)

lemma apply_again_no_change:
  "cur_user (auth s) = Some u \<Longrightarrow> has_applied (applications s) k (u_id u) \<Longrightarrow>
     applications (app_step s (Apply d k)) = applications s"
  by (simp add: applyForInternship_def Let_def)

lemma modal_render_closed: "modal_render False t m = Inr None"
  by (simp add: modal_render_def)

text \<open>While the modal is closed no event touches it or the applications.\<close>

lemma details_event_step_closed:
  "details_event_step d user i None (dp, m, s) ev = (dp', m', s') \<Longrightarrow> m' = m \<and> applications s' = applications s"
  by (cases ev) (auto simp: form_shown_def details_save_def split: option.splits prod.splits if_splits)

subsection \<open>Examples\<close>

definition demo_apply_form :: apply_form where
  "demo_apply_form = \<lparr>af_fullName = ''Sam'', af_email = ''s@uni.edu'', af_phoneNumber = ''0123456789'',
                      af_resume = Some ''cv.pdf''\<rparr>"

subsection \<open>Properties\<close>

text \<open>
  C12: a student's \<open>Apply Now\<close> on an internal listing opens the application modal,
  and the page's next render throws a \<open>ReferenceError\<close>: the form's submit button
  creates a \<open>Send\<close> element (a \<open>Loader2\<close> one while submitting), and
  \<open>ApplyModal.jsx\<close> imports neither.
\<close>

theorem apply_now_crashes:
  assumes "u_role u = Student" "i_redirect_url i \<in> {None, Some []}" "\<not> am_success m" "\<not> am_isSubmitting m"
  shows "details_click (Some u) i dp = (dp\<lparr>dp_showApplyModal := True\<rparr>, OpenModal)
         \<and> modal_render (dp_showApplyModal (fst (details_click (Some u) i dp))) (or_string (i_title i) ''this internship'') m
             = Inl (ReferenceError ''Send'')"
proof -
  have "handleApplyClick (Some u) i = OpenModal"
    using assms(1,2) by (auto simp: handleApplyClick_def)
  then show ?thesis using modal_render_form_throws [of m "or_string (i_title i) ''this internship''"] assms(3,4)
    by (simp add: details_click_def)
qed

theorem apply_now_crashes_witness:
  "details_click (Some (demo_student [])) (demo_listing (NumId 1) ''Local'' [] 1)
      \<lparr>dp_internship = Some (demo_listing (NumId 1) ''Local'' [] 1), dp_isSaved = False, dp_hasApplied = False,
         dp_showApplyModal = False\<rparr>
     = (\<lparr>dp_internship = Some (demo_listing (NumId 1) ''Local'' [] 1), dp_isSaved = False, dp_hasApplied = False,
          dp_showApplyModal = True\<rparr>, OpenModal)
   \<and> modal_render True ''Local'' modal_reset = Inl (ReferenceError ''Send'')"
  using apply_now_crashes [of "demo_student []" "demo_listing (NumId 1) ''Local'' [] 1" modal_reset
          "\<lparr>dp_internship = Some (demo_listing (NumId 1) ''Local'' [] 1), dp_isSaved = False, dp_hasApplied = False,
             dp_showApplyModal = False\<rparr>"]
  by (simp add: demo_student_def demo_listing_def modal_reset_def details_click_def handleApplyClick_def or_string_def)

text \<open>
  C15: no student can apply from the listing page.  From the modal's initial state,
  whatever the user does on the page, either the page keeps rendering and the
  applications are those it started with, or a render has thrown the
  \<open>ReferenceError\<close> for \<open>Send\<close> and the page is gone: the form whose submit calls
  \<open>applyForInternship\<close> is never on the screen.
\<close>

theorem details_page_never_applies:
  assumes "\<not> am_success m" "\<not> am_isSubmitting m"
  shows "(case details_run d user i (dp, m, s) evs of
            Inl e \<Rightarrow> e = ReferenceError ''Send''
          | Inr (dp', m', s') \<Rightarrow> applications s' = applications s)"
  using assms
proof (induction evs arbitrary: dp m s)
  case Nil
  then show ?case
    by (cases "dp_showApplyModal dp") (simp_all add: modal_render_form_throws modal_render_closed)
next
  case (Cons ev evs)
  show ?case
  proof (cases "dp_showApplyModal dp")
    case True
    with Cons.prems show ?thesis by (simp add: modal_render_form_throws)
  next
    case False
    obtain dp' m' s' where st: "details_event_step d user i None (dp, m, s) ev = (dp', m', s')"
      by (cases "details_event_step d user i None (dp, m, s) ev") blast
    then have "m' = m" "applications s' = applications s" by (auto dest: details_event_step_closed)
    with Cons.IH [where dp = dp' and m = m' and s = s'] Cons.prems False st show ?thesis
      by (simp add: modal_render_closed split: sum.splits prod.splits)
  qed
qed

theorem details_page_never_applies_witness:
  "details_run 3 (Some (demo_student [])) (demo_listing (NumId 1) ''Local'' [] 1)
      (\<lparr>dp_internship = Some (demo_listing (NumId 1) ''Local'' [] 1), dp_isSaved = False, dp_hasApplied = False,
          dp_showApplyModal = False\<rparr>, modal_reset, demo_state)
      [ClickApply, TypeApplyField FullName ''Sam'', SubmitApplyForm]
   = Inl (ReferenceError ''Send'')"
proof -
  let ?dp = "\<lparr>dp_internship = Some (demo_listing (NumId 1) ''Local'' [] 1), dp_isSaved = False,
              dp_hasApplied = False, dp_showApplyModal = False\<rparr>"
  have "\<not> am_success modal_reset" "\<not> am_isSubmitting modal_reset" by (simp_all add: modal_reset_def)
  from details_page_never_applies [OF this, where d = 3 and user = "Some (demo_student [])"
         and i = "demo_listing (NumId 1) ''Local'' [] 1" and dp = ?dp and s = demo_state
         and evs = "[ClickApply, TypeApplyField FullName ''Sam'', SubmitApplyForm]"]
  show ?thesis
    by (simp add: modal_render_closed modal_render_form_throws details_click_def handleApplyClick_def
          demo_student_def demo_listing_def modal_reset_def split: sum.splits)
qed

text \<open>
  C29: the page reads \<open>applications\<close> from \<open>useData()\<close>, which does not publish it, so
  after a reload a student who has applied sees \<open>Apply Now\<close> again instead of the
  applied badge; submitting again leaves the applications as they are, because
  \<open>applyForInternship\<close> refuses the duplicate.
\<close>

theorem applied_badge_lost:
  assumes "cur_user (auth s) = Some u" "u_role u = Student" "has_applied (applications s) (i_id i) (u_id u)"
    and "i_redirect_url i = None"
  shows "details_action (Some u)
           (details_flags (Some u) saved (ctx_read data_value_keys ''applications'' (applications s))
              \<lparr>dp_internship = Some i, dp_isSaved = False, dp_hasApplied = False, dp_showApplyModal = False\<rparr>) i
         = ApplyNow
         \<and> applications (app_step s (Apply d (i_id i))) = applications s"
  using assms apply_again_no_change [OF assms(1,3)]
  by (simp add: details_action_def details_flags_def ctx_read_missing)

theorem applied_badge_lost_witness:
  "details_action (Some (demo_student []))
     (details_flags (Some (demo_student [])) []
        (ctx_read data_value_keys ''applications''
           (applications (app_step demo_state (Apply 3 (NumId 1)))))
        \<lparr>dp_internship = Some (demo_listing (NumId 1) ''Local'' [] 1), dp_isSaved = False,
           dp_hasApplied = False, dp_showApplyModal = False\<rparr>) (demo_listing (NumId 1) ''Local'' [] 1)
   = ApplyNow"
proof -
  let ?s = "app_step demo_state (Apply 3 (NumId 1))"
  have c: "cur_user (auth ?s) = Some (demo_student [])" by (simp add: demo_state_def demo_auth_def Let_def)
  have st: "u_role (demo_student []) = Student" by (simp add: demo_student_def)
  have "has_applied (applications ?s) (i_id (demo_listing (NumId 1) ''Local'' [] 1)) (u_id (demo_student []))"
    using apply_records [OF _ st, of demo_state] by (simp add: demo_state_def demo_auth_def demo_listing_def)
  moreover have "i_redirect_url (demo_listing (NumId 1) ''Local'' [] 1) = None" by (simp add: demo_listing_def)
  ultimately show ?thesis using applied_badge_lost [OF c st] by blast
qed

end
