(* ===== verification/Dashboards.thy ===== *)
theory Dashboards
  imports App Interface
begin

text \<open>
  The two dashboards and the widgets on them: \<open>getStudentProfile\<close> and
  \<open>getRecruiterProfile\<close> of \<open>src/src/context/DataContext.jsx\<close> (lines 219--256),
  \<open>src/src/pages/StudentDashboard.jsx\<close>, \<open>src/src/pages/RecruiterDashboard.jsx\<close>,
  \<open>src/src/components/ProfileImpactMeter.jsx\<close>, \<open>src/src/components/StatusBadge.jsx\<close>,
  \<open>src/src/components/DynamicStats.jsx\<close> and
  \<open>src/src/components/RecruiterActivityStream.jsx\<close>.  Values a component reads from a
  provider come through \<open>Interface.ctx_read\<close>; a JavaScript \<open>TypeError\<close> is \<open>Inl\<close>; a
  random choice (\<open>Math.random()\<close>) is a parameter.
\<close>

subsection \<open>Profile views of the data provider\<close>

record student_profile =
  spr_id :: int
  spr_name :: string
  spr_email :: string
  spr_education :: "education list"
  spr_skills :: "string list"
  spr_resume :: string
  spr_bio :: string
  spr_projects :: "project list"
  spr_applications :: "(application \<times> internship option) list"

definition opt_list :: "'a list option \<Rightarrow> 'a list" where
  "opt_list xs = (case xs of None \<Rightarrow> [] | Some l \<Rightarrow> l)"

definition opt_str :: "string option \<Rightarrow> string" where
  "opt_str s = (case s of None \<Rightarrow> [] | Some t \<Rightarrow> t)"

definition getStudentProfile ::
  "user option \<Rightarrow> application list \<Rightarrow> internship list \<Rightarrow> student_profile option" where
  "getStudentProfile user apps ins =
     (case user of
        Some u \<Rightarrow>
          if u_role u \<noteq> Student then None
          else Some \<lparr>spr_id = u_id u, spr_name = u_name u, spr_email = u_email u,
                     spr_education = opt_list (u_education u), spr_skills = opt_list (u_skills u),
                     spr_resume = opt_str (u_resume u), spr_bio = opt_str (u_bio u),
                     spr_projects = opt_list (u_projects u),
                     spr_applications = getStudentApplications user apps ins\<rparr>
      | None \<Rightarrow> None)"

record recruiter_profile =
  rpr_id :: int
  rpr_name :: string
  rpr_email :: string
  rpr_companyId :: "jsid option"
  rpr_companyName :: string
  rpr_postedInternships :: "jsid list"

definition getRecruiterProfile ::
  "user option \<Rightarrow> internship list \<Rightarrow> company list \<Rightarrow> recruiter_profile option" where
  "getRecruiterProfile user ins cs =
     (case user of
        Some u \<Rightarrow>
          if u_role u \<noteq> Recruiter then None
          else Some \<lparr>rpr_id = u_id u, rpr_name = u_name u, rpr_email = u_email u,
                     rpr_companyId = u_companyId u,
                     rpr_companyName = (case find (\<lambda>c. Some (c_id c) = u_companyId u) cs of
                                          Some c \<Rightarrow> or_string (c_name c) ''Unknown Company''
                                        | None \<Rightarrow> ''Unknown Company''),
                     rpr_postedInternships = map i_id (filter (\<lambda>i. i_companyId i = u_companyId u) ins)\<rparr>
      | None \<Rightarrow> None)"

subsection \<open>Student dashboard\<close>

text \<open>
  The dashboard's own recommendations (lines 30--45): listings neither applied to nor
  saved that share a skill with the profile, compared exactly (\<open>Set.has\<close>), the first
  three.  \<open>savedInternships\<close> is \<open>None\<close> when undefined.
\<close>

definition sd_recommended ::
  "student_profile option \<Rightarrow> internship list \<Rightarrow> (application \<times> internship option) list
   \<Rightarrow> jsid list option \<Rightarrow> internship list" where
  "sd_recommended profile ins apps saved =
     (case (profile, saved) of
        (Some p, Some sv) \<Rightarrow>
          take 3 (filter (\<lambda>i. i_id i \<notin> set (map (a_internshipId \<circ> fst) apps) \<and> i_id i \<notin> set sv
                             \<and> list_ex (\<lambda>s. s \<in> set (i_requirements i)) (spr_skills p)) ins)
      | _ \<Rightarrow> [])"

definition sd_truly_empty ::
  "(application \<times> internship option) list \<Rightarrow> jsid list option \<Rightarrow> internship list \<Rightarrow> bool" where
  "sd_truly_empty apps saved recs \<longleftrightarrow>
     apps = [] \<and> (case saved of None \<Rightarrow> True | Some sv \<Rightarrow> sv = []) \<and> recs = []"

record sd_stats =
  st_applications :: nat
  st_shortlisted :: nat
  st_saved :: nat
  st_unread :: nat

text \<open>The stat cards (lines 150--153) and the unread count (line 105).\<close>

definition sd_stat_cards :: "(application \<times> internship option) list \<Rightarrow> jsid list option \<Rightarrow> bool list \<Rightarrow> sd_stats" where
  "sd_stat_cards apps saved readFlags =
     \<lparr>st_applications = length apps,
      st_shortlisted = length (filter (\<lambda>a. a_status (fst a) = ''Shortlisted'') apps),
      st_saved = (case saved of None \<Rightarrow> 0 | Some sv \<Rightarrow> length sv),
      st_unread = length (filter Not readFlags)\<rparr>"

datatype pill = PillGreen | PillRed | PillYellow

text \<open>\<open>getStatusIcon\<close> (94--103) and \<open>getStatusPill\<close> (272--279) agree on these three cases.\<close>

definition student_status_pill :: "string \<Rightarrow> pill" where
  "student_status_pill st =
     (if st = ''Shortlisted'' then PillGreen else if st = ''Rejected'' then PillRed else PillYellow)"

text \<open>\<open>`${internship.id}`\<close>: the text of an id.\<close>

fun jsid_text :: "jsid \<Rightarrow> string" where
  "jsid_text (NumId n) = js_String_int n"
| "jsid_text (StrId s) = s"

text \<open>\<open>/internship/${internship.id}\<close> of the card, the home page, the dashboards and the activity stream.\<close>

definition detail_link :: "jsid \<Rightarrow> string" where
  "detail_link k = ''/internship/'' @ jsid_text k"

text \<open>
  \<open>ApplicationItem\<close> (lines 269--297): nothing for an application whose listing is not
  found (line 270), otherwise a link to the listing with the status pill.
\<close>

definition application_item :: "application \<times> internship option \<Rightarrow> (string \<times> pill) option" where
  "application_item a =
     (case snd a of None \<Rightarrow> None
      | Some i \<Rightarrow> Some (detail_link (i_id i), student_status_pill (a_status (fst a))))"

datatype sd_view = SdSkeleton | SdNoProfile | SdShown

definition sd_view :: "bool option \<Rightarrow> bool \<Rightarrow> bool \<Rightarrow> student_profile option \<Rightarrow> sd_view" where
  "sd_view authLoading loading isLoadingExternal profile =
     (if authLoading = Some True \<or> loading \<or> isLoadingExternal then SdSkeleton
      else if profile = None then SdNoProfile else SdShown)"

subsection \<open>Recruiter dashboard\<close>

text \<open>
  The effect of lines 16--25: the company is looked up once companies and listings are
  loaded; \<open>loading\<close> ends then or when there is no user.
\<close>

definition rd_effect :: "user option \<Rightarrow> company list \<Rightarrow> internship list \<Rightarrow> company option \<times> bool \<Rightarrow> company option \<times> bool" where
  "rd_effect user cs ins st =
     (let st1 = (case user of
                   Some u \<Rightarrow> if cs \<noteq> [] \<and> ins \<noteq> [] then (company_of cs u, False) else st
                 | None \<Rightarrow> st)
      in if user = None then (fst st1, False) else st1)"

datatype rd_view = RdSkeleton | RdLoginPrompt | RdShown

definition rd_gate :: "bool option \<Rightarrow> bool \<Rightarrow> user option \<Rightarrow> company option \<Rightarrow> rd_view" where
  "rd_gate authLoading loading user company =
     (if authLoading = Some True \<or> loading then RdSkeleton
      else case (user, company) of
             (Some u, Some c) \<Rightarrow> if u_role u = Recruiter then RdShown else RdLoginPrompt
           | _ \<Rightarrow> RdLoginPrompt)"

text \<open>
  Lines 61--64 and 81--83 with the \<open>applications\<close> read from \<open>useData()\<close>:
  \<open>applications.filter\<close> on \<open>undefined\<close> throws.
\<close>

definition rd_applicants ::
  "user \<Rightarrow> internship list \<Rightarrow> application list option \<Rightarrow> internship option
   \<Rightarrow> js_error + (internship list \<times> application list \<times> application list)" where
  "rd_applicants u ins apps selected =
     (let mine = filter (\<lambda>i. i_companyId i = u_companyId u) ins
      in case apps of
           None \<Rightarrow> Inl TypeError
         | Some as \<Rightarrow>
             let forMine = filter (\<lambda>a. list_ex (\<lambda>i. i_id i = a_internshipId a) mine) as;
                 shown = (case selected of None \<Rightarrow> forMine
                          | Some s \<Rightarrow> filter (\<lambda>a. a_internshipId a = i_id s) forMine)
             in Inr (mine, forMine, shown))"

datatype badge = BadgeShortlisted | BadgeRejected | BadgePending

definition rd_status_badge :: "string \<Rightarrow> badge" where
  "rd_status_badge st =
     (if st = ''shortlisted'' then BadgeShortlisted else if st = ''rejected'' then BadgeRejected else BadgePending)"

text \<open>The two buttons of an applicant (lines 241, 248) call \<open>handleStatusChange\<close> (77--79).\<close>

definition rd_status_change :: "user option \<Rightarrow> application \<Rightarrow> bool \<Rightarrow> application list \<Rightarrow> application list" where
  "rd_status_change user applicant shortlist apps =
     updateApplicationStatus user (a_id applicant) (if shortlist then ''shortlisted'' else ''rejected'') apps"

subsection \<open>Widgets\<close>

text \<open>\<open>StatusBadge\<close>: the style of a status, grey when unknown.\<close>

definition status_style :: "string \<Rightarrow> string" where
  "status_style st =
     (case map_of [(''Applied'', ''bg-blue-100 text-blue-700''), (''Shortlisted'', ''bg-green-100 text-green-700''),
                   (''Rejected'', ''bg-red-100 text-red-700''), (''pending'', ''bg-yellow-100 text-yellow-700''),
                   (''shortlisted'', ''bg-green-100 text-green-700''), (''rejected'', ''bg-red-100 text-red-700''),
                   (''hired'', ''bg-purple-100 text-purple-700'')] st of
        Some c \<Rightarrow> c | None \<Rightarrow> ''bg-gray-100 text-gray-700'')"

text \<open>\<open>ProfileImpactMeter\<close> (lines 7--12): it renders only for a student read from \<open>useData()\<close>.\<close>

definition impact_meter_view ::
  "user option \<Rightarrow> nat \<Rightarrow> check_item list \<Rightarrow> (nat \<times> check_item list) option" where
  "impact_meter_view user pct checklist =
     (case user of Some u \<Rightarrow> if u_role u = Student then Some (pct, checklist) else None | None \<Rightarrow> None)"

text \<open>
  \<open>DynamicStats\<close> (lines 12--47) reads \<open>postedDate\<close>, \<open>applicationDeadline\<close> and
  \<open>applicationDate\<close>, keys no listing or application has; \<open>new Date(undefined)\<close> is an
  invalid date, which compares false with every date.  \<open>field_date\<close> is the date under a
  key of a listing (the record's only date key is \<open>posted\<close>).
\<close>

definition field_date :: "internship \<Rightarrow> string \<Rightarrow> day option" where
  "field_date i k = (if k = ''posted'' then Some (i_posted i) else None)"

definition app_field_date :: "application \<Rightarrow> string \<Rightarrow> day option" where
  "app_field_date a k = (if k = ''appliedDate'' then Some (a_appliedDate a) else None)"

definition active_this_week :: "day \<Rightarrow> internship list \<Rightarrow> nat" where
  "active_this_week today ins =
     length (filter (\<lambda>i. case (field_date i ''postedDate'', field_date i ''applicationDeadline'') of
                          (Some p, Some d) \<Rightarrow> today - 7 \<le> p \<and> today < d
                        | _ \<Rightarrow> False) ins)"

definition applications_today :: "day \<Rightarrow> application list \<Rightarrow> nat" where
  "applications_today today apps =
     length (filter (\<lambda>a. app_field_date a ''applicationDate'' = Some today) apps)"

text \<open>\<open>Math.floor(Math.random() * 10) + 5\<close> is \<open>r + 5\<close> for the random \<open>r < 10\<close>.\<close>

definition dynamic_stats :: "day \<Rightarrow> nat \<Rightarrow> internship list \<Rightarrow> company list \<Rightarrow> application list \<Rightarrow> nat \<times> nat \<times> nat" where
  "dynamic_stats today r ins cs apps =
     (active_this_week today ins,
      (if length cs div 20 > 0 then length cs div 20 else 3),
      (let n = applications_today today apps in if n > 0 then n else r mod 10 + 5))"

text \<open>
  \<open>RecruiterActivityStream\<close>: \<open>generateActivity\<close> (13--71) is a random choice among up to
  three kinds of activity; it is the parameter \<open>gen\<close>, the result of the \<open>n\<close>-th call.
  The effect (73--112) collects activities with distinct ids until it has \<open>limit\<close> of
  them or has tried \<open>limit * 5\<close> times.
\<close>

record activity =
  act_id :: string
  act_message :: string
  act_link :: string
  act_time :: int

function collect_activities ::
  "(nat \<Rightarrow> activity option) \<Rightarrow> nat \<Rightarrow> nat \<Rightarrow> nat \<Rightarrow> activity list \<Rightarrow> activity list" where
  "collect_activities gen limit maxAttempts attempts acc =
     (if length acc < limit \<and> attempts < maxAttempts then
        collect_activities gen limit maxAttempts (Suc attempts)
          (case gen attempts of
             Some a \<Rightarrow> if act_id a \<in> set (map act_id acc) then acc else acc @ [a]
           | None \<Rightarrow> acc)
      else acc)"
  by pat_completeness auto

termination
  by (relation "measure (\<lambda>(_, _, m, a, _). m - a)") auto

definition initial_activities :: "(nat \<Rightarrow> activity option) \<Rightarrow> nat \<Rightarrow> activity list" where
  "initial_activities gen limit =
     sort_key (\<lambda>a. - act_time a) (collect_activities gen limit (limit * 5) 0 [])"

datatype stream_view = StreamHidden | StreamSpinner | StreamEmpty | StreamShown "activity list"

definition stream_view :: "user option \<Rightarrow> bool \<Rightarrow> activity list \<Rightarrow> stream_view" where
  "stream_view user isLoading acts =
     (case user of
        Some u \<Rightarrow> if u_role u \<noteq> Recruiter then StreamHidden
                  else if isLoading then StreamSpinner else if acts = [] then StreamEmpty else StreamShown acts
      | None \<Rightarrow> StreamHidden)"

text \<open>
  The interval of lines 98--110: a new activity whose id is not shown yet is put in
  front, the list sorted by time, newest first, and cut to \<open>limit\<close>.
\<close>

definition stream_tick :: "nat \<Rightarrow> activity option \<Rightarrow> activity list \<Rightarrow> activity list" where
  "stream_tick limit new prev =
     (case new of
        Some a \<Rightarrow> if list_ex (\<lambda>b. act_id b = act_id a) prev then prev
                  else take limit (sort_key (\<lambda>b. - act_time b) (a # prev))
      | None \<Rightarrow> prev)"

subsection \<open>Lemmas\<close>

declare collect_activities.simps [simp del]

lemma collect_activities_step:
  "length acc < limit \<Longrightarrow> a < m \<Longrightarrow>
     collect_activities gen limit m a acc
     = collect_activities gen limit m (Suc a)
         (case gen a of Some x \<Rightarrow> if act_id x \<in> set (map act_id acc) then acc else acc @ [x] | None \<Rightarrow> acc)"
  by (subst collect_activities.simps) simp

lemma collect_activities_stop:
  "\<not> (length acc < limit \<and> a < m) \<Longrightarrow> collect_activities gen limit m a acc = acc"
  by (subst collect_activities.simps) (simp only: if_False)

lemma collect_activities_inv:
  "distinct (map act_id acc) \<Longrightarrow> length acc \<le> limit \<Longrightarrow>
     distinct (map act_id (collect_activities gen limit m a acc))
     \<and> length (collect_activities gen limit m a acc) \<le> limit"
proof (induction gen limit m a acc rule: collect_activities.induct)
  case (1 gen limit m a acc)
  show ?case
  proof (cases "length acc < limit \<and> a < m")
    case True
    let ?acc' = "case gen a of Some x \<Rightarrow> if act_id x \<in> set (map act_id acc) then acc else acc @ [x] | None \<Rightarrow> acc"
    have "distinct (map act_id ?acc') \<and> length ?acc' \<le> limit"
      using 1(2,3) True by (auto split: option.split)
    then show ?thesis using 1(1) [OF True] True by (simp add: collect_activities_step)
  next
    case False
    then show ?thesis using 1(2,3) by (simp add: collect_activities_stop)
  qed
qed

lemma distinct_map_sort_key: "distinct (map f (sort_key g xs)) \<longleftrightarrow> distinct (map f xs)"
  by (rule mset_eq_imp_distinct_iff) (simp add: mset_map)

lemma stream_tick_inv:
  assumes "distinct (map act_id prev)" "length prev \<le> limit"
  shows "distinct (map act_id (stream_tick limit new prev)) \<and> length (stream_tick limit new prev) \<le> limit"
proof (cases new)
  case (Some a)
  show ?thesis
  proof (cases "list_ex (\<lambda>b. act_id b = act_id a) prev")
    case False
    let ?ys = "sort_key (\<lambda>b. - act_time b) (a # prev)"
    have "distinct (map act_id (a # prev))" using assms(1) False by (auto simp: list_ex_iff)
    then have "distinct (map act_id ?ys)" by (simp only: distinct_map_sort_key)
    then have "distinct (map act_id (take limit ?ys))" by (metis distinct_take take_map)
    with Some False show ?thesis by (simp add: stream_tick_def)
  qed (simp add: Some stream_tick_def assms)
qed (simp add: stream_tick_def assms)

subsection \<open>Examples\<close>

definition demo_recruiter_company :: company where
  "demo_recruiter_company = \<lparr>c_id = NumId 1, c_name = ''Acme'', c_logo = ''A''\<rparr>"

definition demo_activity_gen :: "nat \<Rightarrow> activity option" where
  "demo_activity_gen n = Some \<lparr>act_id = ''app-'' @ js_String_int (int (n mod 3)), act_message = [],
     act_link = [], act_time = int n\<rparr>"

subsection \<open>Properties\<close>

text \<open>
  C10: the recruiter dashboard throws as soon as it is shown: once a recruiter's
  company is found the page passes its gate, and then filters \<open>applications\<close>,
  which \<open>useData()\<close> does not publish (the \<open>loading\<close> it reads from \<open>useAuth()\<close>
  is missing too, so the gate never shows the skeleton for it).
\<close>

theorem recruiter_dashboard_crash:
  "u_role u = Recruiter \<Longrightarrow>
     rd_gate (ctx_read auth_value_keys ''loading'' b) False (Some u) (Some c) = RdShown
     \<and> rd_applicants u ins (ctx_read data_value_keys ''applications'' apps) sel = Inl TypeError"
  by (simp add: rd_gate_def rd_applicants_def ctx_read_missing)

theorem recruiter_dashboard_crash_witness:
  "rd_gate (ctx_read auth_value_keys ''loading'' True) False (Some demo_recruiter) (Some demo_recruiter_company) = RdShown
   \<and> rd_applicants demo_recruiter [] (ctx_read data_value_keys ''applications'' []) None = Inl TypeError"
  by (rule recruiter_dashboard_crash) (simp add: demo_recruiter_def)

text \<open>
  C11: the activity stream's collection loop ends: it calls the generator only for the
  attempts below \<open>maxAttempts\<close> (two generators that agree there give the same
  result), and it returns at most \<open>limit\<close> activities with distinct ids.  This is a
  property of the effect as written: in the application the effect returns before the
  loop, because the \<open>user\<close> it reads from \<open>useData()\<close> is undefined (C30).
\<close>

theorem collect_activities_bounded:
  assumes "\<forall>n. a \<le> n \<and> n < m \<longrightarrow> gen n = gen' n"
  shows "collect_activities gen limit m a [] = collect_activities gen' limit m a []
         \<and> distinct (map act_id (collect_activities gen limit m a []))
         \<and> length (collect_activities gen limit m a []) \<le> limit"
proof -
  have "collect_activities gen limit m a acc = collect_activities gen' limit m a acc"
    if "\<forall>n. a \<le> n \<and> n < m \<longrightarrow> gen n = gen' n" for acc
    using that
  proof (induction gen limit m a acc rule: collect_activities.induct)
    case (1 gen limit m a acc)
    show ?case
    proof (cases "length acc < limit \<and> a < m")
      case True
      then have "gen a = gen' a" using 1(2) by simp
      moreover have "\<forall>n. Suc a \<le> n \<and> n < m \<longrightarrow> gen n = gen' n" using 1(2) by simp
      ultimately show ?thesis using 1(1) [OF True] True by (simp add: collect_activities_step)
    next
      case False
      then show ?thesis by (simp add: collect_activities_stop)
    qed
  qed
  with assms collect_activities_inv [of "[]" limit gen m a] show ?thesis by simp
qed

theorem collect_activities_bounded_witness:
  "collect_activities demo_activity_gen 2 10 0 []
     = collect_activities (\<lambda>n. if n < 10 then demo_activity_gen n else None) 2 10 0 []
   \<and> length (collect_activities demo_activity_gen 2 10 0 []) \<le> 2"
proof -
  have "\<forall>n. 0 \<le> n \<and> n < (10::nat) \<longrightarrow> demo_activity_gen n = (\<lambda>n. if n < 10 then demo_activity_gen n else None) n"
    by simp
  note r = collect_activities_bounded [OF this, of 2]
  show ?thesis using r [THEN conjunct1] r [THEN conjunct2, THEN conjunct2] by (rule conjI)
qed

text \<open>
  C30: the widgets that read the session from \<open>useData()\<close> never show it, and the
  landing page's counters ignore the data: the impact meter and the activity stream
  render nothing (the provider publishes no \<open>user\<close>), no listing counts as active this
  week and no application as submitted today (the keys read do not exist), so the
  third counter is the random fallback between 5 and 14.
\<close>

theorem widgets_ignore_data:
  "impact_meter_view (ctx_read data_value_keys ''user'' u) pct cl = None
   \<and> stream_view (ctx_read data_value_keys ''user'' u) loading acts = StreamHidden
   \<and> dynamic_stats today r ins cs apps
       = (0, (if length cs div 20 > 0 then length cs div 20 else 3), r mod 10 + 5)"
  by (simp add: impact_meter_view_def stream_view_def ctx_read_missing dynamic_stats_def active_this_week_def
        applications_today_def field_date_def app_field_date_def)

text \<open>
  The dashboard's own recommendations compare skills exactly, while the match
  percentage lower-cases both sides: a student with \<open>react\<close> is not recommended a
  listing requiring \<open>React\<close> that matches at 100%.
\<close>

theorem student_recommendations_case_sensitive:
  "sd_recommended (getStudentProfile (Some (demo_student [''react''])) [] [demo_listing (NumId 1) ''X'' [''React''] 0])
      [demo_listing (NumId 1) ''X'' [''React''] 0] [] (Some []) = []
   \<and> matchPercentage (Some (demo_student [''react''])) (demo_listing (NumId 1) ''X'' [''React''] 0) = 100"
proof -
  have "sd_recommended (getStudentProfile (Some (demo_student [''react''])) [] [demo_listing (NumId 1) ''X'' [''React''] 0])
      [demo_listing (NumId 1) ''X'' [''React''] 0] [] (Some []) = []"
    by (simp add: sd_recommended_def getStudentProfile_def demo_student_def demo_listing_def opt_list_def)
  moreover have "matchPercentage (Some (demo_student [''react''])) (demo_listing (NumId 1) ''X'' [''React''] 0) = 100"
    by code_simp
  ultimately show ?thesis by blast
qed

text \<open>
  A status set on the recruiter dashboard (\<open>'shortlisted'\<close>, lower case) is not the
  \<open>'Shortlisted'\<close> the student dashboard counts and colours: the student sees a
  pending pill and no shortlisted application.
\<close>

theorem status_case_mismatch:
  "rd_status_badge ''shortlisted'' = BadgeShortlisted \<and> student_status_pill ''shortlisted'' = PillYellow
   \<and> st_shortlisted (sd_stat_cards [((demo_application (Some 1) (NumId 1) 1)\<lparr>a_status := ''shortlisted''\<rparr>, None)] None []) = 0"
  by (simp add: rd_status_badge_def student_status_pill_def sd_stat_cards_def demo_application_def)

end
