(* ===== verification/DashboardViews.thy ===== *)
theory DashboardViews
  imports Dashboards Complex_Main
begin

text \<open>
  What the dashboards and the listing card render once their gates let them through:
  \<open>src/src/components/InternshipCard.jsx\<close> (saved-state effect, \<open>handleSave\<close>, the
  fields with their fallbacks, the detail link), the body of
  \<open>src/src/pages/RecruiterDashboard.jsx\<close> (stat cards, the rows of the recruiter's
  listings, the applicant cards) and of \<open>src/src/pages/StudentDashboard.jsx\<close> (banners,
  stat cards, the first five application items, recommendations).  The recruiter's body
  throws (\<open>Inl\<close>) where \<open>Dashboards.rd_applicants\<close> does.  The impact meter's
  ring (\<open>meter_render\<close>) is computed over the rationals.
\<close>

subsection \<open>The listing card\<close>

text \<open>The effect of lines 13--19: the heart is filled for a student who saved the listing.\<close>

definition card_isSaved :: "user option \<Rightarrow> jsid list option \<Rightarrow> jsid \<Rightarrow> bool" where
  "card_isSaved user saved k =
     (case (user, saved) of (Some u, Some sv) \<Rightarrow> u_role u = Student \<and> k \<in> set sv | _ \<Rightarrow> False)"

text \<open>
  \<open>handleSave\<close> (lines 21--31): to the login page without a session, otherwise toggle
  the provider's saved list and flip the local flag.  Any signed-in role may toggle.
\<close>

definition card_handleSave ::
  "user option \<Rightarrow> jsid \<Rightarrow> jsid list \<Rightarrow> bool \<Rightarrow> jsid list \<times> bool \<times> string option" where
  "card_handleSave user k saved isSaved =
     (case user of
        None \<Rightarrow> (saved, isSaved, Some ''/login'')
      | Some _ \<Rightarrow> (toggleSaveInternship k saved, \<not> isSaved, None))"

record card_view =
  cv_featured :: bool
  cv_logo :: string
  cv_title :: string
  cv_badge :: "nat option"
  cv_company :: string
  cv_description :: string
  cv_tags :: "string list"
  cv_more :: "nat option"
  cv_where :: string
  cv_pay :: string
  cv_duration :: string
  cv_posted :: day
  cv_applicants :: nat
  cv_link :: string

text \<open>
  The card's fields (lines 33--118) for the props \<open>internship\<close> and \<open>featured\<close>;
  \<open>matchPercentage\<close> is a number only on a recommendation, and a badge shows for a
  positive one.  \<open>posted\<close> is always set in this model, so the date is always shown.
\<close>

definition card_view :: "internship \<Rightarrow> nat option \<Rightarrow> bool \<Rightarrow> card_view" where
  "card_view i mp featured =
     \<lparr>cv_featured = featured,
      cv_logo = or_string (i_logo i) (or_string (take 1 (i_company i)) ''U''),
      cv_title = or_string (i_title i) ''Untitled Internship'',
      cv_badge = (case mp of Some p \<Rightarrow> if 0 < p then Some p else None | None \<Rightarrow> None),
      cv_company = or_string (i_company i) ''Unknown Company'',
      cv_description = or_string (i_description i) ''No description provided.'',
      cv_tags = take 3 (i_requirements i),
      cv_more = (if 3 < length (i_requirements i) then Some (length (i_requirements i) - 3) else None),
      cv_where = or_string (i_location i) (or_string (i_type i) ''N/A''),
      cv_pay = (if i_isPaid i then or_string (i_stipend i) ''Paid'' else ''Unpaid''),
      cv_duration = or_string (i_duration i) ''Flexible'',
      cv_posted = i_posted i,
      cv_applicants = i_applicants i,
      cv_link = detail_link (i_id i)\<rparr>"

text \<open>
  A click on the heart followed by the effect's re-run on the new \<open>savedInternships\<close>:
  the saved list after the click, the heart shown and the navigation, if any.
\<close>

definition card_click ::
  "user option \<Rightarrow> jsid \<Rightarrow> jsid list \<Rightarrow> jsid list \<times> bool \<times> string option" where
  "card_click user k saved =
     (let (saved', _, nav) = card_handleSave user k saved (card_isSaved user (Some saved) k)
      in (saved', card_isSaved user (Some saved') k, nav))"

subsection \<open>The recruiter dashboard's body\<close>

record rd_stats =
  rs_active :: nat
  rs_applicants :: nat
  rs_shortlisted :: nat
  rs_company :: string

text \<open>The four stat cards (lines 94--145).\<close>

definition rd_stat_cards :: "internship list \<Rightarrow> application list \<Rightarrow> company \<Rightarrow> rd_stats" where
  "rd_stat_cards mine forMine c =
     \<lparr>rs_active = length mine, rs_applicants = length forMine,
      rs_shortlisted = length (filter (\<lambda>a. a_status a = ''shortlisted'') forMine), rs_company = c_name c\<rparr>"

text \<open>
  A row of the recruiter's listings (lines 177--196): title, place and duration, the
  count of all applications to it (line 192), and whether it is the selected one.
  Place and duration are the pair the line joins with a bullet.
\<close>

definition rd_row_count :: "application list \<Rightarrow> internship \<Rightarrow> nat" where
  "rd_row_count apps i = length (filter (\<lambda>a. a_internshipId a = i_id i) apps)"

datatype rows_panel = InternshipRows "(string \<times> (string \<times> string) \<times> nat \<times> bool) list" | NoPostings

definition rd_internship_rows :: "internship list \<Rightarrow> application list \<Rightarrow> internship option \<Rightarrow> rows_panel" where
  "rd_internship_rows mine apps selected =
     (if mine \<noteq> [] then
        InternshipRows (map (\<lambda>i. (i_title i, (i_location i, i_duration i), rd_row_count apps i,
                                  (case selected of Some s \<Rightarrow> i_id s = i_id i | None \<Rightarrow> False))) mine)
      else NoPostings)"

record applicant_card =
  apc_name :: string
  apc_email :: string
  apc_degree :: string
  apc_skills :: "string list"
  apc_badge :: badge
  apc_resume :: string

text \<open>An applicant card (lines 219--268): the student looked up in \<open>users\<close>, with fallbacks.\<close>

definition applicant_card :: "user list \<Rightarrow> application \<Rightarrow> applicant_card" where
  "applicant_card us a =
     (let st = find (\<lambda>u. u_id u = a_studentId a) us
      in \<lparr>apc_name = (case st of Some u \<Rightarrow> or_string (u_name u) ''Unknown Student'' | None \<Rightarrow> ''Unknown Student''),
          apc_email = (case st of Some u \<Rightarrow> or_string (u_email u) ''Unknown Email'' | None \<Rightarrow> ''Unknown Email''),
          apc_degree = (case st of
                          Some u \<Rightarrow> (case u_education u of Some (e # _) \<Rightarrow> or_string (ed_degree e) ''No Education''
                                     | _ \<Rightarrow> ''No Education'')
                        | None \<Rightarrow> ''No Education''),
          apc_skills = (case st of Some u \<Rightarrow> opt_list (u_skills u) | None \<Rightarrow> []),
          apc_badge = rd_status_badge (a_status a),
          apc_resume = (case st of Some u \<Rightarrow> or_string (opt_str (u_resume u)) ''#'' | None \<Rightarrow> ''#'')\<rparr>)"

datatype applicants_panel = ApplicantCards "applicant_card list" | NoApplicants string

text \<open>The applicants panel (lines 208--279): its title and its cards or empty message.\<close>

definition rd_applicants_panel ::
  "user list \<Rightarrow> internship option \<Rightarrow> application list \<Rightarrow> string \<times> applicants_panel" where
  "rd_applicants_panel us selected shown =
     ((case selected of Some s \<Rightarrow> ''Applicants for '' @ i_title s | None \<Rightarrow> ''Recent Applicants''),
      (if shown \<noteq> [] then ApplicantCards (map (applicant_card us) shown)
       else NoApplicants (case selected of Some s \<Rightarrow> ''No applicants for '' @ i_title s @ '' yet.''
                          | None \<Rightarrow> ''No applicants for your internships yet.'')))"

record rd_body =
  rb_stats :: rd_stats
  rb_rows :: rows_panel
  rb_applicants :: "string \<times> applicants_panel"

text \<open>
  The body past the gate (lines 61--283): the derived lists of \<open>rd_applicants\<close> (which
  throw when \<open>applications\<close> is missing), then the three panels.
\<close>

definition rd_body ::
  "user \<Rightarrow> company \<Rightarrow> internship list \<Rightarrow> application list option \<Rightarrow> user list \<Rightarrow> internship option
   \<Rightarrow> js_error + rd_body" where
  "rd_body u c ins apps us selected =
     (case rd_applicants u ins apps selected of
        Inl e \<Rightarrow> Inl e
      | Inr (mine, forMine, shown) \<Rightarrow>
          Inr \<lparr>rb_stats = rd_stat_cards mine forMine c,
               rb_rows = rd_internship_rows mine (case apps of Some as \<Rightarrow> as | None \<Rightarrow> []) selected,
               rb_applicants = rd_applicants_panel us selected shown\<rparr>)"

subsection \<open>The student dashboard's body\<close>

record sd_body =
  sb_empty_banner :: bool
  sb_stats :: sd_stats
  sb_nudge :: "nat option"
  sb_items :: "(string \<times> pill) list option"
  sb_recommended :: "card_view list"

text \<open>
  Lines 107--245: the empty-dashboard banner, the stat cards, the completion nudge
  below 100%, the items of the first five applications (\<open>None\<close>: the
  no-applications message), and the recommended listings as cards.
\<close>

definition sd_render ::
  "(application \<times> internship option) list \<Rightarrow> jsid list option \<Rightarrow> bool list \<Rightarrow> nat \<Rightarrow> internship list
   \<Rightarrow> sd_body" where
  "sd_render apps saved readFlags pct recs =
     \<lparr>sb_empty_banner = sd_truly_empty apps saved recs,
      sb_stats = sd_stat_cards apps saved readFlags,
      sb_nudge = (if pct < 100 then Some pct else None),
      sb_items = (if apps \<noteq> [] then Some (List.map_filter application_item (take 5 apps)) else None),
      sb_recommended = map (\<lambda>i. card_view i None False) recs\<rparr>"

subsection \<open>The profile impact meter\<close>

text \<open>
  The ring of \<open>src/src/components/ProfileImpactMeter.jsx\<close> (lines 47--58): a circle of
  circumference \<open>314.159\<close> whose dash offset leaves the completed share drawn.
\<close>

definition meter_dash_offset :: "nat \<Rightarrow> rat" where
  "meter_dash_offset pct = 314159 / 1000 - (of_nat pct / 100) * (314159 / 1000)"

record meter_render =
  mr_offset :: rat
  mr_percent :: nat
  mr_rows :: "(string \<times> bool \<times> (string \<times> string) option) list"

text \<open>
  The meter past its gate (lines 14--86): the ring, the percentage, and one row per
  checklist item with its label, its tick, and for an open item a link to the profile.
\<close>

definition meter_render :: "nat \<Rightarrow> check_item list \<Rightarrow> meter_render" where
  "meter_render pct checklist =
     \<lparr>mr_offset = meter_dash_offset pct, mr_percent = pct,
      mr_rows = map (\<lambda>it. (ci_label it, ci_completed it,
                           if ci_completed it then None else Some (ci_action it, ''/student/profile''))) checklist\<rparr>"

subsection \<open>The landing counters\<close>

text \<open>
  The three cards of \<open>src/src/components/DynamicStats.jsx\<close> (lines 51--71), each
  showing \<open>{item.value}+\<close> under its label (the icons are omitted).
\<close>

definition stat_items :: "nat \<times> nat \<times> nat \<Rightarrow> (string \<times> string) list" where
  "stat_items st = (case st of (a, c, t) \<Rightarrow>
     [(js_String_int (int a) @ ''+'', ''Active Internships This Week''),
      (js_String_int (int c) @ ''+'', ''New Companies Joined Last Month''),
      (js_String_int (int t) @ ''+'', ''Applications Submitted Today'')])"

subsection \<open>Lemmas\<close>

lemma meter_dash_offset_bounds:
  "pct \<le> 100 \<Longrightarrow> 0 \<le> meter_dash_offset pct \<and> meter_dash_offset pct \<le> 314159 / 1000"
  by (simp add: meter_dash_offset_def)

lemma meter_full_empty: "meter_dash_offset 100 = 0" "meter_dash_offset 0 = 314159 / 1000"
  by (simp_all add: meter_dash_offset_def)

lemma meter_open_rows_link:
  "(l, c, a) \<in> set (mr_rows (meter_render pct cl)) \<Longrightarrow> a = None \<longleftrightarrow> c"
  by (auto simp: meter_render_def)

text \<open>
  Whatever the data, the first landing card reads \<open>0+\<close>: no listing has the keys
  \<open>postedDate\<close> and \<open>applicationDeadline\<close> the counter reads.
\<close>

lemma stat_items_first_zero: "fst (hd (stat_items (dynamic_stats today r ins cs apps))) = ''0+''"
proof -
  have "js_String_int 0 = ''0''" by code_simp
  then show ?thesis by (simp add: stat_items_def dynamic_stats_def active_this_week_def field_date_def)
qed

lemma card_tags_cover: "length (cv_tags (card_view i mp f)) + (case cv_more (card_view i mp f) of Some n \<Rightarrow> n | None \<Rightarrow> 0)
     = length (i_requirements i)"
  by (simp add: card_view_def)

lemma card_click_student:
  "u_role u = Student \<Longrightarrow>
     card_click (Some u) k saved = (toggleSaveInternship k saved, k \<notin> set saved, None)"
  by (auto simp: card_click_def card_handleSave_def card_isSaved_def toggleSaveInternship_def)

lemma card_click_other:
  "u_role u \<noteq> Student \<Longrightarrow> card_click (Some u) k saved = (toggleSaveInternship k saved, False, None)"
  by (simp add: card_click_def card_handleSave_def card_isSaved_def)

lemma length_filter_disj:
  "(\<And>x. \<not> (P x \<and> Q x)) \<Longrightarrow> length (filter (\<lambda>x. P x \<or> Q x) xs) = length (filter P xs) + length (filter Q xs)"
  by (induction xs) auto

lemma rows_sum_forMine:
  "distinct (map i_id mine) \<Longrightarrow>
     sum_list (map (rd_row_count apps) mine)
     = length (filter (\<lambda>a. list_ex (\<lambda>i. i_id i = a_internshipId a) mine) apps)"
proof (induction mine)
  case Nil
  then show ?case by (simp add: rd_row_count_def)
next
  case (Cons i mine)
  have "length (filter (\<lambda>a. list_ex (\<lambda>j. i_id j = a_internshipId a) (i # mine)) apps)
        = length (filter (\<lambda>a. a_internshipId a = i_id i \<or> list_ex (\<lambda>j. i_id j = a_internshipId a) mine) apps)"
    by (rule arg_cong [where f = length], rule filter_cong) auto
  also have "\<dots> = rd_row_count apps i + length (filter (\<lambda>a. list_ex (\<lambda>j. i_id j = a_internshipId a) mine) apps)"
  proof (rule trans [OF length_filter_disj])
    fix a
    show "\<not> (a_internshipId a = i_id i \<and> list_ex (\<lambda>j. i_id j = a_internshipId a) mine)"
      using Cons.prems by (auto simp: list_ex_iff image_iff)
  qed (simp add: rd_row_count_def)
  finally show ?case using Cons by simp
qed

lemma shown_selected_row:
  assumes "rd_applicants u ins (Some as) (Some s) = Inr (mine, forMine, shown)" "s \<in> set mine"
  shows "shown = filter (\<lambda>a. a_internshipId a = i_id s) as"
  using assms by (auto simp: rd_applicants_def Let_def list_ex_iff intro!: filter_cong)

subsection \<open>Properties\<close>

text \<open>
  Were \<open>applications\<close> published by the data provider (it is not, and the body
  throws, \<open>Dashboards.recruiter_dashboard_crash\<close>), the recruiter dashboard's numbers
  would agree.  When the recruiter's listings have distinct ids and one of them is
  selected, the body renders, the applicant counts of
  the rows add up to the Total Applicants card, and the applicants panel shows exactly
  as many cards as the selected row counts (the empty message when it counts none).
\<close>

theorem recruiter_dashboard_counts_agree:
  assumes "distinct (map i_id (filter (\<lambda>i. i_companyId i = u_companyId u) ins))"
    and "s \<in> set ins" and "i_companyId s = u_companyId u"
  shows "\<exists>b. rd_body u c ins (Some as) us (Some s) = Inr b
           \<and> (case rb_rows b of InternshipRows rs \<Rightarrow> sum_list (map (fst \<circ> snd \<circ> snd) rs) = rs_applicants (rb_stats b)
              | NoPostings \<Rightarrow> False)
           \<and> (case snd (rb_applicants b) of ApplicantCards cs \<Rightarrow> length cs = rd_row_count as s \<and> cs \<noteq> []
              | NoApplicants _ \<Rightarrow> rd_row_count as s = 0)"
proof -
  let ?mine = "filter (\<lambda>i. i_companyId i = u_companyId u) ins"
  obtain forMine shown where ra: "rd_applicants u ins (Some as) (Some s) = Inr (?mine, forMine, shown)"
    and fm: "forMine = filter (\<lambda>a. list_ex (\<lambda>i. i_id i = a_internshipId a) ?mine) as"
    by (simp add: rd_applicants_def Let_def)
  have sm: "s \<in> set ?mine" using assms(2,3) by simp
  then have sh: "shown = filter (\<lambda>a. a_internshipId a = i_id s) as"
    using shown_selected_row [OF ra] by blast
  have sum: "sum_list (map (rd_row_count as) ?mine) = length forMine"
    using rows_sum_forMine [OF assms(1)] fm by simp
  have "?mine \<noteq> []" using sm by (metis empty_iff empty_set)
  with ra sum [unfolded rd_row_count_def] sh show ?thesis
    by (simp add: rd_body_def rd_internship_rows_def rd_stat_cards_def rd_applicants_panel_def
        rd_row_count_def comp_def)
qed

theorem recruiter_dashboard_counts_agree_witness:
  "\<exists>b. rd_body demo_recruiter demo_recruiter_company [demo_listing (NumId 1) ''Web'' [] 1]
         (Some [demo_application None (NumId 1) 1]) [] (Some (demo_listing (NumId 1) ''Web'' [] 1)) = Inr b
      \<and> (case rb_rows b of InternshipRows rs \<Rightarrow> sum_list (map (fst \<circ> snd \<circ> snd) rs) = rs_applicants (rb_stats b)
         | NoPostings \<Rightarrow> False)
      \<and> (case snd (rb_applicants b) of
           ApplicantCards cs \<Rightarrow> length cs = rd_row_count [demo_application None (NumId 1) 1] (demo_listing (NumId 1) ''Web'' [] 1) \<and> cs \<noteq> []
         | NoApplicants _ \<Rightarrow> rd_row_count [demo_application None (NumId 1) 1] (demo_listing (NumId 1) ''Web'' [] 1) = 0)"
  by (rule recruiter_dashboard_counts_agree) (simp_all add: demo_listing_def demo_recruiter_def)

text \<open>
  C25: the heart of a listing card.  A signed-out click only navigates to the login
  page; a signed-in click toggles the one shared saved list whatever the role, and the
  heart then shows filled only for a student who had not saved the listing, so a
  recruiter or an admin changes the students' saved list without any visible effect.
\<close>

theorem card_heart_click:
  "card_click None k saved = (saved, False, Some ''/login'')
   \<and> card_click (Some u) k saved = (toggleSaveInternship k saved, u_role u = Student \<and> k \<notin> set saved, None)
   \<and> (k \<in> set (toggleSaveInternship k saved) \<longleftrightarrow> k \<notin> set saved)"
  by (cases "u_role u = Student")
     (auto simp: card_click_student card_click_other card_click_def card_handleSave_def card_isSaved_def
                 toggleSaveInternship_def)

end
