(* ===== verification/BrowsePage.thy ===== *)
theory BrowsePage
  imports Matching
begin

text \<open>
  The browse page, \<open>src/src/pages/BrowseInternships.jsx\<close>: the filter state, the
  suggestion effect, the handlers of the search box, the filter panel and the chips,
  and the three outcomes of the render (skeleton, results with their count label,
  empty states).  The search
  itself is \<open>Matching.getFilteredInternships\<close>, the suggestions
  \<open>Matching.suggestions\<close> over \<open>Matching.getSearchableTerms\<close>.

  React's render cycle is modelled where a property depends on it: a JavaScript array
  has an identity, a natural number handed out fresh by each allocation; an effect runs
  when one of its dependencies differs (\<open>Object.is\<close>) from the last run; a state
  update re-renders when the new value differs from the old by \<open>Object.is\<close>.
\<close>

record browse_page =
  bp_filters :: filters
  bp_showFilters :: bool
  bp_suggestions :: "string list"
  bp_suggestions_ref :: nat
  bp_showSuggestions :: bool

definition default_filters :: filters where
  "default_filters = \<lparr>f_search = [], f_type = ''all'', f_paid = ''all'', f_domain = ''all'', f_location = []\<rparr>"

definition browse_initial :: browse_page where
  "browse_initial = \<lparr>bp_filters = default_filters, bp_showFilters = False, bp_suggestions = [],
     bp_suggestions_ref = 0, bp_showSuggestions = False\<rparr>"

text \<open>\<open>[...new Set(xs)]\<close>: the values in the order of their first insertion.\<close>

definition js_set_values :: "'a list \<Rightarrow> 'a list" where
  "js_set_values xs = foldl (\<lambda>acc x. if x \<in> set acc then acc else acc @ [x]) [] xs"

definition browse_domains :: "internship list \<Rightarrow> string list" where
  "browse_domains ins = (if ins \<noteq> [] then js_set_values (map i_domain ins) else [])"

definition browse_types :: "string list" where
  "browse_types = [''Remote'', ''Onsite'', ''Hybrid'']"

text \<open>
  The effect of lines 29--41 with the new suggestions array (\<open>filtered.slice(0, 5)\<close>
  or \<open>[]\<close>, allocated by the effect) as identity \<open>r\<close>.
\<close>

definition suggestion_effect :: "string list \<Rightarrow> nat \<Rightarrow> browse_page \<Rightarrow> browse_page" where
  "suggestion_effect terms r p =
     p\<lparr>bp_suggestions := suggestions (f_search (bp_filters p)) terms, bp_suggestions_ref := r,
       bp_showSuggestions := (f_search (bp_filters p) \<noteq> [])\<rparr>"

datatype browse_input =
    TypeSearch string | FocusSearch | ClickSuggestion string | ClickOutside | ToggleFilters
  | SelectType string | SelectPaid string | SelectDomain string | TypeLocation string
  | PickDomain string | ClearAll

text \<open>
  The handlers: the search input (148--149, \<open>true && filters.search\<close> is truthy exactly
  for a non-empty search), \<open>handleSuggestionClick\<close> (53--56), the outside click
  (44--47), the filter toggle (170), the selects and location input (184--227), the
  domain chips (264, 289) and the clear buttons (274, 298).
\<close>

fun browse_handle :: "browse_page \<Rightarrow> browse_input \<Rightarrow> browse_page" where
  "browse_handle p (TypeSearch v) = p\<lparr>bp_filters := (bp_filters p)\<lparr>f_search := v\<rparr>\<rparr>"
| "browse_handle p FocusSearch = p\<lparr>bp_showSuggestions := (f_search (bp_filters p) \<noteq> [])\<rparr>"
| "browse_handle p (ClickSuggestion s) =
     p\<lparr>bp_filters := (bp_filters p)\<lparr>f_search := s\<rparr>, bp_showSuggestions := False\<rparr>"
| "browse_handle p ClickOutside = p\<lparr>bp_showSuggestions := False\<rparr>"
| "browse_handle p ToggleFilters = p\<lparr>bp_showFilters := \<not> bp_showFilters p\<rparr>"
| "browse_handle p (SelectType t) = p\<lparr>bp_filters := (bp_filters p)\<lparr>f_type := t\<rparr>\<rparr>"
| "browse_handle p (SelectPaid v) = p\<lparr>bp_filters := (bp_filters p)\<lparr>f_paid := v\<rparr>\<rparr>"
| "browse_handle p (SelectDomain d) = p\<lparr>bp_filters := (bp_filters p)\<lparr>f_domain := d\<rparr>\<rparr>"
| "browse_handle p (TypeLocation l) = p\<lparr>bp_filters := (bp_filters p)\<lparr>f_location := l\<rparr>\<rparr>"
| "browse_handle p (PickDomain d) = p\<lparr>bp_filters := (bp_filters p)\<lparr>f_domain := d\<rparr>\<rparr>"
| "browse_handle p ClearAll = p\<lparr>bp_filters := default_filters\<rparr>"

definition hasActiveSearch :: "filters \<Rightarrow> bool" where
  "hasActiveSearch f \<longleftrightarrow>
     f_search f \<noteq> [] \<or> f_location f \<noteq> [] \<or> f_type f \<noteq> ''all'' \<or> f_paid f \<noteq> ''all'' \<or> f_domain f \<noteq> ''all''"

datatype browse_view =
    BrowseSkeleton | BrowseEmptyCatalog | BrowseResults "internship list"
  | BrowseNoMatch "recommendation list" "string list" | BrowseNothing "string list"

text \<open>
  The render (lines 58--304): the search runs first (line 58, so its \<open>TypeError\<close>
  throws whatever is shown), then the loading and empty-catalogue returns, then the
  results or one of the two empty states with the first five domains.
\<close>

definition browse_view ::
  "user option \<Rightarrow> internship list \<Rightarrow> bool \<Rightarrow> browse_page \<Rightarrow> js_error + browse_view" where
  "browse_view user ins loadingExternal p =
     (case getFilteredInternships ins (bp_filters p) of
        Inl e \<Rightarrow> Inl e
      | Inr filtered \<Rightarrow>
          if ins = [] \<and> loadingExternal then Inr BrowseSkeleton
          else if ins = [] then Inr BrowseEmptyCatalog
          else if filtered \<noteq> [] then Inr (BrowseResults filtered)
          else if hasActiveSearch (bp_filters p)
          then Inr (BrowseNoMatch (getRecommendedInternships user ins) (take 5 (browse_domains ins)))
          else Inr (BrowseNothing (take 5 (browse_domains ins))))"

text \<open>The count above the results (lines 235--238), empty when nothing is found.\<close>

definition results_label :: "nat \<Rightarrow> string" where
  "results_label n =
     (if 0 < n then js_String_int (int n) @ '' '' @ (if n = 1 then ''internship'' else ''internships'') @ '' found''
      else [])"

definition suggestion_list :: "browse_page \<Rightarrow> string list option" where
  "suggestion_list p = (if bp_showSuggestions p \<and> bp_suggestions p \<noteq> [] then Some (bp_suggestions p) else None)"

subsection \<open>The render cycle of the suggestion effect\<close>

text \<open>
  One commit: the render calls \<open>getSearchableTerms()\<close> (line 27), which returns a new
  array (identity \<open>br_next\<close>); the effect runs when \<open>filters.search\<close> or that array
  differs from its last run, and then sets \<open>suggestions\<close> to another new array; the
  boolean says whether a state update asks for another render.
\<close>

record browse_react =
  br_page :: browse_page
  br_deps :: "(string \<times> nat) option"
  br_next :: nat

definition browse_commit :: "string list \<Rightarrow> browse_react \<Rightarrow> browse_react \<times> bool" where
  "browse_commit terms st =
     (let r = br_next st; p = br_page st; deps = (f_search (bp_filters p), r)
      in if br_deps st = Some deps then (st\<lparr>br_next := Suc r\<rparr>, False)
         else let p' = suggestion_effect terms (Suc r) p
              in (st\<lparr>br_page := p', br_deps := Some deps, br_next := Suc (Suc r)\<rparr>,
                  bp_suggestions_ref p' \<noteq> bp_suggestions_ref p \<or> bp_showSuggestions p' \<noteq> bp_showSuggestions p))"

text \<open>Rendering until no update asks for another render, with fuel.\<close>

fun browse_settle :: "nat \<Rightarrow> string list \<Rightarrow> browse_react \<Rightarrow> browse_react option" where
  "browse_settle 0 terms st = None"
| "browse_settle (Suc n) terms st =
     (case browse_commit terms st of (st', changed) \<Rightarrow> if changed then browse_settle n terms st' else Some st')"

definition browse_mount :: browse_react where
  "browse_mount = \<lparr>br_page = browse_initial, br_deps = None, br_next = 1\<rparr>"

text \<open>Every identity in the state was handed out before \<open>br_next\<close>.\<close>

definition browse_fresh :: "browse_react \<Rightarrow> bool" where
  "browse_fresh st \<longleftrightarrow>
     bp_suggestions_ref (br_page st) < br_next st
     \<and> (case br_deps st of None \<Rightarrow> True | Some (_, r) \<Rightarrow> r < br_next st)"

subsection \<open>Lemmas\<close>

lemma results_label_examples:
  "results_label 0 = []" "results_label 1 = ''1 internship found''" "results_label 12 = ''12 internships found''"
  by code_simp+

lemma browse_commit_fresh:
  assumes "browse_fresh st"
  shows "snd (browse_commit terms st) \<and> browse_fresh (fst (browse_commit terms st))"
proof -
  have "br_deps st \<noteq> Some (f_search (bp_filters (br_page st)), br_next st)"
    using assms by (auto simp: browse_fresh_def)
  moreover have "bp_suggestions_ref (br_page st) \<noteq> Suc (br_next st)"
    using assms by (simp add: browse_fresh_def)
  ultimately show ?thesis
    by (simp add: browse_commit_def browse_fresh_def suggestion_effect_def Let_def)
qed

lemma browse_settle_fresh: "browse_fresh st \<Longrightarrow> browse_settle n terms st = None"
proof (induction n arbitrary: st)
  case 0
  then show ?case by simp
next
  case (Suc n)
  from browse_commit_fresh [OF Suc.prems, of terms] show ?case
    by (cases "browse_commit terms st") (simp add: Suc.IH)
qed

lemma searchKeywords_empty [simp]: "searchKeywords [] = []"
  by code_simp

lemma default_filters_all: "getFilteredInternships ins default_filters = Inr ins"
  by (simp add: getFilteredInternships_def expandedKeywords_def default_filters_def matchesSearch_def
      matchesOther_def)

lemma browse_handle_filters_PickDomain:
  "bp_filters (browse_handle p (PickDomain d)) = (bp_filters p)\<lparr>f_domain := d\<rparr>"
  by simp

lemma getFilteredInternships_Inr_sub:
  "getFilteredInternships ins f = Inr xs \<Longrightarrow> set xs \<subseteq> set ins \<and> (\<forall>i\<in>set xs. matchesOther f i)"
  by (auto simp: getFilteredInternships_def split: if_splits sum.splits)

subsection \<open>Examples\<close>

definition demo_browse_listings :: "internship list" where
  "demo_browse_listings = [demo_listing (NumId 1) ''Web Intern'' [''React''] 1,
     (demo_listing (NumId 2) ''Data Intern'' [''SQL''] 2)\<lparr>i_domain := ''Data Science''\<rparr>]"

subsection \<open>Properties\<close>

text \<open>
  C24: the browse page never stops rendering.  \<open>getSearchableTerms()\<close> returns a new
  array at every render and is a dependency of the suggestion effect, so the effect
  runs after every render; it sets \<open>suggestions\<close> to a new array, which differs by
  \<open>Object.is\<close> from the old one, so every commit asks for another render: from the
  mount no amount of fuel reaches a settled state, although after the first commit the
  suggestions shown no longer change.
\<close>

theorem browse_render_never_settles:
  "browse_settle n terms browse_mount = None
   \<and> bp_suggestions (br_page (fst (browse_commit terms (fst (browse_commit terms browse_mount)))))
     = bp_suggestions (br_page (fst (browse_commit terms browse_mount)))"
proof
  show "browse_settle n terms browse_mount = None"
    by (rule browse_settle_fresh) (simp add: browse_fresh_def browse_mount_def browse_initial_def)
  show "bp_suggestions (br_page (fst (browse_commit terms (fst (browse_commit terms browse_mount)))))
     = bp_suggestions (br_page (fst (browse_commit terms browse_mount)))"
    by (simp add: browse_commit_def browse_mount_def browse_initial_def suggestion_effect_def Let_def)
qed

text \<open>
  Clear All Filters shows the whole catalogue, and a domain chip shows only listings of
  the catalogue in that domain.
\<close>

theorem browse_clear_and_chips:
  "(ins \<noteq> [] \<longrightarrow> browse_view user ins le (browse_handle p ClearAll) = Inr (BrowseResults ins))
   \<and> (browse_view user ins le (browse_handle p (PickDomain d)) = Inr (BrowseResults xs) \<longrightarrow>
        set xs \<subseteq> set ins \<and> (d \<noteq> ''all'' \<longrightarrow> (\<forall>i\<in>set xs. i_domain i = d)))"
proof
  show "ins \<noteq> [] \<longrightarrow> browse_view user ins le (browse_handle p ClearAll) = Inr (BrowseResults ins)"
    by (simp add: browse_view_def default_filters_all)
  show "browse_view user ins le (browse_handle p (PickDomain d)) = Inr (BrowseResults xs) \<longrightarrow>
        set xs \<subseteq> set ins \<and> (d \<noteq> ''all'' \<longrightarrow> (\<forall>i\<in>set xs. i_domain i = d))"
  proof
    assume v: "browse_view user ins le (browse_handle p (PickDomain d)) = Inr (BrowseResults xs)"
    then have "getFilteredInternships ins ((bp_filters p)\<lparr>f_domain := d\<rparr>) = Inr xs"
      by (auto simp: browse_view_def split: sum.splits if_splits)
    from getFilteredInternships_Inr_sub [OF this] show "set xs \<subseteq> set ins \<and> (d \<noteq> ''all'' \<longrightarrow> (\<forall>i\<in>set xs. i_domain i = d))"
      by (auto simp: matchesOther_def)
  qed
qed

theorem browse_clear_and_chips_witness:
  "browse_view None demo_browse_listings False (browse_handle browse_initial ClearAll)
     = Inr (BrowseResults demo_browse_listings)
   \<and> (\<forall>i\<in>set (filter (\<lambda>i. i_domain i = ''Data Science'') demo_browse_listings). i_domain i = ''Data Science'')"
proof -
  have v: "browse_view None demo_browse_listings False (browse_handle browse_initial (PickDomain ''Data Science''))
         = Inr (BrowseResults (filter (\<lambda>i. i_domain i = ''Data Science'') demo_browse_listings))"
    by code_simp
  have n: "demo_browse_listings \<noteq> []" by (simp add: demo_browse_listings_def)
  from browse_clear_and_chips [of demo_browse_listings None False browse_initial "''Data Science''"
         "filter (\<lambda>i. i_domain i = ''Data Science'') demo_browse_listings"] v n
  show ?thesis by simp
qed

end
