(* ===== verification/AdminPage.thy ===== *)
theory AdminPage
  imports Listings
begin

text \<open>
  The admin panel, \<open>src/src/pages/admin/AdminPanel.jsx\<close>.  Its state is page-local:
  a tab, a hard-coded list of four companies and a copy of \<open>mockInternships\<close> (the
  seed, a parameter: \<open>src/data/mockData\<close> is not in the repository), each with the
  optional \<open>featured\<close> flag the panel toggles.  Nothing it does reaches the
  providers.  An action of the panel is a value of \<open>admin_action\<close>; \<open>admin_step\<close>
  returns the new state and the text of the \<open>alert\<close> it raises, if any.
\<close>

record admin_company =
  ac_id :: int
  ac_name :: string
  ac_email :: string
  ac_status :: string
  ac_internships :: nat

record admin_listing =
  al_listing :: internship
  al_featured :: "bool option"

record admin_state =
  as_tab :: string
  as_companies :: "admin_company list"
  as_internships :: "admin_listing list"

definition admin_seed_companies :: "admin_company list" where
  "admin_seed_companies = [
     \<lparr>ac_id = 1, ac_name = ''TechCorp'', ac_email = ''contact@techcorp.com'', ac_status = ''approved'', ac_internships = 5\<rparr>,
     \<lparr>ac_id = 2, ac_name = ''DataMind AI'', ac_email = ''info@datamind.com'', ac_status = ''approved'', ac_internships = 3\<rparr>,
     \<lparr>ac_id = 3, ac_name = ''StartupXYZ'', ac_email = ''hello@startupxyz.com'', ac_status = ''pending'', ac_internships = 0\<rparr>,
     \<lparr>ac_id = 4, ac_name = ''GrowthHub'', ac_email = ''team@growthhub.com'', ac_status = ''approved'', ac_internships = 2\<rparr>]"

definition admin_mount :: "admin_listing list \<Rightarrow> admin_state" where
  "admin_mount mockInternships =
     \<lparr>as_tab = ''dashboard'', as_companies = admin_seed_companies, as_internships = mockInternships\<rparr>"

text \<open>The truthiness of \<open>internship.featured\<close> (\<open>undefined\<close> is falsy).\<close>

definition is_featured :: "admin_listing \<Rightarrow> bool" where
  "is_featured l \<longleftrightarrow> al_featured l = Some True"

subsection \<open>Handlers\<close>

definition handleApproveCompany :: "int \<Rightarrow> admin_company list \<Rightarrow> admin_company list" where
  "handleApproveCompany k cs = map (\<lambda>c. if ac_id c = k then c\<lparr>ac_status := ''approved''\<rparr> else c) cs"

definition handleRejectCompany :: "int \<Rightarrow> admin_company list \<Rightarrow> admin_company list" where
  "handleRejectCompany k cs = filter (\<lambda>c. ac_id c \<noteq> k) cs"

definition handleFeatureInternship :: "jsid \<Rightarrow> admin_listing list \<Rightarrow> admin_listing list" where
  "handleFeatureInternship k ls =
     map (\<lambda>l. if i_id (al_listing l) = k then l\<lparr>al_featured := Some (\<not> is_featured l)\<rparr> else l) ls"

text \<open>\<open>confirm('Delete this internship?')\<close> is the parameter \<open>ok\<close>.\<close>

definition handleDeleteInternship :: "bool \<Rightarrow> jsid \<Rightarrow> admin_listing list \<Rightarrow> admin_listing list" where
  "handleDeleteInternship ok k ls = (if ok then filter (\<lambda>l. i_id (al_listing l) \<noteq> k) ls else ls)"

datatype admin_action =
    SelectTab string | ApproveCompany int | RejectCompany int | ViewCompany
  | FeatureInternship jsid | DeleteInternship bool jsid | ViewInternship | ViewUser

fun admin_step :: "admin_state \<Rightarrow> admin_action \<Rightarrow> admin_state \<times> string option" where
  "admin_step s (SelectTab t) = (s\<lparr>as_tab := t\<rparr>, None)"
| "admin_step s (ApproveCompany k) = (s\<lparr>as_companies := handleApproveCompany k (as_companies s)\<rparr>, None)"
| "admin_step s (RejectCompany k) = (s\<lparr>as_companies := handleRejectCompany k (as_companies s)\<rparr>, None)"
| "admin_step s ViewCompany = (s, Some ''View company details functionality pending!'')"
| "admin_step s (FeatureInternship k) =
     (s\<lparr>as_internships := handleFeatureInternship k (as_internships s)\<rparr>, None)"
| "admin_step s (DeleteInternship ok k) =
     (s\<lparr>as_internships := handleDeleteInternship ok k (as_internships s)\<rparr>, None)"
| "admin_step s ViewInternship = (s, Some ''View internship details functionality pending!'')"
| "admin_step s ViewUser = (s, Some ''View user details functionality pending!'')"

definition admin_run :: "admin_state \<Rightarrow> admin_action list \<Rightarrow> admin_state" where
  "admin_run s as = foldl (\<lambda>s a. fst (admin_step s a)) s as"

subsection \<open>Rendering\<close>

text \<open>The access gate (lines 40--48).\<close>

definition admin_allowed :: "user option \<Rightarrow> bool" where
  "admin_allowed user = (case user of Some u \<Rightarrow> u_role u = Admin | None \<Rightarrow> False)"

datatype company_row_action = ApproveReject | ViewOnly

text \<open>A company row (lines 224--261): the label and the buttons it offers.\<close>

definition company_row :: "admin_company \<Rightarrow> string \<times> company_row_action" where
  "company_row c =
     ((if ac_status c = ''approved'' then ''Approved'' else ''Pending''),
      (if ac_status c = ''pending'' then ApproveReject else ViewOnly))"

text \<open>
  The users tab (lines 318--380) is a fixed table of two rows (name, email, role,
  status); it reads neither the roster nor any provider.
\<close>

definition admin_user_rows :: "(string \<times> string \<times> role \<times> string) list" where
  "admin_user_rows = [(''Alex Johnson'', ''alex@example.com'', Student, ''Active''),
                      (''Sarah Williams'', ''sarah@techcorp.com'', Recruiter, ''Active'')]"

datatype admin_view =
    AccessDenied | AdminDashboard | CompaniesTable "(string \<times> string \<times> company_row_action) list"
  | NoCompanies | InternshipCards "(internship \<times> bool) list" | NoInternships
  | UsersTable "(string \<times> string \<times> role \<times> string) list" | EmptyTab

definition admin_view :: "user option \<Rightarrow> admin_state \<Rightarrow> admin_view" where
  "admin_view user s =
     (if \<not> admin_allowed user then AccessDenied
      else if as_tab s = ''dashboard'' then AdminDashboard
      else if as_tab s = ''companies'' then
        (if as_companies s \<noteq> [] then CompaniesTable (map (\<lambda>c. (ac_name c, company_row c)) (as_companies s))
         else NoCompanies)
      else if as_tab s = ''internships'' then
        (if as_internships s \<noteq> [] then InternshipCards (map (\<lambda>l. (al_listing l, is_featured l)) (as_internships s))
         else NoInternships)
      else if as_tab s = ''users'' then UsersTable admin_user_rows
      else EmptyTab)"

definition pending_count :: "admin_state \<Rightarrow> nat" where
  "pending_count s = length (filter (\<lambda>c. ac_status c = ''pending'') (as_companies s))"

subsection \<open>Lemmas\<close>

lemma admin_run_Cons [simp]: "admin_run s (a # as) = admin_run (fst (admin_step s a)) as"
  by (simp add: admin_run_def)

lemma admin_run_Nil [simp]: "admin_run s [] = s"
  by (simp add: admin_run_def)

lemma map_ac_id_approve [simp]: "map ac_id (handleApproveCompany k cs) = map ac_id cs"
  by (induction cs) (simp_all add: handleApproveCompany_def)

lemma pending_approve: "length (filter (\<lambda>c. ac_status c = ''pending'') (handleApproveCompany k cs))
     \<le> length (filter (\<lambda>c. ac_status c = ''pending'') cs)"
  by (induction cs) (auto simp: handleApproveCompany_def)

lemma pending_reject: "length (filter (\<lambda>c. ac_status c = ''pending'') (handleRejectCompany k cs))
     \<le> length (filter (\<lambda>c. ac_status c = ''pending'') cs)"
  by (induction cs) (auto simp: handleRejectCompany_def)

lemma map_listing_feature [simp]: "map al_listing (handleFeatureInternship k ls) = map al_listing ls"
  by (induction ls) (simp_all add: handleFeatureInternship_def)

lemma feature_twice: "map is_featured (handleFeatureInternship k (handleFeatureInternship k ls)) = map is_featured ls"
  by (induction ls) (auto simp: handleFeatureInternship_def is_featured_def)

lemma subseq_map_filter: "subseq (map f (filter P xs)) (map f xs)"
  by (rule subseq_map) (rule subseq_filter_left)

lemma subseq_reject: "subseq (map ac_id (handleRejectCompany k cs)) (map ac_id cs)"
  by (simp add: handleRejectCompany_def subseq_map_filter)

lemma admin_step_shrinks:
  "subseq (map ac_id (as_companies (fst (admin_step s a)))) (map ac_id (as_companies s))
   \<and> pending_count (fst (admin_step s a)) \<le> pending_count s
   \<and> subseq (map al_listing (as_internships (fst (admin_step s a)))) (map al_listing (as_internships s))"
  by (cases a) (auto simp: pending_count_def pending_approve pending_reject subseq_reject
      handleDeleteInternship_def subseq_map_filter)

lemma admin_run_shrinks:
  "subseq (map ac_id (as_companies (admin_run s as))) (map ac_id (as_companies s))
   \<and> pending_count (admin_run s as) \<le> pending_count s
   \<and> subseq (map al_listing (as_internships (admin_run s as))) (map al_listing (as_internships s))"
proof (induction as arbitrary: s)
  case Nil
  then show ?case by simp
next
  case (Cons a as)
  from Cons.IH [of "fst (admin_step s a)"] admin_step_shrinks [of s a] show ?case
    by (auto intro: subseq_order.trans)
qed

lemma subseq_set: "subseq xs ys \<Longrightarrow> set xs \<subseteq> set ys"
  by (auto elim: list_emb_set)

subsection \<open>Properties\<close>

text \<open>
  C38: the admin panel can only take away.  Whatever the admin does, the companies
  left are a sub-list of those before (so their ids stay distinct), no company becomes
  pending, the listings left are a sub-list of those before with only their
  \<open>featured\<close> flag changed, and a rejected company never comes back.
\<close>

theorem admin_panel_only_removes:
  "subseq (map ac_id (as_companies (admin_run s as))) (map ac_id (as_companies s))
   \<and> pending_count (admin_run s as) \<le> pending_count s
   \<and> subseq (map al_listing (as_internships (admin_run s as))) (map al_listing (as_internships s))
   \<and> k \<notin> set (map ac_id (as_companies (admin_run s (RejectCompany k # as))))"
proof -
  have "subseq (map ac_id (as_companies (admin_run s (RejectCompany k # as))))
          (map ac_id (handleRejectCompany k (as_companies s)))"
    using admin_run_shrinks [of "fst (admin_step s (RejectCompany k))" as] by simp
  then have "set (map ac_id (as_companies (admin_run s (RejectCompany k # as))))
             \<subseteq> set (map ac_id (handleRejectCompany k (as_companies s)))"
    by (rule subseq_set)
  then have "k \<notin> set (map ac_id (as_companies (admin_run s (RejectCompany k # as))))"
    by (auto simp: handleRejectCompany_def)
  with admin_run_shrinks [of s as] show ?thesis by blast
qed

end
