(* ===== verification/MessagesPage.thy ===== *)
theory MessagesPage
  imports Auth
begin

text \<open>
  The messages page, \<open>src/src/pages/Messages.jsx\<close>.  Its state is page-local: a copy
  of \<open>mockMessages\<close> (the seed, a parameter), the selected message and the filter.
  Rows are clicked in the filtered list; the delete button of the detail pane deletes
  the selected message after \<open>confirm\<close>; archive, reply and draft only alert.  The
  search input has no handler and no state.
\<close>

record message =
  msg_id :: jsid
  msg_from :: string
  msg_subject :: string
  msg_date :: string
  msg_content :: string
  msg_read :: bool

record messages_page =
  mp_messages :: "message list"
  mp_selected :: "message option"
  mp_filter :: string

definition messages_mount :: "message list \<Rightarrow> messages_page" where
  "messages_mount mockMessages = \<lparr>mp_messages = mockMessages, mp_selected = None, mp_filter = ''all''\<rparr>"

text \<open>Lines 12--16.\<close>

definition filteredMessages :: "messages_page \<Rightarrow> message list" where
  "filteredMessages p =
     filter (\<lambda>m. if mp_filter p = ''unread'' then \<not> msg_read m
                 else if mp_filter p = ''read'' then msg_read m else True) (mp_messages p)"

definition handleMarkAsRead :: "jsid \<Rightarrow> message list \<Rightarrow> message list" where
  "handleMarkAsRead k ms = map (\<lambda>m. if msg_id m = k then m\<lparr>msg_read := True\<rparr> else m) ms"

text \<open>Lines 24--31, \<open>confirm\<close> as the parameter \<open>ok\<close>.\<close>

definition handleDelete :: "bool \<Rightarrow> jsid \<Rightarrow> messages_page \<Rightarrow> messages_page" where
  "handleDelete ok k p =
     (if ok then p\<lparr>mp_messages := filter (\<lambda>m. msg_id m \<noteq> k) (mp_messages p),
                  mp_selected := (case mp_selected p of Some m \<Rightarrow> if msg_id m = k then None else Some m
                                  | None \<Rightarrow> None)\<rparr>
      else p)"

datatype messages_action =
    FilterAll | FilterUnread | OpenRow nat | DeleteSelected bool | ArchiveSelected | SendReply | SaveDraft

text \<open>
  The filter buttons (66--81), a click on the \<open>i\<close>-th row of the filtered list (101:
  select that object, then mark its id read), the buttons of the detail pane (147--175).
\<close>

fun messages_step :: "messages_page \<Rightarrow> messages_action \<Rightarrow> messages_page \<times> string option" where
  "messages_step p FilterAll = (p\<lparr>mp_filter := ''all''\<rparr>, None)"
| "messages_step p FilterUnread = (p\<lparr>mp_filter := ''unread''\<rparr>, None)"
| "messages_step p (OpenRow i) =
     (if i < length (filteredMessages p)
      then let m = filteredMessages p ! i
           in (p\<lparr>mp_selected := Some m, mp_messages := handleMarkAsRead (msg_id m) (mp_messages p)\<rparr>, None)
      else (p, None))"
| "messages_step p (DeleteSelected ok) =
     (case mp_selected p of Some m \<Rightarrow> (handleDelete ok (msg_id m) p, None) | None \<Rightarrow> (p, None))"
| "messages_step p ArchiveSelected =
     (if mp_selected p \<noteq> None then (p, Some ''Archive functionality pending!'') else (p, None))"
| "messages_step p SendReply =
     (if mp_selected p \<noteq> None then (p, Some ''Send Reply functionality pending!'') else (p, None))"
| "messages_step p SaveDraft =
     (if mp_selected p \<noteq> None then (p, Some ''Save Draft functionality pending!'') else (p, None))"

definition messages_run :: "messages_page \<Rightarrow> messages_action list \<Rightarrow> messages_page" where
  "messages_run p as = foldl (\<lambda>p a. fst (messages_step p a)) p as"

text \<open>The gate of lines 33--41: any signed-in account sees the same messages.\<close>

definition messages_visible :: "user option \<Rightarrow> messages_page \<Rightarrow> message list option" where
  "messages_visible user p = (case user of Some _ \<Rightarrow> Some (filteredMessages p) | None \<Rightarrow> None)"

definition unread_count :: "messages_page \<Rightarrow> nat" where
  "unread_count p = length (filter (\<lambda>m. \<not> msg_read m) (mp_messages p))"

definition selection_ok :: "messages_page \<Rightarrow> bool" where
  "selection_ok p \<longleftrightarrow> (case mp_selected p of Some m \<Rightarrow> msg_id m \<in> set (map msg_id (mp_messages p)) | None \<Rightarrow> True)"

subsection \<open>Lemmas\<close>

lemma messages_run_Cons [simp]: "messages_run p (a # as) = messages_run (fst (messages_step p a)) as"
  by (simp add: messages_run_def)

lemma messages_run_Nil [simp]: "messages_run p [] = p"
  by (simp add: messages_run_def)

lemma map_msg_id_mark [simp]: "map msg_id (handleMarkAsRead k ms) = map msg_id ms"
  by (induction ms) (simp_all add: handleMarkAsRead_def)

lemma length_mark [simp]: "length (handleMarkAsRead k ms) = length ms"
  by (simp add: handleMarkAsRead_def)

lemma unread_mark: "length (filter (\<lambda>m. \<not> msg_read m) (handleMarkAsRead k ms))
     = length (filter (\<lambda>m. \<not> msg_read m \<and> msg_id m \<noteq> k) ms)"
  by (induction ms) (simp_all add: handleMarkAsRead_def)

lemma filteredMessages_in: "i < length (filteredMessages p) \<Longrightarrow> filteredMessages p ! i \<in> set (mp_messages p)"
  using nth_mem [of i "filteredMessages p"] by (auto simp: filteredMessages_def)

lemma length_filter_conj_le: "length (filter (\<lambda>x. P x \<and> Q x) xs) \<le> length (filter P xs)"
  by (induction xs) auto

lemma length_filter_conj_le2: "length (filter (\<lambda>x. Q x \<and> P x) xs) \<le> length (filter P xs)"
  by (induction xs) auto

lemma messages_step_inv:
  assumes "selection_ok p"
  shows "selection_ok (fst (messages_step p a))
         \<and> length (mp_messages (fst (messages_step p a))) \<le> length (mp_messages p)
         \<and> unread_count (fst (messages_step p a)) \<le> unread_count p"
proof (cases a)
  case (OpenRow i)
  show ?thesis
  proof (cases "i < length (filteredMessages p)")
    case True
    then have "msg_id (filteredMessages p ! i) \<in> set (map msg_id (mp_messages p))"
      using filteredMessages_in by auto
    with True OpenRow show ?thesis
      by (simp add: Let_def selection_ok_def unread_count_def unread_mark length_filter_conj_le)
  qed (simp add: OpenRow assms)
next
  case (DeleteSelected ok)
  then show ?thesis
    using assms
    by (auto simp: handleDelete_def selection_ok_def unread_count_def length_filter_conj_le2
             split: option.splits)
qed (use assms in \<open>auto simp: selection_ok_def unread_count_def split: option.splits\<close>)

lemma messages_run_inv:
  "selection_ok p \<Longrightarrow>
     selection_ok (messages_run p as)
     \<and> length (mp_messages (messages_run p as)) \<le> length (mp_messages p)
     \<and> unread_count (messages_run p as) \<le> unread_count p"
proof (induction as arbitrary: p)
  case Nil
  then show ?case by simp
next
  case (Cons a as)
  from messages_step_inv [OF Cons.prems, of a] Cons.IH [of "fst (messages_step p a)"] show ?case
    by auto
qed

subsection \<open>Properties\<close>

text \<open>
  C36: on the messages page, whatever the user clicks, the selected message is one of
  the messages (a deleted message is never left selected), and neither the messages
  nor the unread ones ever grow beyond the seed.
\<close>

theorem messages_selection_consistent:
  "selection_ok (messages_run (messages_mount ms) as)
   \<and> length (mp_messages (messages_run (messages_mount ms) as)) \<le> length ms
   \<and> unread_count (messages_run (messages_mount ms) as) \<le> length (filter (\<lambda>m. \<not> msg_read m) ms)"
proof -
  have "selection_ok (messages_mount ms)" by (simp add: selection_ok_def messages_mount_def)
  from messages_run_inv [OF this, of as] show ?thesis
    by (simp add: messages_mount_def unread_count_def)
qed

end
