(* ===== verification/Routing.thy ===== *)
theory Routing
  imports AuthPages ProfilePage PostPage DetailsPage DashboardViews BrowsePage AdminPage MessagesPage
begin

text \<open>
  Navigation: the route table of \<open>src/src/App.jsx\<close> (lines 50--64), the links of
  \<open>src/src/components/Navbar.jsx\<close> (desktop 18--84, mobile 119--200), the home page's
  links and featured list (\<open>src/src/pages/Home.jsx\<close>), and every fixed link and
  \<open>navigate\<close> target the pages produce.  React Router matches the path of a URL (the
  part before \<open>?\<close> and \<open>#\<close>), ignores case in fixed segments and one trailing slash,
  and binds \<open>:id\<close> to one non-empty segment.  Percent-decoding of the parameter is not
  modelled: the ids the code puts into links contain no character that needs it.
\<close>

datatype route =
    RHome | RBrowse | RDetails string | RStudentDashboard | RStudentProfile | RRecruiterDashboard
  | RPostInternship | RMessages | RAbout | RContact | RLogin | RSignup | RAdmin

definition static_routes :: "(string \<times> route) list" where
  "static_routes = [(''/'', RHome), (''/browse'', RBrowse), (''/student/dashboard'', RStudentDashboard),
     (''/student/profile'', RStudentProfile), (''/recruiter/dashboard'', RRecruiterDashboard),
     (''/recruiter/post'', RPostInternship), (''/messages'', RMessages), (''/about'', RAbout),
     (''/contact'', RContact), (''/login'', RLogin), (''/signup'', RSignup), (''/admin'', RAdmin)]"

definition url_path :: "string \<Rightarrow> string" where
  "url_path url = takeWhile (\<lambda>c. c \<noteq> CHR ''?'' \<and> c \<noteq> CHR ''#'') url"

definition strip_trailing_slash :: "string \<Rightarrow> string" where
  "strip_trailing_slash p = (if 1 < length p \<and> last p = CHR ''/'' then butlast p else p)"

definition app_route :: "string \<Rightarrow> route option" where
  "app_route url =
     (let p = strip_trailing_slash (url_path url)
      in case find (\<lambda>(r, _). toLowerCase r = toLowerCase p) static_routes of
           Some (_, rt) \<Rightarrow> Some rt
         | None \<Rightarrow>
             (case js_split CHR ''/'' p of
                [e, seg, x] \<Rightarrow> if e = [] \<and> toLowerCase seg = ''internship'' \<and> x \<noteq> [] then Some (RDetails x) else None
              | _ \<Rightarrow> None))"

subsection \<open>Links\<close>

text \<open>A text that fills one \<open>:id\<close> segment as it is.\<close>

definition plain_segment :: "string \<Rightarrow> bool" where
  "plain_segment t \<longleftrightarrow> t \<noteq> [] \<and> CHR ''/'' \<notin> set t \<and> CHR ''?'' \<notin> set t \<and> CHR ''#'' \<notin> set t"

definition role_links :: "user option \<Rightarrow> string list" where
  "role_links user =
     (case user of
        Some u \<Rightarrow> (if u_role u = Student then [''/student/dashboard''] else [])
                  @ (if u_role u = Recruiter then [''/recruiter/dashboard''] else [])
                  @ (if u_role u = Admin then [''/admin''] else [])
      | None \<Rightarrow> [''/login'', ''/signup''])"

definition navbar_links :: "user option \<Rightarrow> string list" where
  "navbar_links user = [''/'', ''/'', ''/browse'', ''/about'', ''/contact''] @ role_links user"

definition navbar_mobile_links :: "user option \<Rightarrow> string list" where
  "navbar_mobile_links user = [''/'', ''/browse'', ''/about'', ''/contact''] @ role_links user"

text \<open>
  The internal links of the footer (\<open>src/src/components/Footer.jsx\<close>, lines 20--23; the
  others are \<open>#\<close> anchors, which do not navigate, or external sites) and of the about
  page (\<open>src/src/pages/About.jsx\<close>, line 125).
\<close>

definition footer_links :: "string list" where
  "footer_links = [''/'', ''/browse'', ''/about'', ''/contact'']"

definition about_links :: "string list" where
  "about_links = [''/contact'']"

text \<open>
  The contact form (\<open>src/src/pages/Contact.jsx\<close>, lines 14--69) has no \<open>onSubmit\<close>,
  no \<open>action\<close> and no named field: its submit button makes the browser load the
  current page again with an empty query, and what was typed is lost.
\<close>

definition contact_submit_target :: string where
  "contact_submit_target = ''/contact?''"

text \<open>The fixed targets of each page's links and \<open>navigate\<close> calls, by file.\<close>

definition page_links :: "(string \<times> string list) list" where
  "page_links = [
     (''Home'', [''/signup?role=student'', ''/signup?role=recruiter'', ''/browse'', ''/browse'', ''/browse'', ''/signup'']),
     (''Login'', [''/'', ''/signup'', ''/student/dashboard'', ''/recruiter/dashboard'', ''/admin'', ''/'']),
     (''Signup'', [''/'', ''/login'', ''/student/profile'', ''/recruiter/dashboard'']),
     (''StudentDashboard'', [''/login'', ''/browse'', ''/student/profile'', ''/browse'', ''/browse'',
        ''/student/profile#skills'', ''/browse'', ''/messages'', ''/student/profile#skills'']),
     (''RecruiterDashboard'', [''/login'', ''/recruiter/post'', ''/recruiter/post'', ''/recruiter/post'']),
     (''PostInternship'', [''/recruiter/dashboard'', ''/recruiter/dashboard'']),
     (''InternshipDetails'', [''/login'', ''/login'', ''/browse'', ''/recruiter/post'', ''/login'']),
     (''StudentProfile'', [''/login'']),
     (''InternshipCard'', [''/login'']),
     (''ProfileImpactMeter'', [''/student/profile'', ''/student/profile'']),
     (''RecruiterActivityStream'', [''/recruiter/dashboard'']),
     (''Footer'', footer_links), (''About'', about_links),
     (''Contact'', [contact_submit_target])]"

definition all_fixed_links :: "string list" where
  "all_fixed_links = concat (map snd page_links)"

subsection \<open>Home page\<close>

text \<open>\<open>mockInternships.filter(i => i.featured)\<close> over the admin panel's listing shape.\<close>

definition home_featured :: "admin_listing list \<Rightarrow> internship list" where
  "home_featured mockInternships = map al_listing (filter is_featured mockInternships)"

text \<open>
  The quick search (lines 38--49): the input has no state, and the button is a link to
  \<open>/browse\<close>, so whatever was typed is dropped.
\<close>

definition home_search_target :: "string \<Rightarrow> string" where
  "home_search_target typed = ''/browse''"

subsection \<open>Lemmas\<close>

lemma route_param_text: "route_param k = StrId (jsid_text k)"
  by (cases k) simp_all

lemma role_links_role:
  "role_links (Some u) = [role_home (u_role u)]"
  by (cases "u_role u") (simp_all add: role_links_def)

lemma url_path_plain: "CHR ''?'' \<notin> set s \<Longrightarrow> CHR ''#'' \<notin> set s \<Longrightarrow> url_path s = s"
  by (induction s) (auto simp: url_path_def)

lemma app_route_detail:
  assumes "t \<noteq> []" "CHR ''/'' \<notin> set t" "CHR ''?'' \<notin> set t" "CHR ''#'' \<notin> set t"
  shows "app_route (''/internship/'' @ t) = Some (RDetails t)"
proof -
  have p: "url_path (''/internship/'' @ t) = ''/internship/'' @ t"
    using assms(3,4) by (simp add: url_path_plain)
  have l: "last (''/internship/'' @ t) \<noteq> CHR ''/''" using assms(1,2) by (metis last_appendR last_in_set)
  have s: "strip_trailing_slash (''/internship/'' @ t) = ''/internship/'' @ t"
    using l by (simp add: strip_trailing_slash_def)
  have f: "find (\<lambda>(r, _). toLowerCase r = toLowerCase (''/internship/'' @ t)) static_routes = None"
    by (simp add: static_routes_def toLowerCase_append toLowerCase_def js_lower_char_def)
  have "js_split CHR ''/'' (''/internship/'' @ t) = [[], ''internship'', t]"
    using js_split_at_sep [of "CHR ''/''" "[]" "''internship/'' @ t"]
          js_split_at_sep [of "CHR ''/''" "''internship''" t] js_split_no_sep_char [OF assms(2)]
    by simp
  with p s f assms(1) show ?thesis by (simp add: app_route_def toLowerCase_def js_lower_char_def)
qed


lemma digit_char_plain:
  assumes "d < 10"
  shows "digit_char d \<noteq> CHR ''/''" "digit_char d \<noteq> CHR ''?''" "digit_char d \<noteq> CHR ''#''"
    "digit_char d \<noteq> CHR ''-''"
proof -
  have "of_char (digit_char d) = (48 + d :: nat)" using assms by (rule of_char_digit_char)
  then have "of_char (digit_char d) \<in> {48..<58::nat}" using assms by simp
  then show "digit_char d \<noteq> CHR ''/''" "digit_char d \<noteq> CHR ''?''" "digit_char d \<noteq> CHR ''#''"
    "digit_char d \<noteq> CHR ''-''" by auto
qed

lemma js_String_int_plain: "plain_segment (js_String_int n)"
proof -
  define D where "D = dec_string (nat \<bar>n\<bar>)"
  obtain ds where ds: "D = map digit_char ds" "ds \<noteq> []" "\<forall>d\<in>set ds. d < 10"
    using dec_string_digits unfolding D_def by blast
  have "\<forall>d\<in>set ds. CHR ''/'' \<noteq> digit_char d \<and> CHR ''?'' \<noteq> digit_char d \<and> CHR ''#'' \<noteq> digit_char d"
    using ds(3) digit_char_plain by (metis (no_types))
  then have p: "D \<noteq> [] \<and> CHR ''/'' \<notin> set D \<and> CHR ''?'' \<notin> set D \<and> CHR ''#'' \<notin> set D"
    unfolding ds(1) using ds(2) by (auto simp: image_iff)
  have "js_String_int n = (if n < 0 then CHR ''-'' # D else D)"
    by (simp add: js_String_int_def D_def)
  with p show ?thesis by (simp add: plain_segment_def)
qed


lemma app_route_fixed: "\<forall>t\<in>set all_fixed_links. app_route t \<noteq> None"
  by code_simp

lemma app_route_navbar_targets:
  "\<forall>t\<in>{''/'', ''/browse'', ''/about'', ''/contact'', ''/student/dashboard'', ''/recruiter/dashboard'',
        ''/admin'', ''/login'', ''/signup''}. app_route t \<noteq> None"
  by code_simp

lemma navbar_targets:
  "set (navbar_links u) \<union> set (navbar_mobile_links u) \<subseteq>
     {''/'', ''/browse'', ''/about'', ''/contact'', ''/student/dashboard'', ''/recruiter/dashboard'',
      ''/admin'', ''/login'', ''/signup''}"
  by (auto simp: navbar_links_def navbar_mobile_links_def role_links_def split: option.splits)

lemma app_route_role_home:
  "app_route (role_home Student) = Some RStudentDashboard"
  "app_route (role_home Recruiter) = Some RRecruiterDashboard"
  "app_route (role_home Admin) = Some RAdmin"
  "app_route ''/student/profile'' = Some RStudentProfile"
  "app_route ''/student/dashboard'' = Some RStudentDashboard"
  "app_route ''/recruiter/dashboard'' = Some RRecruiterDashboard"
  "app_route ''/admin'' = Some RAdmin"
  by code_simp+

subsection \<open>Properties\<close>

text \<open>
  C6: the detail link of a listing, \<open>/internship/${internship.id}\<close>, is matched by the
  route \<open>/internship/:id\<close> with the id's text as parameter, and the details page's
  \<open>getInternship\<close> (through \<open>parseInt\<close>) finds that listing again, when ids are unique,
  no string id parses as a number and the id's text is one plain segment (numeric ids
  always are).
\<close>

theorem detail_link_routes_to_listing:
  assumes "str_ids_unparsable ins" "distinct (map i_id ins)" "i \<in> set ins"
    and "plain_segment (jsid_text (i_id i))"
  shows "app_route (detail_link (i_id i)) = Some (RDetails (jsid_text (i_id i)))
         \<and> getInternship ins (StrId (jsid_text (i_id i))) = Some i"
proof
  show "app_route (detail_link (i_id i)) = Some (RDetails (jsid_text (i_id i)))"
    using assms(4) unfolding detail_link_def plain_segment_def by (blast intro: app_route_detail)
  show "getInternship ins (StrId (jsid_text (i_id i))) = Some i"
    using getInternship_route [OF assms(1-3)] by (simp add: route_param_text)
qed

theorem detail_link_routes_to_listing_witness:
  "app_route (detail_link (NumId 12)) = Some (RDetails ''12'')
   \<and> getInternship [demo_listing (NumId 12) ''A'' [] 1, demo_listing (StrId ''adzuna-12'') ''B'' [] 2]
       (StrId ''12'') = Some (demo_listing (NumId 12) ''A'' [] 1)"
proof -
  have u: "str_ids_unparsable [demo_listing (NumId 12) ''A'' [] 1, demo_listing (StrId ''adzuna-12'') ''B'' [] 2]"
    by code_simp
  have d: "distinct (map i_id [demo_listing (NumId 12) ''A'' [] 1, demo_listing (StrId ''adzuna-12'') ''B'' [] 2])"
    by (simp add: demo_listing_def)
  have m: "demo_listing (NumId 12) ''A'' [] 1
           \<in> set [demo_listing (NumId 12) ''A'' [] 1, demo_listing (StrId ''adzuna-12'') ''B'' [] 2]" by simp
  have p: "plain_segment (jsid_text (i_id (demo_listing (NumId 12) ''A'' [] 1)))"
    by (simp add: demo_listing_def js_String_int_plain)
  have t: "jsid_text (i_id (demo_listing (NumId 12) ''A'' [] 1)) = ''12''" by code_simp
  from detail_link_routes_to_listing [OF u d m p] t show ?thesis by (simp add: demo_listing_def)
qed

text \<open>
  C19: no link of the application is dead: every fixed link and \<open>navigate\<close> target of
  the pages, every link of the desktop and mobile menus for any visitor, and the detail
  link of any listing whose id is a plain segment is matched by a route of \<open>App.jsx\<close>.
\<close>

theorem every_link_resolves:
  assumes "t \<in> set all_fixed_links \<or> t \<in> set (navbar_links u) \<or> t \<in> set (navbar_mobile_links u)
           \<or> (t = detail_link k \<and> plain_segment (jsid_text k))"
  shows "app_route t \<noteq> None"
  using assms app_route_fixed app_route_navbar_targets navbar_targets [of u] app_route_detail [of "jsid_text k"]
  by (auto simp: detail_link_def plain_segment_def)

theorem every_link_resolves_witness:
  "app_route (detail_link (StrId ''adzuna-12'')) \<noteq> None \<and> app_route ''/student/profile#skills'' \<noteq> None"
proof -
  have "plain_segment (jsid_text (StrId ''adzuna-12''))" by code_simp
  then have a: "app_route (detail_link (StrId ''adzuna-12'')) \<noteq> None"
    by (intro every_link_resolves) blast
  have "''/student/profile#skills'' \<in> set all_fixed_links" by code_simp
  then have b: "app_route ''/student/profile#skills'' \<noteq> None"
    by (intro every_link_resolves) blast
  from a b show ?thesis ..
qed

text \<open>
  The messages page is linked only from the student dashboard: no menu, for any
  visitor, links it, so recruiters and admins cannot reach it by navigation.
\<close>

theorem messages_link_only_student:
  "''/messages'' \<notin> set (navbar_links u) \<union> set (navbar_mobile_links u)
   \<and> [p\<leftarrow>page_links. ''/messages'' \<in> set (snd p)] = [(''StudentDashboard'', snd (page_links ! 3))]"
proof
  show "''/messages'' \<notin> set (navbar_links u) \<union> set (navbar_mobile_links u)"
    using navbar_targets [of u] by auto
  show "[p\<leftarrow>page_links. ''/messages'' \<in> set (snd p)] = [(''StudentDashboard'', snd (page_links ! 3))]"
    by code_simp
qed

end
