(* ===== verification/Adzuna.thy ===== *)
theory Adzuna
  imports Listings
begin

text \<open>
  The external listings: \<open>fetchAdzunaInternships\<close> of \<open>src/src/context/DataContext.jsx\<close>
  (lines 15--22 and 61--119).  The HTTP call is the parameter \<open>resp\<close>: \<open>None\<close> when the
  response is not ok or anything in the \<open>try\<close> block throws (all are caught and give
  \<open>[]\<close>), otherwise the decoded \<open>results\<close>.  \<open>Math.random()\<close> is the parameter
  \<open>rand\<close>, the applicant count of the \<open>n\<close>-th result.  The keyword extraction
  \<open>description.match(/\b(react|...|azure)\b/gi)\<close> is a scan of the description.
\<close>

definition ADZUNA_APP_ID :: string where
  "ADZUNA_APP_ID = ''YOUR_ADZUNA_APP_ID''"

definition ADZUNA_APP_KEY :: string where
  "ADZUNA_APP_KEY = ''YOUR_ADZUNA_APP_KEY''"

text \<open>A result of the search API, with the fields the mapping reads.\<close>

record adzuna_job =
  aj_id :: string
  aj_title :: string
  aj_company :: string
  aj_location :: string
  aj_salary_min :: int
  aj_salary_is_predicted :: bool
  aj_category :: string
  aj_created :: day
  aj_description :: string
  aj_redirect_url :: string

subsection \<open>The keyword extraction\<close>

definition adzuna_keywords :: "string list" where
  "adzuna_keywords = [''react'', ''python'', ''javascript'', ''java'', ''sql'', ''aws'', ''azure'']"

text \<open>\<open>\w\<close>: a letter, a digit or the underscore.\<close>

definition word_char :: "char \<Rightarrow> bool" where
  "word_char c \<longleftrightarrow> (CHR ''a'' \<le> c \<and> c \<le> CHR ''z'') \<or> (CHR ''A'' \<le> c \<and> c \<le> CHR ''Z'')
                   \<or> (CHR ''0'' \<le> c \<and> c \<le> CHR ''9'') \<or> c = CHR ''_''"

text \<open>
  The alternative \<open>k\<close> matches at \<open>i\<close> ignoring case and is followed by a word
  boundary (the end, or a character that is not a word character).
\<close>

definition kw_at :: "string \<Rightarrow> nat \<Rightarrow> string \<Rightarrow> bool" where
  "kw_at s i k \<longleftrightarrow> k \<noteq> [] \<and> i + length k \<le> length s \<and> toLowerCase (take (length k) (drop i s)) = k
                   \<and> (i + length k = length s \<or> \<not> word_char (s ! (i + length k)))"

text \<open>
  The global match from position \<open>i\<close>: at a word boundary the alternatives are tried in
  order and the first that matches is taken (in its original case), the scan
  continuing after it; otherwise the scan moves one character on.
\<close>

function kw_matches :: "string \<Rightarrow> nat \<Rightarrow> string list" where
  "kw_matches s i =
     (if i < length s then
        (case (if i = 0 \<or> \<not> word_char (s ! (i - 1)) then find (kw_at s i) adzuna_keywords else None) of
           Some k \<Rightarrow> take (length k) (drop i s) # kw_matches s (i + length k)
         | None \<Rightarrow> kw_matches s (Suc i))
      else [])"
  by pat_completeness auto

lemma find_kw_at: "find (kw_at s i) ks = Some k \<Longrightarrow> kw_at s i k \<and> k \<in> set ks"
  by (auto simp: find_Some_iff)

termination kw_matches
proof (relation "measure (\<lambda>(s, i). length s - i)")
  fix s i k
  assume "i < length s"
    and "(if i = 0 \<or> \<not> word_char (s ! (i - 1)) then find (kw_at s i) adzuna_keywords else None) = Some k"
  then have "kw_at s i k" using find_kw_at by (auto split: if_splits)
  then have "0 < length k" "i + length k \<le> length s" by (auto simp: kw_at_def)
  then show "((s, i + length k), s, i) \<in> measure (\<lambda>(s, i). length s - i)"
    unfolding in_measure prod.case by linarith
qed auto

declare kw_matches.simps [simp del]

text \<open>\<open>match(...) || []\<close>: no match gives the empty list.\<close>

definition adzuna_requirements :: "string \<Rightarrow> string list" where
  "adzuna_requirements d = kw_matches d 0"

subsection \<open>The mapping and the fetch\<close>

text \<open>The listing made from a result (lines 97--114); \<open>deadline\<close> is not set.\<close>

definition adzuna_internship :: "nat \<Rightarrow> adzuna_job \<Rightarrow> internship" where
  "adzuna_internship applicants job =
     \<lparr>i_id = StrId (''adzuna-'' @ aj_id job), i_title = aj_title job, i_company = aj_company job,
      i_companyId = Some (StrId (filter (\<lambda>c. \<not> js_ws c) (aj_company job))), i_logo = ''AZ'',
      i_location = aj_location job, i_type = ''Adzuna'', i_isPaid = (0 < aj_salary_min job),
      i_stipend = (if aj_salary_is_predicted job then ''~'' else []) @ js_String_int (aj_salary_min job) @ '' / month'',
      i_duration = ''Varies'', i_domain = aj_category job, i_description = aj_description job,
      i_posted = aj_created job, i_deadline = [], i_applicants = applicants,
      i_requirements = adzuna_requirements (aj_description job), i_redirect_url = Some (aj_redirect_url job)\<rparr>"

definition fetchAdzunaInternships ::
  "string \<Rightarrow> string \<Rightarrow> (nat \<Rightarrow> nat) \<Rightarrow> adzuna_job list option \<Rightarrow> internship list" where
  "fetchAdzunaInternships app_id app_key rand resp =
     (if app_id = ''YOUR_ADZUNA_APP_ID'' \<or> app_key = ''YOUR_ADZUNA_APP_KEY'' then []
      else case resp of
             None \<Rightarrow> []
           | Some jobs \<Rightarrow> map (\<lambda>(n, job). adzuna_internship (rand n) job) (enumerate 0 jobs))"

subsection \<open>Lemmas\<close>

lemma kw_matches_vocabulary: "r \<in> set (kw_matches s i) \<Longrightarrow> toLowerCase r \<in> set adzuna_keywords"
proof (induction s i rule: kw_matches.induct)
  case (1 s i)
  show ?case
  proof (cases "i < length s")
    case True
    show ?thesis
    proof (cases "(if i = 0 \<or> \<not> word_char (s ! (i - 1)) then find (kw_at s i) adzuna_keywords else None)")
      case None
      with True 1 show ?thesis by (simp add: kw_matches.simps [of s i])
    next
      case (Some k)
      then have "kw_at s i k \<and> k \<in> set adzuna_keywords" using find_kw_at by (auto split: if_splits)
      with True Some 1 show ?thesis by (auto simp: kw_matches.simps [of s i] kw_at_def)
    qed
  qed (use 1 in \<open>simp add: kw_matches.simps [of s i]\<close>)
qed

lemma adzuna_prefix_unparsable: "js_parseInt (''adzuna-'' @ x) = None"
  by (simp add: js_parseInt_def parse_unsigned_def digits_prefix.simps digit_value_def js_space_def)

lemma fetchAdzuna_set:
  "i \<in> set (fetchAdzunaInternships a k rand resp) \<Longrightarrow> \<exists>n job. i = adzuna_internship n job"
  by (auto simp: fetchAdzunaInternships_def split: option.splits if_splits)

lemma adzuna_keywords_example:
  "adzuna_requirements ''JavaScript, javas react_x React'' = [''JavaScript'', ''React'']"
  by code_simp

subsection \<open>Properties\<close>

text \<open>
  C18: the external listings.  With the placeholder credentials of the source the
  fetch returns no listing whatever the network does.  With real credentials every
  listing it returns has a string id that \<open>parseInt\<close> cannot read (the hypothesis
  \<open>Listings.str_ids_unparsable\<close> under which the details route finds a listing), type
  \<open>Adzuna\<close>, a redirect URL, and requirements drawn from the seven keywords only.
\<close>

theorem adzuna_listings_wellformed:
  "fetchAdzunaInternships ADZUNA_APP_ID ADZUNA_APP_KEY rand resp = []
   \<and> str_ids_unparsable (fetchAdzunaInternships a k rand resp)
   \<and> (\<forall>i\<in>set (fetchAdzunaInternships a k rand resp).
        i_type i = ''Adzuna'' \<and> i_redirect_url i \<noteq> None
        \<and> (\<forall>r\<in>set (i_requirements i). toLowerCase r \<in> set adzuna_keywords))"
proof -
  have "fetchAdzunaInternships ADZUNA_APP_ID ADZUNA_APP_KEY rand resp = []"
    by (simp add: ADZUNA_APP_ID_def ADZUNA_APP_KEY_def fetchAdzunaInternships_def)
  moreover have P: "(\<exists>x. i_id i = StrId (''adzuna-'' @ x)) \<and> i_type i = ''Adzuna'' \<and> i_redirect_url i \<noteq> None
                 \<and> (\<forall>r\<in>set (i_requirements i). toLowerCase r \<in> set adzuna_keywords)"
    if i_in: "i \<in> set (fetchAdzunaInternships a k rand resp)" for i
  proof -
    obtain n job where "i = adzuna_internship n job" using fetchAdzuna_set [OF i_in] by blast
    then show ?thesis
      using kw_matches_vocabulary by (simp add: adzuna_internship_def adzuna_requirements_def)
  qed
  moreover have "str_ids_unparsable (fetchAdzunaInternships a k rand resp)"
    unfolding str_ids_unparsable_def
  proof
    fix i assume "i \<in> set (fetchAdzunaInternships a k rand resp)"
    with P obtain x where "i_id i = StrId (''adzuna-'' @ x)" by blast
    then show "case i_id i of StrId s \<Rightarrow> js_parseInt s = None | NumId _ \<Rightarrow> True"
      using adzuna_prefix_unparsable [of x] by simp
  qed
  ultimately show ?thesis by blast
qed

definition demo_job :: adzuna_job where
  "demo_job = \<lparr>aj_id = ''12'', aj_title = ''Data Intern'', aj_company = ''Big Co'', aj_location = ''London'',
     aj_salary_min = 1200, aj_salary_is_predicted = True, aj_category = ''IT Jobs'', aj_created = 20000,
     aj_description = ''SQL and Python'', aj_redirect_url = ''https://adzuna.example/12''\<rparr>"

theorem adzuna_listings_wellformed_witness:
  "fetchAdzunaInternships ADZUNA_APP_ID ADZUNA_APP_KEY (\<lambda>n. 7) (Some [demo_job]) = []
   \<and> (case i_id (adzuna_internship 7 demo_job) of StrId s \<Rightarrow> js_parseInt s = None | NumId _ \<Rightarrow> True)
   \<and> i_type (adzuna_internship 7 demo_job) = ''Adzuna'' \<and> i_redirect_url (adzuna_internship 7 demo_job) \<noteq> None
   \<and> set (map toLowerCase (i_requirements (adzuna_internship 7 demo_job))) \<subseteq> set adzuna_keywords"
  using adzuna_listings_wellformed [of "\<lambda>n. 7" "Some [demo_job]" "''id''" "''key''"]
  by (simp add: fetchAdzunaInternships_def str_ids_unparsable_def image_subset_iff)

end
