(* ===== verification/Persistence.thy ===== *)
theory Persistence
  imports App "HOL-Library.Monad_Syntax"
begin

text \<open>
  The data provider's storage: its initial state read with \<open>getStorage\<close>
  (\<open>src/src/context/DataContext.jsx\<close>, lines 126--131) and the five effects that write
  each array back whenever it changes (lines 207--211).  \<open>JSON.stringify\<close> is the
  encoder of each record; the decoders read a parsed value back as the record the pages
  use, \<open>None\<close> when its shape is not that record.  Dates are day numbers and are
  stored as numbers; the notifications are an opaque JSON value (the messages are
  modelled only by the page-local \<open>MessagesPage\<close>).
\<close>

subsection \<open>Encoders\<close>

definition json_of_internship :: "internship \<Rightarrow> json" where
  "json_of_internship i = JObj
     ([(''id'', json_of_jsid (i_id i)), (''title'', JStr (i_title i)), (''company'', JStr (i_company i))]
      @ opt_field ''companyId'' json_of_jsid (i_companyId i)
      @ [(''logo'', JStr (i_logo i)), (''location'', JStr (i_location i)), (''type'', JStr (i_type i)),
         (''isPaid'', JBool (i_isPaid i)), (''stipend'', JStr (i_stipend i)), (''duration'', JStr (i_duration i)),
         (''domain'', JStr (i_domain i)), (''description'', JStr (i_description i)),
         (''posted'', JNum (i_posted i)), (''deadline'', JStr (i_deadline i)),
         (''applicants'', JNum (int (i_applicants i))), (''requirements'', JArr (map JStr (i_requirements i)))]
      @ opt_field ''redirect_url'' JStr (i_redirect_url i))"

definition json_of_company :: "company \<Rightarrow> json" where
  "json_of_company c = JObj [(''id'', json_of_jsid (c_id c)), (''name'', JStr (c_name c)), (''logo'', JStr (c_logo c))]"

definition json_of_application :: "application \<Rightarrow> json" where
  "json_of_application a = JObj
     (opt_field ''id'' JNum (a_id a)
      @ [(''internshipId'', json_of_jsid (a_internshipId a)), (''studentId'', JNum (a_studentId a)),
         (''status'', JStr (a_status a)), (''appliedDate'', JNum (a_appliedDate a))])"

subsection \<open>Decoders\<close>

fun str_of :: "json \<Rightarrow> string option" where
  "str_of (JStr s) = Some s"
| "str_of _ = None"

fun int_of :: "json \<Rightarrow> int option" where
  "int_of (JNum n) = Some n"
| "int_of _ = None"

fun bool_of :: "json \<Rightarrow> bool option" where
  "bool_of (JBool b) = Some b"
| "bool_of _ = None"

fun jsid_of_json :: "json \<Rightarrow> jsid option" where
  "jsid_of_json (JNum n) = Some (NumId n)"
| "jsid_of_json (JStr s) = Some (StrId s)"
| "jsid_of_json _ = None"

fun list_of :: "(json \<Rightarrow> 'a option) \<Rightarrow> json \<Rightarrow> 'a list option" where
  "list_of f (JArr xs) = those (map f xs)"
| "list_of f _ = None"

text \<open>A key that is absent reads as \<open>undefined\<close>.\<close>

definition req :: "(string \<times> json) list \<Rightarrow> string \<Rightarrow> (json \<Rightarrow> 'a option) \<Rightarrow> 'a option" where
  "req kvs k f = map_of kvs k \<bind> f"

definition opt :: "(string \<times> json) list \<Rightarrow> string \<Rightarrow> (json \<Rightarrow> 'a option) \<Rightarrow> 'a option option" where
  "opt kvs k f = (case map_of kvs k of None \<Rightarrow> Some None | Some j \<Rightarrow> map_option Some (f j))"

fun internship_of_json :: "json \<Rightarrow> internship option" where
  "internship_of_json (JObj kvs) = do {
     k \<leftarrow> req kvs ''id'' jsid_of_json; title \<leftarrow> req kvs ''title'' str_of; company \<leftarrow> req kvs ''company'' str_of;
     cid \<leftarrow> opt kvs ''companyId'' jsid_of_json; logo \<leftarrow> req kvs ''logo'' str_of;
     location \<leftarrow> req kvs ''location'' str_of; typ \<leftarrow> req kvs ''type'' str_of; paid \<leftarrow> req kvs ''isPaid'' bool_of;
     stipend \<leftarrow> req kvs ''stipend'' str_of; duration \<leftarrow> req kvs ''duration'' str_of;
     domain \<leftarrow> req kvs ''domain'' str_of; description \<leftarrow> req kvs ''description'' str_of;
     posted \<leftarrow> req kvs ''posted'' int_of; deadline \<leftarrow> req kvs ''deadline'' str_of;
     applicants \<leftarrow> req kvs ''applicants'' int_of; reqs \<leftarrow> req kvs ''requirements'' (list_of str_of);
     url \<leftarrow> opt kvs ''redirect_url'' str_of;
     Some \<lparr>i_id = k, i_title = title, i_company = company, i_companyId = cid, i_logo = logo,
           i_location = location, i_type = typ, i_isPaid = paid, i_stipend = stipend, i_duration = duration,
           i_domain = domain, i_description = description, i_posted = posted, i_deadline = deadline,
           i_applicants = nat applicants, i_requirements = reqs, i_redirect_url = url\<rparr> }"
| "internship_of_json _ = None"

fun company_of_json :: "json \<Rightarrow> company option" where
  "company_of_json (JObj kvs) = do {
     k \<leftarrow> req kvs ''id'' jsid_of_json; name \<leftarrow> req kvs ''name'' str_of; logo \<leftarrow> req kvs ''logo'' str_of;
     Some \<lparr>c_id = k, c_name = name, c_logo = logo\<rparr> }"
| "company_of_json _ = None"

fun application_of_json :: "json \<Rightarrow> application option" where
  "application_of_json (JObj kvs) = do {
     aid \<leftarrow> opt kvs ''id'' int_of; k \<leftarrow> req kvs ''internshipId'' jsid_of_json;
     sid \<leftarrow> req kvs ''studentId'' int_of; status \<leftarrow> req kvs ''status'' str_of;
     day \<leftarrow> req kvs ''appliedDate'' int_of;
     Some \<lparr>a_id = aid, a_internshipId = k, a_studentId = sid, a_status = status, a_appliedDate = day\<rparr> }"
| "application_of_json _ = None"

subsection \<open>The provider's storage effects\<close>

text \<open>Lines 207--211, in their order.\<close>

definition data_persist :: "json \<Rightarrow> app_state \<Rightarrow> local_storage \<Rightarrow> local_storage" where
  "data_persist notifications s ls =
     setStorage ''savedInternships'' (JArr (map json_of_jsid (savedInternships s)))
       (setStorage ''notifications'' notifications
         (setStorage ''applications'' (JArr (map json_of_application (applications s)))
           (setStorage ''companies'' (JArr (map json_of_company (companies s)))
             (setStorage ''internships'' (JArr (map json_of_internship (localInternships s))) ls))))"

record data_init =
  di_internships :: "internship list option"
  di_companies :: "company list option"
  di_applications :: "application list option"
  di_notifications :: json
  di_saved :: "jsid list option"

text \<open>
  The five \<open>useState\<close> initialisers (lines 126--131), each a \<open>getStorage\<close> with the
  seed as fallback, in order; the values read and the storage they leave.
\<close>

definition data_mount ::
  "internship list \<Rightarrow> company list \<Rightarrow> application list \<Rightarrow> json \<Rightarrow> local_storage \<Rightarrow> data_init \<times> local_storage" where
  "data_mount mockInternships mockCompanies mockApplicants mockMessages ls0 =
     (let (vi, ls1) = getStorage ''internships'' (JArr (map json_of_internship mockInternships)) ls0;
          (vc, ls2) = getStorage ''companies'' (JArr (map json_of_company mockCompanies)) ls1;
          (va, ls3) = getStorage ''applications'' (JArr (map json_of_application mockApplicants)) ls2;
          (vn, ls4) = getStorage ''notifications'' mockMessages ls3;
          (vs, ls5) = getStorage ''savedInternships'' (JArr []) ls4
      in (\<lparr>di_internships = list_of internship_of_json vi, di_companies = list_of company_of_json vc,
           di_applications = list_of application_of_json va, di_notifications = vn,
           di_saved = list_of jsid_of_json vs\<rparr>, ls5))"

subsection \<open>Lemmas\<close>

lemma those_map_Some [simp]: "those (map Some xs) = Some xs"
  by (induction xs) simp_all

lemma jsid_roundtrip [simp]: "jsid_of_json (json_of_jsid k) = Some k"
  by (cases k) simp_all

lemma str_of_JStr [simp]: "str_of \<circ> JStr = Some"
  by (rule ext) simp

lemma list_of_roundtrip:
  assumes "\<And>x. f (g x) = Some x"
  shows "list_of f (JArr (map g xs)) = Some xs"
proof -
  have "f \<circ> g = Some" by (rule ext) (simp add: assms)
  then show ?thesis by simp
qed

lemma internship_roundtrip [simp]: "internship_of_json (json_of_internship i) = Some i"
  by (cases i) (simp add: json_of_internship_def req_def opt_def opt_field_def split: option.split)

lemma company_roundtrip [simp]: "company_of_json (json_of_company c) = Some c"
  by (cases c) (simp add: json_of_company_def req_def)

lemma application_roundtrip [simp]: "application_of_json (json_of_application a) = Some a"
  by (cases a) (simp add: json_of_application_def req_def opt_def opt_field_def split: option.split)


lemma decode_encode_comp [simp]:
  "internship_of_json \<circ> json_of_internship = Some" "company_of_json \<circ> json_of_company = Some"
  "application_of_json \<circ> json_of_application = Some" "jsid_of_json \<circ> json_of_jsid = Some"
  by (rule ext, simp)+

lemma list_of_internships [simp]: "list_of internship_of_json (JArr (map json_of_internship xs)) = Some xs"
  by (rule list_of_roundtrip) simp

lemma list_of_companies [simp]: "list_of company_of_json (JArr (map json_of_company xs)) = Some xs"
  by (rule list_of_roundtrip) simp

lemma list_of_applications [simp]: "list_of application_of_json (JArr (map json_of_application xs)) = Some xs"
  by (rule list_of_roundtrip) simp

lemma list_of_saved [simp]: "list_of jsid_of_json (JArr (map json_of_jsid xs)) = Some xs"
  by (rule list_of_roundtrip) simp

text \<open>The provider's mount on the storage its effects wrote.\<close>

lemma data_mount_persist:
  assumes "is_array mockMessages" and "is_array notifications"
  shows "data_mount mockInternships mockCompanies mockApplicants mockMessages (data_persist notifications s ls)
         = (\<lparr>di_internships = Some (localInternships s), di_companies = Some (companies s),
             di_applications = Some (applications s), di_notifications = notifications,
             di_saved = Some (savedInternships s)\<rparr>, data_persist notifications s ls)"
  using assms
  by (simp add: data_mount_def getStorage_def data_persist_def setStorage_def wrong_shape_array_fallback)

lemma data_persist_other_keys:
  "k \<notin> {''internships'', ''companies'', ''applications'', ''notifications'', ''savedInternships''} \<Longrightarrow>
     data_persist notifications s ls k = ls k"
  by (simp add: data_persist_def setStorage_def)

subsection \<open>Properties\<close>

text \<open>
  C27: a reload restores what the provider stored.  After the five effects have
  written the state, the next mount of the provider reads back exactly the local
  listings, the companies, the applications, the notifications and the saved list,
  and leaves the storage as it was (no key is re-seeded), as long as the stored
  notifications are an array like their seed.
\<close>

theorem reload_restores:
  assumes "is_array mockMessages" and "is_array notifications"
  shows "data_mount mockInternships mockCompanies mockApplicants mockMessages (data_persist notifications s ls)
         = (\<lparr>di_internships = Some (localInternships s), di_companies = Some (companies s),
             di_applications = Some (applications s), di_notifications = notifications,
             di_saved = Some (savedInternships s)\<rparr>, data_persist notifications s ls)"
  using assms by (rule data_mount_persist)

theorem reload_restores_witness:
  "data_mount [] [] [] (JArr []) (data_persist (JArr []) demo_state Map.empty)
   = (\<lparr>di_internships = Some (localInternships demo_state), di_companies = Some (companies demo_state),
       di_applications = Some (applications demo_state), di_notifications = JArr [],
       di_saved = Some (savedInternships demo_state)\<rparr>, data_persist (JArr []) demo_state Map.empty)"
  by (rule reload_restores) simp_all

end
