(* ===== verification/Reload.thy ===== *)
theory Reload
  imports Persistence
begin

text \<open>
  A reload of the whole application (\<open>src/src/App.jsx\<close>, lines 23--70): the identity
  store renders first and reads the roster (\<open>getStoredUsers\<close>), its mount effect
  restores the session (\<open>restoreSession\<close>), and only then, once
  \<open>initialAuthLoading\<close> is false, the data provider mounts and reads its five keys.
  Both providers share one \<open>localStorage\<close>; the identity store keeps its two keys in
  step with its state, which is an invariant of every reachable state.
\<close>

text \<open>The identity store's keys hold the encoding of its roster and of its session.\<close>

definition auth_synced :: "auth_state \<Rightarrow> bool" where
  "auth_synced st \<longleftrightarrow>
     auth_ls st skillbridge_users = Some (Valid (json_of_users (users st)))
     \<and> auth_ls st skillbridge_user = map_option (Valid \<circ> json_of_user) (cur_user st)"

datatype app_view = AuthSpinner | AppShown

text \<open>\<open>AppContent\<close> (lines 33--43): the spinner until the session check is done.\<close>

definition app_content :: "bool \<Rightarrow> app_view" where
  "app_content initialAuthLoading = (if initialAuthLoading then AuthSpinner else AppShown)"

text \<open>
  The storage after the data provider's effects have run on the state \<open>s\<close>: the
  identity store's storage with the five data keys written on top.
\<close>

definition app_storage :: "json \<Rightarrow> app_state \<Rightarrow> local_storage" where
  "app_storage notifications s = data_persist notifications s (auth_ls (auth s))"

text \<open>
  The reload: roster, session, then (the spinner gone) the data provider's mount; the
  values read and the storage left.
\<close>

definition app_reload ::
  "user list \<Rightarrow> internship list \<Rightarrow> company list \<Rightarrow> application list \<Rightarrow> json \<Rightarrow> local_storage
   \<Rightarrow> (json \<times> json option \<times> data_init) \<times> local_storage" where
  "app_reload initialUsers mockInternships mockCompanies mockApplicants mockMessages ls0 =
     (let (us, ls1) = getStoredUsers (json_of_users initialUsers) ls0;
          (u, ls2) = restoreSession ls1;
          (d, ls3) = data_mount mockInternships mockCompanies mockApplicants mockMessages ls2
      in ((us, u, d), ls3))"

subsection \<open>Lemmas\<close>

lemma skillbridge_keys_not_data:
  "skillbridge_users \<notin> {''internships'', ''companies'', ''applications'', ''notifications'', ''savedInternships''}"
  "skillbridge_user \<notin> {''internships'', ''companies'', ''applications'', ''notifications'', ''savedInternships''}"
  by (simp_all add: skillbridge_users_def skillbridge_user_def)

lemma skillbridge_keys_differ: "skillbridge_user \<noteq> skillbridge_users" "skillbridge_users \<noteq> skillbridge_user"
  by (simp_all add: skillbridge_users_def skillbridge_user_def)

lemma login_synced: "auth_synced st \<Longrightarrow> auth_synced (snd (login e p st))"
  by (auto simp: login_def auth_synced_def setStorage_def skillbridge_keys_differ split: option.split)

lemma signup_synced: "auth_synced st \<Longrightarrow> signup now d st = Inr (nu, st') \<Longrightarrow> auth_synced st'"
  by (auto simp: signup_def auth_synced_def setStorage_def skillbridge_keys_differ Let_def split: if_splits)

lemma logout_synced: "auth_synced st \<Longrightarrow> auth_synced (logout st)"
  by (simp add: logout_def auth_synced_def removeItem_def skillbridge_keys_differ)

lemma updateUser_synced: "auth_synced st \<Longrightarrow> auth_synced (updateUser p st)"
  by (auto simp: updateUser_def auth_synced_def setStorage_def skillbridge_keys_differ Let_def
           split: option.split)

lemma app_step_synced: "auth_synced (auth s) \<Longrightarrow> auth_synced (auth (app_step s e))"
proof (cases e)
  case (Signup now d)
  assume "auth_synced (auth s)"
  with Signup show ?thesis
    by (auto simp: signup_synced split: sum.split)
qed (simp_all add: login_synced logout_synced updateUser_synced Let_def)

lemma reachable_synced: "reachable s0 s \<Longrightarrow> auth_synced (auth s0) \<Longrightarrow> auth_synced (auth s)"
  by (induction rule: reachable.induct) (simp_all add: app_step_synced)

lemma json_of_user_not_null [simp]: "json_of_user u \<noteq> JNull"
  by (simp add: json_of_user_def)

lemma app_storage_auth_keys:
  assumes "auth_synced (auth s)"
  shows "app_storage n s skillbridge_users = Some (Valid (json_of_users (users (auth s))))"
    and "app_storage n s skillbridge_user = map_option (Valid \<circ> json_of_user) (cur_user (auth s))"
  using assms data_persist_other_keys [OF skillbridge_keys_not_data(1), of n s]
    data_persist_other_keys [OF skillbridge_keys_not_data(2), of n s]
  by (simp_all add: app_storage_def auth_synced_def)

lemma auth_mount_synced:
  assumes "auth_synced (auth s)"
  shows "getStoredUsers iu (app_storage n s) = (json_of_users (users (auth s)), app_storage n s)"
    and "restoreSession (app_storage n s) = (map_option json_of_user (cur_user (auth s)), app_storage n s)"
  using app_storage_auth_keys [OF assms, of n]
  by (simp_all add: getStoredUsers_def restoreSession_def json_of_users_def split: option.split)


definition demo_fresh :: app_state where
  "demo_fresh = \<lparr>auth = \<lparr>users = [], cur_user = None, auth_ls = [skillbridge_users \<mapsto> Valid (JArr [])]\<rparr>,
     localInternships = [demo_listing (NumId 1) ''Local'' [] 1], externalInternships = [],
     companies = [], applications = [], savedInternships = [NumId 1]\<rparr>"

subsection \<open>Properties\<close>

text \<open>
  C21: the identity store keeps its two \<open>localStorage\<close> keys in step with its state.
  If at the start \<open>skillbridge_users\<close> holds the JSON of the roster and
  \<open>skillbridge_user\<close> that of the session account (or is absent when no one is signed
  in), this holds in every reachable state and after every further event: login,
  signup, logout and \<open>updateUser\<close> each write both keys together with the state, and
  the data provider's events touch neither.
\<close>

theorem reachable_auth_synced:
  assumes "reachable s0 s" and "auth_synced (auth s0)"
  shows "auth_synced (auth s) \<and> auth_synced (auth (app_step s e))"
proof -
  have "auth_synced (auth s)" using assms by (rule reachable_synced)
  then show ?thesis by (simp add: app_step_synced)
qed

theorem reachable_auth_synced_witness:
  "auth_synced (auth (app_step demo_fresh (Signup 5 (demo_student []))))
   \<and> auth_synced (auth (app_step (app_step demo_fresh (Signup 5 (demo_student []))) Logout))"
proof (rule reachable_auth_synced)
  show "reachable demo_fresh (app_step demo_fresh (Signup 5 (demo_student [])))"
    by (rule reachable.step [OF reachable.start]) (simp add: demo_fresh_def)
  show "auth_synced (auth demo_fresh)"
    by (simp add: demo_fresh_def auth_synced_def json_of_users_def skillbridge_keys_differ)
qed

text \<open>
  C16: a reload restores the whole application.  In every state reachable from one
  whose identity keys match the identity store, once the data provider's effects have
  run, a reload reads the roster and the session account exactly as they are encoded
  in the state, and the data provider's listings, companies, applications,
  notifications and saved list exactly, and writes nothing: the two providers share
  the storage without overwriting each other's keys.
\<close>

theorem app_reload_restores:
  assumes "reachable s0 s" and "auth_synced (auth s0)"
    and "is_array mockMessages" and "is_array notifications"
  shows "app_reload initialUsers mockInternships mockCompanies mockApplicants mockMessages (app_storage notifications s)
         = ((json_of_users (users (auth s)), map_option json_of_user (cur_user (auth s)),
             \<lparr>di_internships = Some (localInternships s), di_companies = Some (companies s),
              di_applications = Some (applications s), di_notifications = notifications,
              di_saved = Some (savedInternships s)\<rparr>), app_storage notifications s)"
proof -
  have sy: "auth_synced (auth s)" using reachable_synced [OF assms(1,2)] .
  have "data_mount mockInternships mockCompanies mockApplicants mockMessages (app_storage notifications s)
        = (\<lparr>di_internships = Some (localInternships s), di_companies = Some (companies s),
            di_applications = Some (applications s), di_notifications = notifications,
            di_saved = Some (savedInternships s)\<rparr>, app_storage notifications s)"
    unfolding app_storage_def by (rule data_mount_persist [OF assms(3,4)])
  with auth_mount_synced [OF sy] show ?thesis by (simp add: app_reload_def)
qed

theorem app_reload_restores_witness:
  "app_reload [] [] [] [] (JArr []) (app_storage (JArr []) (app_step demo_fresh (Signup 5 (demo_student []))))
   = ((json_of_users (users (auth (app_step demo_fresh (Signup 5 (demo_student []))))),
       map_option json_of_user (cur_user (auth (app_step demo_fresh (Signup 5 (demo_student []))))),
       \<lparr>di_internships = Some (localInternships (app_step demo_fresh (Signup 5 (demo_student [])))),
        di_companies = Some (companies (app_step demo_fresh (Signup 5 (demo_student [])))),
        di_applications = Some (applications (app_step demo_fresh (Signup 5 (demo_student [])))),
        di_notifications = JArr [],
        di_saved = Some (savedInternships (app_step demo_fresh (Signup 5 (demo_student []))))\<rparr>),
      app_storage (JArr []) (app_step demo_fresh (Signup 5 (demo_student []))))"
proof (rule app_reload_restores)
  show "reachable demo_fresh (app_step demo_fresh (Signup 5 (demo_student [])))"
    by (rule reachable.step [OF reachable.start]) (simp add: demo_fresh_def)
  show "auth_synced (auth demo_fresh)"
    by (simp add: demo_fresh_def auth_synced_def json_of_users_def skillbridge_keys_differ)
qed simp_all
end
