(* ===== verification/Spec2Isabelle.thy ===== *)
theory Spec2Isabelle
  imports App Routing Adzuna Reload
begin

text \<open>
  \<^bold>\<open>SkillBridge: a verification development.\<close>

  The repository is a React front end for an internship marketplace.  Its logic lives
  in two context providers: \<open>src/src/context/AuthContext.jsx\<close> (accounts and the
  session) and \<open>src/src/context/DataContext.jsx\<close> (listings, applications, saved
  listings, search, recommendations, profile checklist), with the synonym table
  \<open>src/src/data/keywordRelationships.js\<close>.  Pages and components read the providers'
  values with \<open>useAuth()\<close>/\<open>useData()\<close>, keep their own React state and call the
  providers' functions; the providers keep React state and mirror it to
  \<open>localStorage\<close>.  This development models the providers as plain HOL functions over
  explicit state, the pages as records of their state with one function per handler
  and effect, and the provider interface as the list of keys each side names.

  \<^bold>\<open>Theories, in import order.\<close>
  \<^item> \<open>Prelude\<close>: the JavaScript primitives the code uses (\<open>toLowerCase\<close>,
    \<open>includes\<close>, \<open>split\<close>, \<open>join\<close>, \<open>trim\<close>, \<open>Math.round\<close> of a percentage) as
    executable functions, with \<open>includes\<close> proved equal to \<open>Sublist.sublist\<close> and
    \<open>join\<close> inverting \<open>split\<close>; ids compared with \<open>===\<close> are the datatype
    \<open>jsid\<close> (number or string); the exceptions \<open>js_error\<close> (\<open>TypeError\<close>,
    \<open>ReferenceError\<close>) and \<open>jsx_elements\<close>, the elements a render creates checked
    against the identifiers in the module's scope.
  \<^item> \<open>Storage\<close>: \<open>localStorage\<close> as a map from keys to stored strings, each the
    serialisation of a JSON value (\<open>Valid\<close>) or a string \<open>JSON.parse\<close> rejects
    (\<open>Invalid\<close>); \<open>getStorage\<close>/\<open>setStorage\<close> (DataContext 26--59), the roster
    reader \<open>getStoredUsers\<close> and the session restore (AuthContext 14--61).
  \<^item> \<open>Validation\<close>: the regular expressions of the forms (\<open>emailRegex\<close> of
    Signup and ApplyModal, \<open>phoneRegex\<close>) as executable tests, the email test proved
    equal to the language of the pattern.
  \<^item> \<open>Interface\<close>: the keys \<open>AuthProvider\<close> and \<open>DataProvider\<close> publish, the keys
    each consumer destructures, \<open>ctx_read\<close> (\<open>None\<close> for \<open>undefined\<close>).
  \<^item> \<open>Auth\<close>: the \<open>user\<close> record (absent fields as \<open>option\<close>), the state
    \<open>auth_state\<close> = roster, session, storage; \<open>login\<close>, \<open>signup\<close> (errors as
    \<open>Inl EmailExists\<close>), \<open>logout\<close>, \<open>updateUser\<close> with the patch record
    \<open>user_patch\<close>; the invariant \<open>auth_inv\<close> and one preservation lemma per
    operation.
  \<^item> \<open>Listings\<close>: \<open>company\<close> and \<open>internship\<close> records, the merge
    \<open>allInternships\<close> (a JavaScript \<open>Map\<close> keyed by id), \<open>parseInt\<close> and
    \<open>getInternship\<close>/\<open>getCompany\<close>, \<open>addInternship\<close>.
  \<^item> \<open>Ledger\<close>: \<open>application\<close> records, \<open>applyForInternship\<close> (its duplicate check
    reads the render-time closure \<open>seen\<close>), \<open>updateApplicationStatus\<close>,
    \<open>getStudentApplications\<close>, \<open>getRecruiterApplicants\<close>.
  \<^item> \<open>Matching\<close>: the synonym table, \<open>keyword_lookup\<close> (own keys, inherited
    \<open>Object.prototype\<close> names, absent), \<open>expandedKeywords\<close>,
    \<open>getFilteredInternships\<close> (a \<open>TypeError\<close> is \<open>Inl\<close>), \<open>matchPercentage\<close>, the
    ranking \<open>getRecommendedInternships\<close>, the profile checklist and score,
    \<open>getSearchableTerms\<close> and \<open>suggestions\<close>.
  \<^item> \<open>Saved\<close>: \<open>toggleSaveInternship\<close>.
  \<^item> \<open>App\<close>: both providers' state as one record, the \<open>event\<close> datatype of the
    mutations the UI calls, \<open>app_step\<close>, the environment condition \<open>env_ok\<close>,
    \<open>reachable\<close> as an inductive relation, and \<open>app_inv\<close> for every reachable state
    by rule induction.
  \<^item> \<open>AuthPages\<close> (\<open>pages/auth/Login.jsx\<close>, \<open>Signup.jsx\<close>), \<open>ProfilePage\<close>
    (\<open>pages/student/StudentProfile.jsx\<close>, \<open>components/EditProfileForm.jsx\<close>),
    \<open>PostPage\<close> (\<open>pages/PostInternship.jsx\<close>), \<open>DetailsPage\<close>
    (\<open>pages/InternshipDetails.jsx\<close>, \<open>components/ApplyModal.jsx\<close>) and
    \<open>Dashboards\<close> (\<open>pages/StudentDashboard.jsx\<close>, \<open>pages/RecruiterDashboard.jsx\<close>,
    the profile projections of DataContext 219--256, and the widgets
    \<open>ProfileImpactMeter\<close>, \<open>StatusBadge\<close>, \<open>DynamicStats\<close>,
    \<open>RecruiterActivityStream\<close>) and \<open>BrowsePage\<close> (\<open>pages/BrowseInternships.jsx\<close>,
    with React's render cycle of its suggestion effect, array identities as fresh
    numbers): each page's state as a record, each handler and
    effect as a function returning the new page state, the provider state and the
    route taken; UI events as a datatype with a step function over event lists.  The
    listing page is also driven as a run of user events (\<open>DetailsPage.details_run\<close>)
    in which every commit renders the page with its modal and a render that throws
    ends the run, since no error boundary is installed.
  \<^item> \<open>DashboardViews\<close>: what the two dashboards render past their gates (stat
    cards, the recruiter's listing rows and applicant cards, the student's application
    items and recommendations) and the listing card \<open>components/InternshipCard.jsx\<close>
    (its saved-heart effect, \<open>handleSave\<close> and every field with its fallback),
    with the impact meter's ring (\<open>DashboardViews.meter_render\<close>, its dash offset
    kept within the circumference).  The login page's first render
    (\<open>AuthPages.login_view\<close>), the profile's resume and project views, the admin
    panel's hard-coded users tab, the browse page's results label and the landing
    counters' cards (\<open>DashboardViews.stat_items\<close>) are views of the same kind;
    \<open>EditProfileModal.jsx\<close>'s click bubbling, with the panel's
    \<open>stopPropagation\<close>, is \<open>ProfilePage.profile_modal_dispatch\<close>.
  \<^item> \<open>Adzuna\<close>: \<open>fetchAdzunaInternships\<close> of DataContext (lines 61--119), its
    credential guard, the mapping of a result to a listing and the keyword extraction
    \<open>/\b(react|...)\b/gi\<close> as a terminating scan; the HTTP response is a parameter.
  \<^item> \<open>Persistence\<close>: the data provider's \<open>getStorage\<close> initialisers (DataContext
    126--131) and its five persistence effects (207--211), with JSON encoders and decoders
    of listings, companies and applications.
  \<^item> \<open>Reload\<close>: \<open>App.jsx\<close>'s provider nesting and \<open>initialAuthLoading\<close> gate, the
    one \<open>localStorage\<close> both providers share, the identity store's storage invariant
    \<open>Reload.auth_synced\<close> (kept by every event), and a reload of the whole application.
  \<^item> \<open>AdminPage\<close> (\<open>pages/admin/AdminPanel.jsx\<close>) and \<open>MessagesPage\<close>
    (\<open>pages/Messages.jsx\<close>): page-local state, an action datatype and a step function
    returning the alert raised, as in a labelled transition system; runs of actions are
    folds of the step.
  \<^item> \<open>Routing\<close>: the route table of \<open>App.jsx\<close> with React Router's matching, the
    navbar's menus, every fixed link and \<open>navigate\<close> target of the pages, the detail
    link of a listing (\<open>Dashboards.detail_link\<close>), and the home page's featured list and quick search.
  \<^item> \<open>Spec2Isabelle\<close> (this theory): the properties that span components.

  \<^bold>\<open>What the properties show.\<close>  Applying twice is applying once (C1); in every
  reachable state each student has at most one application per listing (C2) and the
  roster has unique emails and ids with the session account in it (C3), and the
  identity store's two storage keys hold the JSON of its roster and session (C21).
  The merged listing view refines a last-write-wins map
  (C4, C5); the detail link of a listing is routed to the details page, whose
  \<open>parseInt\<close> lookup finds that listing (C6), under a hypothesis every fetched
  external listing meets; with the source's placeholder credentials the fetch yields
  nothing (C18).  Search is
  an OR over the query's tokens and their related terms (C7).  Match percentages lie in
  [0, 100] when skills are distinct (C9); the ranking is a top five
  (\<open>Matching.getRecommended_top\<close>) and is the unique stable sort by the source's comparator
  (\<open>Matching.js_sort_is_sort_key\<close>); the profile score is the sum of
  the completed checklist items
  (\<open>Matching.profile_score_consistent\<close>).  Signup behaves as the code says (C17; a
  registered email is refused, \<open>Auth.signup_duplicate_email\<close>),
  recruiters see only their company's applicants (C23), after the provider's effects store its state a reload reads it back
  unchanged and re-seeds no key (C27); from every reachable state a reload of the
  whole application restores the roster, the session and all provider data, the two
  providers never overwriting each other's keys (C16).  On the pages: the signup button and the submit-time validation agree (C31), no
  input sequence creates an admin (C32), a new account logs in (C33); the profile
  editor's Edit and Update replace exactly the chosen entry (C34) and never change id or
  email (C35); a post appends one listing with trimmed requirements (C37); on the
  browse page Clear All shows the whole catalogue and a domain chip only that domain
  (\<open>BrowsePage.browse_clear_and_chips\<close>).  No link of the application is dead
  (C19).  The admin
  panel can only remove companies and listings, never adds a pending company, and a
  rejected company never returns (C38); on the messages page the selection is always
  one of the messages and the unread count never grows (C36).  The
  activity stream's collection loop ends within \<open>limit * 5\<close> calls of the generator
  and returns at most \<open>limit\<close> distinct activities (C11, termination).

  \<^bold>\<open>Findings the model exposes\<close> (each a theorem): the query \<open>constructor\<close>
  crashes the search (C8); one status click with an \<open>undefined\<close> id rewrites every
  application created in the browser (C20); a recruiter's or admin's click on a card's
  heart toggles the students' shared saved list while the heart stays empty (C25); the
  card and the details page of one listing disagree on its pay and place (C13); a
  double submit from one render records two applications
  (C22); a corrupt stored roster is overwritten by the first signup (C28); signup seeds
  \<open>about\<close>, not \<open>bio\<close> (C17).  The provider interface is not type-correct: eight
  consumers read \<open>user\<close>, \<open>applications\<close> or \<open>loading\<close>, which no provider publishes
  (C26); so the recruiter dashboard throws as soon as it is shown (C10), the details
  page forgets after a reload that the student applied (C29), the impact meter and
  activity stream never render and the landing counters ignore the data (C30).  Two
  pages create elements their modules do not import: the application modal's submit
  button (\<open>Send\<close>, \<open>Loader2\<close>), so the student's \<open>Apply Now\<close> on an internal
  listing crashes the page (C12) and no student can apply at all from the listing
  page (C15); and the profile's links card (\<open>Linkedin\<close>), so an account with a
  LinkedIn address cannot open its profile (C14).  A recruiter created by signup has no
  company and can never post (C39).  The browse page never stops
  rendering: its suggestion effect depends on a fresh array from
  \<open>getSearchableTerms()\<close> and stores another fresh array, so every commit asks for
  another render (C24, proved for every amount of fuel).  Lemmas outside the claims show the
  status case mismatch between the two dashboards (\<open>Dashboards.status_case_mismatch\<close>)
  and the case-sensitive dashboard recommendations; case-different skills give a 200%
  match (\<open>ProfilePage.profile_case_duplicate_match\<close>); a trailing comma posts an
  empty requirement (\<open>PostPage.post_trailing_comma_requirement\<close>); the messages page is
  linked only from the student dashboard (\<open>Routing.messages_link_only_student\<close>);
  applying to an external listing never counts the applicant
  (\<open>apply_external_counter_unchanged\<close>); a corrupt stored string is kept
  (\<open>Storage.getStorage_corrupt\<close>); the login page shows its error banner before
  anything is typed (\<open>AuthPages.login_initial_errors\<close>); the admin users tab lists
  two fixed rows whatever the roster (\<open>AdminPage.admin_user_rows\<close>).

  \<^bold>\<open>Modelling choices.\<close>  Strings are \<open>char\<close> lists and case conversion is ASCII;
  dates are day numbers; \<open>Date.now()\<close>, today's date and \<open>Math.random()\<close> are
  parameters.  \<open>Math.round((m / n) * 100)\<close> is computed exactly.  \<open>App.reachable\<close>
  lets every provider function be called at any time, as if some page called it; it
  over-approximates what the pages can do, so it is used for invariants (C2, C3, C16,
  C21) and never to show that something can happen: whether a page can call a
  function is a property of that page's model (C15).  JSON serialisation
  is abstracted by its round trip.  A page's asynchronous delay (the apply modal's
  1.5 s) is collapsed into one step.  The activity loop is a \<open>function\<close> with a
  measure (\<open>maxAttempts - attempts\<close>).  The browse page's render cycle is given fuel
  (\<open>browse_settle\<close>), because it does not end: the theorem says that no fuel suffices.
  The keyword scan of \<open>Adzuna.kw_matches\<close> is a \<open>function\<close> with the measure
  \<open>length s - i\<close>.  Every other function is structural.

  \<^bold>\<open>Not modelled, and why.\<close>  Styling and markup (the rendered values are
  modelled); the static text of the about and contact pages, the footer and the
  skeleton components (their links and the contact form's native submission are in
  \<open>Routing.page_links\<close>); \<open>tailwind.config.js\<close> and the build files, which are
  configuration; the HTTP request of the Adzuna fetch (its response is a parameter,
  and the fetch's result enters the application model as the \<open>ExternalLoaded\<close>
  event); \<open>src/data/mockData\<close>, which is not in the repository (seeds are
  parameters).
\<close>

subsection \<open>Properties spanning components\<close>

text \<open>
  C1: applying twice to one listing from fresh renders is applying once: one
  application record and one increment of the applicant counter (P2).
\<close>

theorem apply_idempotent:
  "app_step (app_step s (Apply d k)) (Apply d' k) = app_step s (Apply d k)"
proof -
  let ?st = "(applications s, localInternships s)"
  let ?r = "applyForInternship d (cur_user (auth s)) (applications s) k ?st"
  have "applyForInternship d' (cur_user (auth s)) (fst ?r) k ?r = ?r"
    using applyForInternship_absorb [where d'=d' and user="cur_user (auth s)" and d=d and k=k and st="?st"] by simp
  then show ?thesis by (simp add: Let_def)
qed

text \<open>
  C2: in every state reachable from a consistent start, each student has at most one
  application per listing.
\<close>

theorem reachable_pairs_unique:
  "reachable s0 s \<Longrightarrow> app_inv s0 \<Longrightarrow> distinct (map (\<lambda>a. (a_studentId a, a_internshipId a)) (applications s))"
  using reachable_app_inv by (auto simp: app_inv_def pairs_unique_def)

theorem reachable_pairs_unique_witness:
  "distinct (map (\<lambda>a. (a_studentId a, a_internshipId a))
     (applications (app_step (app_step demo_state (Apply 3 (NumId 1))) (Apply 4 (NumId 1)))))"
proof (rule reachable_pairs_unique [of demo_state])
  show "reachable demo_state (app_step (app_step demo_state (Apply 3 (NumId 1))) (Apply 4 (NumId 1)))"
    by (intro reachable.step reachable.start) simp_all
qed (rule demo_state_inv)

text \<open>
  C3: in every reachable state, emails and ids are unique in the roster and the
  session account is one of the roster's.
\<close>

theorem reachable_roster_consistent:
  "reachable s0 s \<Longrightarrow> app_inv s0 \<Longrightarrow>
   distinct (map u_email (users (auth s))) \<and> distinct (map u_id (users (auth s)))
   \<and> (\<forall>u. cur_user (auth s) = Some u \<longrightarrow> u \<in> set (users (auth s)))"
  using reachable_app_inv by (auto simp: app_inv_def auth_inv_def)

theorem reachable_roster_consistent_witness:
  "distinct (map u_email (users (auth (app_step demo_state (Signup 2 ((demo_student [])\<lparr>u_email := ''t@uni.edu''\<rparr>))))))"
proof -
  have "reachable demo_state (app_step demo_state (Signup 2 ((demo_student [])\<lparr>u_email := ''t@uni.edu''\<rparr>)))"
    by (intro reachable.step reachable.start) (simp add: demo_state_def demo_auth_def demo_student_def)
  from reachable_roster_consistent [OF this demo_state_inv] show ?thesis by simp
qed

text \<open>
  C17: a student signup with no profile fields (scenario A) gets empty skills,
  education, projects, resume, phone, location, links and \<open>about\<close>, becomes the
  session and joins the roster.  The default is \<open>about\<close>; \<open>bio\<close>, the field the
  profile checklist tests, stays absent, and the new profile scores 0.
\<close>

theorem signup_student_profile:
  assumes "signup now d st = Inr (nu, st')" "u_role d = Student"
    and "u_skills d = None" "u_education d = None" "u_projects d = None" "u_resume d = None"
    and "u_phone d = None" "u_location d = None" "u_links d = None" "u_about d = None" "u_bio d = None"
  shows "u_skills nu = Some [] \<and> u_education nu = Some [] \<and> u_projects nu = Some []
         \<and> u_resume nu = Some [] \<and> u_phone nu = Some [] \<and> u_location nu = Some []
         \<and> u_links nu = Some [] \<and> u_about nu = Some [] \<and> u_bio nu = None
         \<and> cur_user st' = Some nu \<and> nu \<in> set (users st') \<and> profileScore nu = 0"
  using assms
  by (auto simp: signup_Inr student_defaults_def or_default_def profileScore_def truthy_str_def list_len_def)

theorem signup_student_profile_witness:
  "signup 2 ((demo_student [])\<lparr>u_email := ''a@x.com'', u_skills := None\<rparr>) demo_auth
     = Inr (student_defaults ((demo_student [])\<lparr>u_email := ''a@x.com'', u_skills := None, u_id := 2\<rparr>),
            snd (projr (signup 2 ((demo_student [])\<lparr>u_email := ''a@x.com'', u_skills := None\<rparr>) demo_auth)))
   \<and> profileScore (student_defaults ((demo_student [])\<lparr>u_email := ''a@x.com'', u_skills := None, u_id := 2\<rparr>)) = 0"
proof -
  let ?d = "(demo_student [])\<lparr>u_email := ''a@x.com'', u_skills := None\<rparr>"
  let ?nu = "student_defaults (?d\<lparr>u_id := 2\<rparr>)"
  have s: "signup 2 ?d demo_auth = Inr (?nu, snd (projr (signup 2 ?d demo_auth)))"
    by (simp add: signup_def demo_auth_def demo_student_def Let_def)
  from signup_student_profile [OF s] have "profileScore ?nu = 0"
    by (simp add: demo_student_def)
  with s show ?thesis by simp
qed

text \<open>
  Applying to a listing that is not local (an external one) updates no counter:
  the merged view the pages show is unchanged, while the spec says the applicant
  counter is incremented.
\<close>

theorem apply_external_counter_unchanged:
  "k \<notin> set (map i_id (localInternships s)) \<Longrightarrow> internships (app_step s (Apply d k)) = internships s"
proof -
  assume k: "k \<notin> set (map i_id (localInternships s))"
  then have "bump_applicants k (localInternships s) = localInternships s"
    by (auto simp: bump_applicants_def intro!: map_idI)
  then show ?thesis
    by (simp add: internships_def applyForInternship_def Let_def split: option.split)
qed

theorem apply_external_counter_unchanged_witness:
  "internships (app_step demo_state (Apply 3 (StrId ''adzuna-9''))) = internships demo_state
   \<and> applications (app_step demo_state (Apply 3 (StrId ''adzuna-9''))) \<noteq> []"
proof -
  have "StrId ''adzuna-9'' \<notin> set (map i_id (localInternships demo_state))"
    by (simp add: demo_state_def demo_listing_def)
  then have "internships (app_step demo_state (Apply 3 (StrId ''adzuna-9''))) = internships demo_state"
    by (rule apply_external_counter_unchanged)
  moreover have "applications (app_step demo_state (Apply 3 (StrId ''adzuna-9''))) \<noteq> []"
    by (simp add: demo_state_def demo_auth_def demo_student_def applyForInternship_def has_applied_def Let_def)
  ultimately show ?thesis by simp
qed

text \<open>
  C28: a stored roster that does not parse gives an empty roster in memory, and the
  first signup then writes a roster of one account over it: the stored accounts are
  lost, although the code's comment says the empty result is there to prevent data
  loss.
\<close>

theorem corrupt_roster_overwritten:
  assumes "ls skillbridge_users = Some (Invalid s)" "s \<noteq> []"
  shows "getStoredUsers initialUsers ls = (JArr [], ls)
         \<and> (signup now d \<lparr>users = [], cur_user = c, auth_ls = ls\<rparr> = Inr (nu, st')
            \<longrightarrow> auth_ls st' skillbridge_users = Some (Valid (json_of_users [nu])))"
  using assms by (auto simp: getStoredUsers_def signup_Inr setStorage_def skillbridge_user_def skillbridge_users_def)

theorem corrupt_roster_overwritten_witness:
  "getStoredUsers (JArr []) [skillbridge_users \<mapsto> Invalid ''[{broken''] = (JArr [], [skillbridge_users \<mapsto> Invalid ''[{broken''])"
  using corrupt_roster_overwritten [of "[skillbridge_users \<mapsto> Invalid ''[{broken'']" "''[{broken''" "JArr []"]
  by simp

text \<open>
  C39: a recruiter account created on the signup page has no \<open>companyId\<close> (the page
  sends name, email, password and role only), so the posting page never finds its
  company: every submit is blocked by the browser or ends in the alert \<open>Company
  details not found\<close>, and no listing is added.
\<close>

theorem signup_recruiter_cannot_post:
  assumes "signup_handleSubmit now p st = (p', st', Some path)"
  shows "post_handleSubmit now' today (cur_user st') cs f loc
         = (if post_required_ok f then Alerted ''Company details not found. Cannot post internship.'' else Blocked,
            loc)"
proof -
  from signup_handleSubmit_Some [OF assms] obtain nu where
    s: "signup now (signup_userData (sp_form p)) st = Inr (nu, st')" by blast
  then have "cur_user st' = Some nu" "u_companyId nu = None"
    by (auto simp: signup_Inr signup_userData_def student_defaults_def)
  then have "recruiter_company (cur_user st') cs = None"
    by (simp add: recruiter_company_def company_of_def)
  then show ?thesis by (simp add: post_handleSubmit_def)
qed

theorem signup_recruiter_cannot_post_witness:
  "post_handleSubmit 9 20000
     (cur_user (fst (snd (signup_handleSubmit 5 (foldl signup_change signup_initial demo_signup_inputs) demo_auth))))
     demo_companies demo_post_form []
   = (Alerted ''Company details not found. Cannot post internship.'', [])"
proof -
  let ?r = "signup_handleSubmit 5 (foldl signup_change signup_initial demo_signup_inputs) demo_auth"
  have "snd (snd ?r) = Some ''/recruiter/dashboard''" by code_simp
  then have r: "?r = (fst ?r, fst (snd ?r), Some ''/recruiter/dashboard'')" by (metis prod.collapse)
  have "post_required_ok demo_post_form" by code_simp
  with signup_recruiter_cannot_post [OF r, of 9 20000 demo_companies demo_post_form "[]"]
  show ?thesis by simp
qed

text \<open>
  C13: the listing card and the details page of the same listing disagree on its pay and
  its place.  The card shows \<open>isPaid ? (stipend || 'Paid') : 'Unpaid'\<close>, the details
  page \<open>stipend || 'Unpaid'\<close>: they agree exactly when the stipend is given for a
  paid listing and missing for an unpaid one, or the stipend text is itself
  \<open>Unpaid\<close>.  For the place the card falls back to the type, the page to \<open>Remote\<close>.
\<close>

theorem card_details_disagree:
  "(cv_pay (card_view i mp f) = df_pay (details_fields i)
      \<longleftrightarrow> (i_isPaid i \<longleftrightarrow> i_stipend i \<noteq> []) \<or> i_stipend i = ''Unpaid'')
   \<and> (cv_where (card_view i mp f) = df_location (details_fields i)
      \<longleftrightarrow> i_location i \<noteq> [] \<or> or_string (i_type i) ''N/A'' = ''Remote'')"
  by (auto simp: card_view_def details_fields_def or_string_def)

theorem card_details_disagree_witness:
  "(cv_pay (card_view (demo_listing (NumId 1) ''Web'' [] 1) None False)
      = df_pay (details_fields (demo_listing (NumId 1) ''Web'' [] 1))
      \<longleftrightarrow> (i_isPaid (demo_listing (NumId 1) ''Web'' [] 1) \<longleftrightarrow> i_stipend (demo_listing (NumId 1) ''Web'' [] 1) \<noteq> [])
          \<or> i_stipend (demo_listing (NumId 1) ''Web'' [] 1) = ''Unpaid'')
   \<and> \<not> (i_isPaid (demo_listing (NumId 1) ''Web'' [] 1) \<longleftrightarrow> i_stipend (demo_listing (NumId 1) ''Web'' [] 1) \<noteq> [])"
  using card_details_disagree [of "demo_listing (NumId 1) ''Web'' [] 1" None False]
  by (simp add: demo_listing_def)

end
